theory Spec2Isabelle
  imports Main
begin

section \<open>The documentation table of contents (docs/_toc.yaml)\<close>

text \<open>
  The file is a YAML mapping with the single key \<open>toc\<close>, whose value is a sequence of
  mappings. Each mapping is kept as the list of its key/value pairs, in the order of the
  file; all values are strings.
\<close>

type_synonym toc_entry = "(string \<times> string) list"

definition toc :: "toc_entry list" where
  "toc = [
    [(''heading'', ''ReCirq Guide'')],
    [(''title'', ''Research with ReCirq''), (''path'', ''/cirq/experiments/research'')],
    [(''title'', ''Data collection idioms''), (''path'', ''/cirq/experiments/guide/data_collection_idioms'')],
    [(''title'', ''Data collection''), (''path'', ''/cirq/experiments/guide/data_collection'')],
    [(''title'', ''Data analysis''), (''path'', ''/cirq/experiments/guide/data_analysis'')],
    [(''title'', ''Best practices''), (''path'', ''/cirq/experiments/guide/best_practices'')],
    [(''heading'', ''QAOA'')],
    [(''title'', ''Overview''), (''path'', ''/cirq/experiments/qaoa'')],
    [(''title'', ''Example problems''), (''path'', ''/cirq/experiments/qaoa/example_problems'')],
    [(''title'', ''Tasks''), (''path'', ''/cirq/experiments/qaoa/tasks'')],
    [(''title'', ''Precomputed analysis''), (''path'', ''/cirq/experiments/qaoa/precomputed_analysis'')],
    [(''title'', ''Landscape analysis''), (''path'', ''/cirq/experiments/qaoa/landscape_analysis'')],
    [(''title'', ''Optimization analysis''), (''path'', ''/cirq/experiments/qaoa/optimization_analysis'')],
    [(''title'', ''Hardware grid circuits''), (''path'', ''/cirq/experiments/qaoa/hardware_grid_circuits'')],
    [(''title'', ''Routing with tket''), (''path'', ''/cirq/experiments/qaoa/routing_with_tket'')],
    [(''title'', ''QAOA Max-Cut''), (''path'', ''/cirq/experiments/qaoa/qaoa_maxcut'')],
    [(''title'', ''QAOA: Ising Model''), (''path'', ''/cirq/experiments/qaoa/qaoa_ising'')],
    [(''title'', ''Binary Paintshop''), (''path'', ''/cirq/experiments/qaoa/binary_paintshop'')],
    [(''include'', ''/cirq/experiments/unitary/_toc.yaml'')],
    [(''heading'', ''Hartree-Fock VQE'')],
    [(''title'', ''Overview''), (''path'', ''/cirq/experiments/hfvqe'')],
    [(''title'', ''Quickstart''), (''path'', ''/cirq/experiments/hfvqe/quickstart'')],
    [(''title'', ''Molecular data''), (''path'', ''/cirq/experiments/hfvqe/molecular_data'')],
    [(''heading'', ''Fermi-Hubbard'')],
    [(''title'', ''Overview''), (''path'', ''/cirq/experiments/fermi_hubbard'')],
    [(''title'', ''Experiment example''), (''path'', ''/cirq/experiments/fermi_hubbard/experiment_example'')],
    [(''title'', ''Spin-charge separation results''), (''path'', ''/cirq/experiments/fermi_hubbard/publication_results'')],
    [(''heading'', ''Quantum scrambling'')],
    [(''title'', ''Overview''), (''path'', ''/cirq/experiments/otoc'')],
    [(''title'', ''Experiment example''), (''path'', ''/cirq/experiments/otoc/otoc_example'')],
    [(''heading'', ''Toric Code'')],
    [(''title'', ''Overview''), (''path'', ''/cirq/experiments/toric_code'')],
    [(''title'', ''Ground State''), (''path'', ''/cirq/experiments/toric_code/toric_code_ground_state'')],
    [(''heading'', ''Rabi oscillations'')],
    [(''title'', ''Rabi Oscillation Experiment''), (''path'', ''/cirq/experiments/benchmarks/rabi_oscillations'')],
    [(''heading'', ''Kardar-Parisi-Zhang'')],
    [(''title'', ''KPZ and the Heisenberg Spin Chain''), (''path'', ''/cirq/experiments/kpz/kpz'')],
    [(''heading'', ''Quantum-Classical Quantum Monte Carlo'')],
    [(''title'', ''Overview''), (''path'', ''/cirq/experiments/qcqmc'')],
    [(''title'', ''Code Layout''), (''path'', ''/cirq/experiments/qcqmc/high_level'')],
    [(''title'', ''End-to-End Example''), (''path'', ''/cirq/experiments/qcqmc/full_workflow'')],
    [(''title'', ''Experimental Wavefunctions''), (''path'', ''/cirq/experiments/qcqmc/experimental_wavefunctions'')],
    [(''heading'', ''Lattice Gauge Theory'')],
    [(''title'', ''Simulation of Charges and Strings''), (''path'', ''/cirq/experiments/lattice_gauge/lattice_gauge'')]]"

text \<open>The kinds of entry, told apart by the keys an entry carries.\<close>

definition is_heading :: "toc_entry \<Rightarrow> bool" where
  "is_heading e = (map fst e = [''heading''])"

definition is_title_path :: "toc_entry \<Rightarrow> bool" where
  "is_title_path e = (map fst e = [''title'', ''path''])"

definition is_include :: "toc_entry \<Rightarrow> bool" where
  "is_include e = (map fst e = [''include''])"

section \<open>The tutorial notebooks as data\<close>

text \<open>
  A notebook is a list of cells. A markdown cell is kept as its source lines (without the
  line terminators); a code cell is kept as the abstract syntax of its Python source, one
  constructor per syntactic form the two notebooks use. Float literals are kept as their
  source text. An IPython magic line and a comment line are statements of their own.
\<close>

datatype binop = FloorDiv | Mult | Add

datatype cmpop = CmpEq

datatype unaryop = UNot | USub

datatype expr =
    Name string
  | Attribute expr string
  | Call expr "expr list" "keyword list"
  | IntLit int
  | FloatLit string
  | StrLit string
  | BoolLit bool
  | NoneLit
  | JoinedStr "fpart list"
  | Tuple "expr list"
  | ListE "expr list"
  | Dict "item list"
  | BinOp expr binop expr
  | Compare expr cmpop expr
  | UnaryOp unaryop expr
  | Subscript expr expr
  | SliceAll
  | GeneratorExp expr string expr
and keyword = Keyword string expr
and fpart = FText string | FValue expr
and item = Item expr expr

datatype stmt =
    Import string "string option"
  | ImportFrom string "string list"
  | Assign string expr
  | AnnAssign string expr expr
  | ExprStmt expr
  | Assert expr
  | Try "stmt list" string "stmt list"
  | IfStmt expr "stmt list"
  | With expr string "stmt list"
  | For "string list" expr "stmt list"
  | FunctionDef string "string list" "stmt list"
  | Magic string
  | Comment string

datatype cell = Markdown "string list" | Code "stmt list"

subsection \<open>The code-layout notebook (docs/qcqmc/high_level.ipynb)\<close>

definition high_level_cell_0 :: cell where
  "high_level_cell_0 =
   Markdown
     [''# QCQMC'',
      '''',
      ''This notebook demonstrates the high-level code interface used to run the quantum part of https://arxiv.org/pdf/2106.16235.pdf.'',
      '''',
      ''The code is organized into five steps, where the input of each step is specified by one or more `[Name]Params` dataclasses and the output of each step is an `attrs` dataclass named `[Name]Data` with a factory method `build_...`.  Each of the steps are demonstrated below.'']"

definition high_level_cell_1 :: cell where
  "high_level_cell_1 =
   Markdown
     [''# Setup'',
      '''',
      ''First install recirq:'']"

definition high_level_cell_2 :: cell where
  "high_level_cell_2 =
   Code
     [Try
        [Import ''recirq'' None]
        ''ImportError''
        [Magic ''%pip install git+https://github.com/quantumlib/ReCirq'']]"

definition high_level_cell_3 :: cell where
  "high_level_cell_3 =
   Code
     [Import ''attrs'' None,
      Comment ''# Helper function to inspect the classes. '',
      FunctionDef ''print_fields'' [''x'']
        [ExprStmt
           (StrLit ''Helper function to inspect returned objects' fields.''),
         For [''k'', ''v''] (Call (Attribute (Call (Attribute (Name ''attrs'') ''asdict'') [Name ''x''] []) ''items'') [] [])
           [ExprStmt
              (Call (Name ''print'') [JoinedStr [FValue (Name ''k''), FText '': '', FValue (Call (Name ''type'') [Name ''v''] [])]] [])]]]"

definition high_level_cell_4 :: cell where
  "high_level_cell_4 =
   Markdown
     [''## Hamiltonian'',
      '''',
      ''The first step is to pick a molecule and generate or load its relevant physical properties, namely the Hamiltonian. Here we specify a 2-electron Fermi-Hubbard Hamiltonian in the sto-3g [basis](https://en.wikipedia.org/wiki/STO-nG_basis_sets). Integral data is stored in the data/ file in this repository.'',
      '''',
      ''The resulting data consists of the one- and two-body integrals and some energy quantities.'']"

definition high_level_cell_5 :: cell where
  "high_level_cell_5 =
   Code
     [ImportFrom ''recirq.qcqmc.hamiltonian'' [''HamiltonianFileParams''],
      Assign ''hamiltonian_params''
        (Call (Name ''HamiltonianFileParams'') [] [Keyword ''name'' (StrLit ''4q_pp''), Keyword ''integral_key'' (StrLit ''fh_sto3g''), Keyword ''n_orb'' (IntLit 2), Keyword ''n_elec'' (IntLit 2)]),
      ExprStmt
        (Name ''hamiltonian_params'')]"

definition high_level_cell_6 :: cell where
  "high_level_cell_6 =
   Code
     [ImportFrom ''recirq.qcqmc.hamiltonian'' [''HamiltonianData''],
      Assign ''hamiltonian_data''
        (Call (Attribute (Name ''HamiltonianData'') ''build_hamiltonian_from_file'') [Name ''hamiltonian_params''] []),
      ExprStmt
        (Call (Name ''print_fields'') [Name ''hamiltonian_data''] [])]"

definition high_level_cell_7 :: cell where
  "high_level_cell_7 =
   Markdown
     [''## Trial Wavefunction'',
      '''',
      ''Next, we specify a trial wavefunction. Here we request a perfect pairing trial (using the specialized Params class) and don't include any heuristic layers (to keep the example simple and the runtime short).'',
      '''',
      ''The output data includes parameterized circuits and their parameters.'']"

definition high_level_cell_8 :: cell where
  "high_level_cell_8 =
   Code
     [ImportFrom ''recirq.qcqmc.trial_wf'' [''PerfectPairingPlusTrialWavefunctionParams''],
      Assign ''trial_wf_params''
        (Call (Name ''PerfectPairingPlusTrialWavefunctionParams'') [] [Keyword ''name'' (StrLit ''4q_pp''), Keyword ''hamiltonian_params'' (Name ''hamiltonian_params''), Keyword ''heuristic_layers'' (Tuple [])]),
      ExprStmt
        (Name ''trial_wf_params'')]"

definition high_level_cell_9 :: cell where
  "high_level_cell_9 =
   Code
     [ImportFrom ''recirq.qcqmc.trial_wf'' [''TrialWavefunctionData''],
      Assign ''trial_wf_data''
        (Call (Attribute (Name ''TrialWavefunctionData'') ''build_pp_plus_trial_from_dependencies'') [Name ''trial_wf_params''] [Keyword ''dependencies'' (Dict [Item (Name ''hamiltonian_params'') (Name ''hamiltonian_data'')])]),
      ExprStmt
        (Call (Name ''print'') [BinOp (StrLit ''--'') Mult (IntLit 20)] []),
      ExprStmt
        (Call (Name ''print_fields'') [Name ''trial_wf_data''] [])]"

definition high_level_cell_10 :: cell where
  "high_level_cell_10 =
   Markdown
     [''## Blueprint'',
      '''',
      ''Next, we configure the shadow tomography strategy for measuring the trial wavefunction. We specify how many cliffords and how to generate them, i.e. the qubit partition.'',
      '''',
      ''The returned data is a compiled circuit with parameterized clifford suffixes and Cirq resolvers for efficient execution on a device.'']"

definition high_level_cell_11 :: cell where
  "high_level_cell_11 =
   Code
     [Assign ''qubits''
        (Attribute (Name ''trial_wf_params'') ''qubits_linearly_connected'')]"

definition high_level_cell_12 :: cell where
  "high_level_cell_12 =
   Code
     [ImportFrom ''recirq.qcqmc.blueprint'' [''BlueprintParamsTrialWf''],
      Assign ''blueprint_params''
        (Call (Name ''BlueprintParamsTrialWf'') [] [Keyword ''name'' (StrLit ''4q_pp''), Keyword ''trial_wf_params'' (Name ''trial_wf_params''), Keyword ''n_cliffords'' (IntLit 100), Keyword ''qubit_partition'' (Call (Name ''tuple'') [GeneratorExp (Tuple [Name ''q'']) ''q'' (Name ''qubits'')] [])]),
      ExprStmt
        (Name ''blueprint_params'')]"

definition high_level_cell_13 :: cell where
  "high_level_cell_13 =
   Code
     [ImportFrom ''recirq.qcqmc.blueprint'' [''BlueprintData''],
      Assign ''blueprint_data''
        (Call (Attribute (Name ''BlueprintData'') ''build_blueprint_from_dependencies'') [Name ''blueprint_params''] [Keyword ''dependencies'' (Dict [Item (Name ''trial_wf_params'') (Name ''trial_wf_data'')])]),
      ExprStmt
        (Call (Name ''print_fields'') [Name ''blueprint_data''] [])]"

definition high_level_cell_14 :: cell where
  "high_level_cell_14 =
   Markdown
     [''## Experiment'',
      '''',
      ''Now, we're ready to execute circuits and gather samples. The experiment step has two versions: simulated or on a real device. In either case, we configure how many samples to collect and any runtime-specific parameters.'',
      '''',
      ''The returned data includes the experimental samples.'']"

definition high_level_cell_15 :: cell where
  "high_level_cell_15 =
   Code
     [ImportFrom ''recirq.qcqmc.experiment'' [''SimulatedExperimentParams''],
      Assign ''expt_params''
        (Call (Name ''SimulatedExperimentParams'') [] [Keyword ''name'' (StrLit ''4q_pp''), Keyword ''blueprint_params'' (Name ''blueprint_params''), Keyword ''n_samples_per_clifford'' (IntLit 1000), Keyword ''noise_model_name'' (StrLit ''None'')]),
      ExprStmt
        (Name ''expt_params'')]"

definition high_level_cell_16 :: cell where
  "high_level_cell_16 =
   Code
     [ImportFrom ''recirq.qcqmc.experiment'' [''ExperimentData''],
      Assign ''expt_data''
        (Call (Attribute (Name ''ExperimentData'') ''build_experiment_from_dependencies'') [Name ''expt_params''] [Keyword ''dependencies'' (Dict [Item (Name ''blueprint_params'') (Name ''blueprint_data'')])]),
      ExprStmt
        (Call (Name ''print_fields'') [Name ''expt_data''] [])]"

definition high_level_cell_17 :: cell where
  "high_level_cell_17 =
   Markdown
     [''## Overlap Analysis'',
      '''',
      ''Finally, we reconstruct the wavefunction from our experiment data.'',
      '''',
      ''The returned data here are reconstructed wavefunctions suitable for exporting to iPie for classical QCQMC walker updates.'']"

definition high_level_cell_18 :: cell where
  "high_level_cell_18 =
   Code
     [ImportFrom ''recirq.qcqmc.analysis'' [''OverlapAnalysisParams''],
      Assign ''analysis_params''
        (Call (Name ''OverlapAnalysisParams'') [] [Keyword ''name'' (StrLit ''4q_pp''), Keyword ''experiment_params'' (Name ''expt_params''), Keyword ''k_to_calculate'' (Tuple [IntLit 1, IntLit 2])]),
      ExprStmt
        (Name ''analysis_params'')]"

definition high_level_cell_19 :: cell where
  "high_level_cell_19 =
   Code
     [ImportFrom ''recirq.qcqmc.analysis'' [''OverlapAnalysisData''],
      Assign ''analysis_data''
        (Call (Attribute (Name ''OverlapAnalysisData'') ''build_analysis_from_dependencies'') [Name ''analysis_params''] [Keyword ''dependencies'' (Dict [Item (Name ''expt_params'') (Name ''expt_data''), Item (Name ''blueprint_params'') (Name ''blueprint_data''), Item (Name ''trial_wf_params'') (Name ''trial_wf_data'')])]),
      ExprStmt
        (Call (Name ''print_fields'') [Name ''analysis_data''] [])]"

definition high_level :: "cell list" where
  "high_level =
   [high_level_cell_0,
    high_level_cell_1,
    high_level_cell_2,
    high_level_cell_3,
    high_level_cell_4,
    high_level_cell_5,
    high_level_cell_6,
    high_level_cell_7,
    high_level_cell_8,
    high_level_cell_9,
    high_level_cell_10,
    high_level_cell_11,
    high_level_cell_12,
    high_level_cell_13,
    high_level_cell_14,
    high_level_cell_15,
    high_level_cell_16,
    high_level_cell_17,
    high_level_cell_18,
    high_level_cell_19]"

subsection \<open>The end-to-end notebook (full_workflow.ipynb, stored after the table of contents)\<close>

definition full_workflow_cell_0 :: cell where
  "full_workflow_cell_0 =
   Markdown
     [''# End-to-End Example'',
      '''',
      ''We learned in the [high-level](high-level.ipynb) notebook how to setup the quantum side of the calculation, which involves specifying a Hamiltonian, defining a trial wavefunction ansatz before performing shadow tomography to extract the AFQMC trial wavefunction. In this example, we will repeat these steps again for the case of H4 which was studied in the [paper](https://arxiv.org/pdf/2106.16235.pdf). Then we will outline how to interface the output of the quantum half of the calculation with [ipie](https://github.com/JoonhoLee-Group/ipie/) to perform AFQMC with the quantum trial wavefunction.'']"

definition full_workflow_cell_1 :: cell where
  "full_workflow_cell_1 =
   Markdown
     [''# Setup'',
      '''',
      ''First install recirq:'']"

definition full_workflow_cell_2 :: cell where
  "full_workflow_cell_2 =
   Code
     [Try
        [Import ''recirq'' None]
        ''ImportError''
        [Magic ''%pip install git+https://github.com/quantumlib/ReCirq'']]"

definition full_workflow_cell_3 :: cell where
  "full_workflow_cell_3 =
   Markdown
     [''## Define an SCF Job'',
      '''',
      ''We first setup a `PyscfHamiltonianParams` object which defines the SCF job we will run using [pyscf](https://github.com/pyscf/pyscf). Here we are simulation H4 in the (minimal) sto-3g basis.'']"

definition full_workflow_cell_4 :: cell where
  "full_workflow_cell_4 =
   Code
     [ImportFrom ''recirq.qcqmc.hamiltonian'' [''PyscfHamiltonianParams'', ''HamiltonianData''],
      Assign ''pyscf_params''
        (Call (Name ''PyscfHamiltonianParams'') [] [Keyword ''name'' (StrLit ''TEST_square_H4''), Keyword ''n_orb'' (IntLit 4), Keyword ''n_elec'' (IntLit 4), Keyword ''geometry'' (Tuple [Tuple [StrLit ''H'', Tuple [IntLit 0, IntLit 0, IntLit 0]], Tuple [StrLit ''H'', Tuple [IntLit 0, IntLit 0, FloatLit ''1.23'']], Tuple [StrLit ''H'', Tuple [FloatLit ''1.23'', IntLit 0, IntLit 0]], Tuple [StrLit ''H'', Tuple [FloatLit ''1.23'', IntLit 0, FloatLit ''1.23'']]]), Keyword ''basis'' (StrLit ''sto3g''), Keyword ''multiplicity'' (IntLit 1), Keyword ''charge'' (IntLit 0), Keyword ''save_chkfile'' (BoolLit True), Keyword ''overwrite_chk_file'' (BoolLit True)]),
      Assign ''pyscf_hamiltonian''
        (Call (Attribute (Name ''HamiltonianData'') ''build_hamiltonian_from_pyscf'') [Name ''pyscf_params''] []),
      Assign ''chk_path''
        (Call (Attribute (Attribute (Name ''pyscf_params'') ''base_path'') ''with_suffix'') [StrLit ''.chk''] [])]"

definition full_workflow_cell_5 :: cell where
  "full_workflow_cell_5 =
   Markdown
     [''## Build Perfect Pairing Wavefunction'',
      '''',
      ''Next we build a perfect pairing wavefunction based upon our `pyscf_params`'']"

definition full_workflow_cell_6 :: cell where
  "full_workflow_cell_6 =
   Code
     [Import ''numpy'' (Some ''np''),
      ImportFrom ''recirq.qcqmc.trial_wf'' [''PerfectPairingPlusTrialWavefunctionParams'', ''TrialWavefunctionData''],
      Assign ''pp_params''
        (Call (Name ''PerfectPairingPlusTrialWavefunctionParams'') [StrLit ''pp_plus_test''] [Keyword ''hamiltonian_params'' (Name ''pyscf_params''), Keyword ''heuristic_layers'' (Call (Name ''tuple'') [] []), Keyword ''do_pp'' (BoolLit True), Keyword ''restricted'' (BoolLit False), Keyword ''initial_orbital_rotation'' (NoneLit), Keyword ''initial_two_body_qchem_amplitudes'' (Call (Attribute (Name ''np'') ''asarray'') [ListE [FloatLit ''0.3'', FloatLit ''0.4'']] []), Keyword ''do_optimization'' (BoolLit True), Keyword ''use_fast_gradients'' (BoolLit True)]),
      Assign ''trial_wf''
        (Call (Attribute (Name ''TrialWavefunctionData'') ''build_pp_plus_trial_from_dependencies'') [Name ''pp_params''] [Keyword ''dependencies'' (Dict [Item (Name ''pyscf_params'') (Name ''pyscf_hamiltonian'')]), Keyword ''do_print'' (BoolLit True)])]"

definition full_workflow_cell_7 :: cell where
  "full_workflow_cell_7 =
   Markdown
     [''We can comare the wavefunction of the optimized ansatz to the exact ground state energy:'']"

definition full_workflow_cell_8 :: cell where
  "full_workflow_cell_8 =
   Code
     [ExprStmt
        (Call (Name ''print'') [JoinedStr [FText ''Trial wavefunction energy: '', FValue (Attribute (Name ''trial_wf'') ''ansatz_energy'')]] []),
      ExprStmt
        (Call (Name ''print'') [JoinedStr [FText ''Exact ground state energy: '', FValue (Attribute (Name ''trial_wf'') ''fci_energy'')]] [])]"

definition full_workflow_cell_9 :: cell where
  "full_workflow_cell_9 =
   Markdown
     [''Next, we build an `experiment` which will combine the trial wavefunction circuit with that required for shadow tomography. In this case the experiment will be simulated using a statevector simulator.'']"

definition full_workflow_cell_10 :: cell where
  "full_workflow_cell_10 =
   Code
     [ImportFrom ''recirq.qcqmc.blueprint'' [''BlueprintParamsTrialWf'', ''BlueprintData''],
      ImportFrom ''recirq.qcqmc.experiment'' [''SimulatedExperimentParams'', ''ExperimentData''],
      Assign ''blueprint_params''
        (Call (Name ''BlueprintParamsTrialWf'') [] [Keyword ''name'' (StrLit ''blueprint_test_medium''), Keyword ''trial_wf_params'' (Name ''pp_params''), Keyword ''n_cliffords'' (IntLit 100), Keyword ''qubit_partition'' (Tuple [Call (Name ''tuple'') [GeneratorExp (Name ''qubit'') ''qubit'' (Attribute (Name ''pp_params'') ''qubits_jordan_wigner_ordered'')] []]), Keyword ''seed'' (IntLit 1)]),
      Assign ''blueprint''
        (Call (Attribute (Name ''BlueprintData'') ''build_blueprint_from_dependencies'') [Name ''blueprint_params''] [Keyword ''dependencies'' (Dict [Item (Name ''pp_params'') (Name ''trial_wf'')])]),
      Assign ''simulated_experiment_params''
        (Call (Name ''SimulatedExperimentParams'') [] [Keyword ''name'' (StrLit ''test_1''), Keyword ''blueprint_params'' (Attribute (Name ''blueprint'') ''params''), Keyword ''noise_model_name'' (StrLit ''None''), Keyword ''noise_model_params'' (Tuple [IntLit 0]), Keyword ''n_samples_per_clifford'' (IntLit 31), Keyword ''seed'' (IntLit 1)]),
      Assign ''experiment''
        (Call (Attribute (Name ''ExperimentData'') ''build_experiment_from_dependencies'') [] [Keyword ''params'' (Name ''simulated_experiment_params''), Keyword ''dependencies'' (Dict [Item (Attribute (Name ''blueprint'') ''params'') (Name ''blueprint'')])])]"

definition full_workflow_cell_11 :: cell where
  "full_workflow_cell_11 =
   Markdown
     [''The experimental output is post-processed to extract the reconstructed trial wavefunction:'']"

definition full_workflow_cell_12 :: cell where
  "full_workflow_cell_12 =
   Code
     [ImportFrom ''typing'' [''Dict''],
      ImportFrom ''recirq.qcqmc.data'' [''Params'', ''Data''],
      ImportFrom ''recirq.qcqmc.analysis'' [''OverlapAnalysisData'', ''OverlapAnalysisParams''],
      Assign ''analysis_params''
        (Call (Name ''OverlapAnalysisParams'') [StrLit ''TEST_analysis''] [Keyword ''experiment_params'' (Attribute (Name ''experiment'') ''params''), Keyword ''k_to_calculate'' (Tuple [IntLit 1])]),
      AnnAssign ''all_dependencies'' (Subscript (Name ''Dict'') (Tuple [Name ''Params'', Name ''Data'']))
        (Dict [Item (Name ''pyscf_params'') (Name ''pyscf_hamiltonian''), Item (Name ''pp_params'') (Name ''trial_wf''), Item (Name ''blueprint_params'') (Name ''blueprint''), Item (Name ''simulated_experiment_params'') (Name ''experiment'')]),
      Assign ''analysis''
        (Call (Attribute (Name ''OverlapAnalysisData'') ''build_analysis_from_dependencies'') [Name ''analysis_params''] [Keyword ''dependencies'' (Name ''all_dependencies'')])]"

definition full_workflow_cell_13 :: cell where
  "full_workflow_cell_13 =
   Markdown
     [''Finally, we save the wavefunction in a format that is acceptable for ipie.'']"

definition full_workflow_cell_14 :: cell where
  "full_workflow_cell_14 =
   Code
     [ImportFrom ''recirq.qcqmc.convert_to_ipie'' [''save_wavefunction_for_ipie''],
      Assign ''ipie_data''
        (Call (Name ''save_wavefunction_for_ipie'') [] [Keyword ''hamiltonian_data'' (Name ''pyscf_hamiltonian''), Keyword ''trial_wf_data'' (Name ''trial_wf''), Keyword ''overlap_analysis_data'' (Name ''analysis''), Keyword ''do_print'' (BoolLit False)]),
      ExprStmt
        (Call (Name ''print'') [JoinedStr [FText ''Reconstructed shadow wavefunction energy: '', FValue (Attribute (Name ''ipie_data'') ''variational_energy'')]] []),
      ExprStmt
        (Call (Name ''print'') [JoinedStr [FText ''Ideal trial wavefunction energy: '', FValue (Attribute (Name ''trial_wf'') ''ansatz_energy'')]] []),
      ExprStmt
        (Call (Name ''print'') [JoinedStr [FText ''FCI energy: '', FValue (Attribute (Name ''trial_wf'') ''fci_energy'')]] [])]"

definition full_workflow_cell_15 :: cell where
  "full_workflow_cell_15 =
   Markdown
     [''## Run AFQMC '',
      '''',
      ''Now that we have built our quantum wavefunction, we can use it as a trial wavefunction in an AFQMC simulation. First, we need to build a factorized Hamiltonian which is required for AFQMC. '',
      '''',
      ''In particular, we require the three-index Cholesky tensor (`ham.chol` below) which satisfies'',
      '''',
      ''$$'',
      (''(pq|rs) = '' @ [CHR 0x5C] @ ''sum_X L_{pq}^X L_{rs}^X.''),
      ''$$'']"

definition full_workflow_cell_16 :: cell where
  "full_workflow_cell_16 =
   Code
     [ImportFrom ''ipie.systems.generic'' [''Generic''],
      ImportFrom ''ipie.utils.from_pyscf'' [''generate_hamiltonian_from_chk''],
      Assign ''num_elec''
        (BinOp (Tuple [BinOp (Attribute (Name ''pyscf_params'') ''n_elec'') FloorDiv (IntLit 2)]) Mult (IntLit 2)),
      Assign ''system''
        (Call (Name ''Generic'') [Name ''num_elec''] []),
      Assign ''chk_path''
        (Call (Attribute (Attribute (Name ''pyscf_params'') ''base_path'') ''with_suffix'') [StrLit ''.chk''] []),
      Assign ''ham''
        (Call (Name ''generate_hamiltonian_from_chk'') [Call (Name ''str'') [Name ''chk_path''] []] []),
      Assert
        (Compare (Attribute (Attribute (Name ''ham'') ''H1'') ''shape'') CmpEq (Tuple [IntLit 2, Attribute (Name ''pyscf_params'') ''n_orb'', Attribute (Name ''pyscf_params'') ''n_orb''])),
      Assert
        (Compare (Subscript (Attribute (Attribute (Name ''ham'') ''chol'') ''shape'') (IntLit 0)) CmpEq (BinOp (Attribute (Name ''pyscf_params'') ''n_orb'') Mult (Attribute (Name ''pyscf_params'') ''n_orb'')))]"

definition full_workflow_cell_17 :: cell where
  "full_workflow_cell_17 =
   Markdown
     [''Next, we need to build a trial wavefunction from quantum wavefunction. In practice, the quantum trial is expanded as a linear combination of (orthogonal) Slater Determinants. Within ipie, this style of trial wavefunction is defined as a `ParticleHole` trial wavefunction. '']"

definition full_workflow_cell_18 :: cell where
  "full_workflow_cell_18 =
   Code
     [Import ''h5py'' None,
      ImportFrom ''ipie.trial_wavefunction.particle_hole'' [''ParticleHole''],
      Comment ''# Read quantum wavefunction from file. '',
      With (Call (Attribute (Name ''h5py'') ''File'') [Attribute (Name ''ipie_data'') ''path'', StrLit ''r''] []) ''fh5''
        [Assign ''coeffs''
           (Subscript (Subscript (Name ''fh5'') (StrLit ''coeffs_rotated'')) (SliceAll)),
         Assign ''occa''
           (Subscript (Subscript (Name ''fh5'') (StrLit ''occa_rotated'')) (SliceAll)),
         Assign ''occb''
           (Subscript (Subscript (Name ''fh5'') (StrLit ''occb_rotated'')) (SliceAll))],
      Assign ''wfn''
        (Call (Name ''ParticleHole'') [Tuple [Name ''coeffs'', Name ''occa'', Name ''occb''], Name ''num_elec'', Attribute (Name ''pyscf_params'') ''n_orb''] []),
      ExprStmt
        (Call (Attribute (Name ''wfn'') ''half_rotate'') [Name ''ham''] [])]"

definition full_workflow_cell_19 :: cell where
  "full_workflow_cell_19 =
   Code
     [ExprStmt
        (Call (Attribute (Name ''wfn'') ''calculate_energy'') [Name ''system'', Name ''ham''] []),
      ExprStmt
        (Call (Name ''print'') [JoinedStr [FText ''Trial wavefunction variational energy in ipie: '', FValue (Attribute (Attribute (Name ''wfn'') ''energy'') ''real'')]] []),
      Assert
        (Call (Attribute (Name ''np'') ''isclose'') [Attribute (Attribute (Name ''wfn'') ''energy'') ''real'', Attribute (Name ''ipie_data'') ''variational_energy''] [])]"

definition full_workflow_cell_20 :: cell where
  "full_workflow_cell_20 =
   Markdown
     [(''Note that the variational energy might differ slightly from the result compute from the previous section. This is because the cholesky factorization uses a threshold of $1'' @ [CHR 0x5C] @ ''times10^{-5}$ a stopping criteria for convergence. Reducing the parameter `chol_cut` in `generate_hamiltonian_from_chk` will yield better agreement.''),
      '''',
      ''At this point, we are ready to run AFQMC. We need to build an `AFQMC` driver class which takes as input the factorized Hamiltonian and our `ParticleHole` trial wavefunction.'']"

definition full_workflow_cell_21 :: cell where
  "full_workflow_cell_21 =
   Code
     [ImportFrom ''ipie.qmc.afqmc'' [''AFQMC''],
      Assign ''qmc_driver''
        (Call (Attribute (Name ''AFQMC'') ''build'') [Name ''num_elec'', Name ''ham'', Name ''wfn''] [Keyword ''num_blocks'' (IntLit 300), Keyword ''num_walkers'' (IntLit 50), Keyword ''seed'' (IntLit 7)])]"

definition full_workflow_cell_22 :: cell where
  "full_workflow_cell_22 =
   Code
     [ImportFrom ''recirq.qcqmc.config'' [''OUTDIRS''],
      Import ''pathlib'' None,
      Assign ''ipie_path''
        (Call (Attribute (Name ''pathlib'') ''Path'') [BinOp (Attribute (Attribute (Name ''pyscf_hamiltonian'') ''params'') ''path_prefix'') Add (Attribute (Name ''OUTDIRS'') ''DEFAULT_QMC_DIRECTORY'')] []),
      IfStmt (UnaryOp UNot (Call (Attribute (Name ''ipie_path'') ''is_dir'') [] []))
        [ExprStmt
           (Call (Attribute (Name ''ipie_path'') ''mkdir'') [] [Keyword ''parents'' (BoolLit True)])],
      ExprStmt
        (Call (Attribute (Name ''qmc_driver'') ''run'') [] [Keyword ''estimator_filename'' (JoinedStr [FValue (Name ''ipie_path''), FText ''/estimates.h5''])])]"

definition full_workflow_cell_23 :: cell where
  "full_workflow_cell_23 =
   Markdown
     [''Next, we can visualize the data which is by default saved to `estimates.0.h5`.'']"

definition full_workflow_cell_24 :: cell where
  "full_workflow_cell_24 =
   Code
     [ImportFrom ''ipie.analysis.extraction'' [''extract_observable''],
      Import ''matplotlib.pyplot'' (Some ''plt''),
      Assign ''data''
        (Call (Name ''extract_observable'') [Attribute (Attribute (Name ''qmc_driver'') ''estimators'') ''filename''] []),
      ExprStmt
        (Call (Attribute (Name ''plt'') ''plot'') [Attribute (Name ''data'') ''ETotal''] [Keyword ''marker'' (StrLit ''o''), Keyword ''label'' (StrLit ''AFQMC''), Keyword ''color'' (StrLit ''C0'')]),
      ExprStmt
        (Call (Attribute (Name ''plt'') ''axhline'') [UnaryOp USub (FloatLit ''1.969512'')] [Keyword ''label'' (StrLit ''Exact Result''), Keyword ''color'' (StrLit ''C1'')]),
      ExprStmt
        (Call (Attribute (Name ''plt'') ''legend'') [] []),
      ExprStmt
        (Call (Attribute (Name ''plt'') ''xlabel'') [StrLit ''Block number''] []),
      ExprStmt
        (Call (Attribute (Name ''plt'') ''ylabel'') [StrLit ''Total Energy (Ha)''] [])]"

definition full_workflow_cell_25 :: cell where
  "full_workflow_cell_25 =
   Markdown
     [''Through visual inspection, we can determine when the calculation has equilibrated, after which we should be sampling the (approximate) ground state. We can use samples from this point on to estimate the AFQMC energy and error bar. The function `reblock_minimal` will perform the necessary error analysis taking into account the serial temporal correlation in the AFQMC data. '']"

definition full_workflow_cell_26 :: cell where
  "full_workflow_cell_26 =
   Code
     [ImportFrom ''ipie.analysis.blocking'' [''reblock_minimal''],
      ExprStmt
        (Call (Name ''reblock_minimal'') [Attribute (Attribute (Name ''qmc_driver'') ''estimators'') ''filename''] [Keyword ''start_block'' (IntLit 20)])]"

definition full_workflow_cell_27 :: cell where
  "full_workflow_cell_27 =
   Markdown
     [''Note that the number of walkers and the number of blocks is probably too low to obtain statistically significant results and we would advise increasing both of these. For larger scale simulations, we can use MPI to distribute the work among many MPI processes. See [ipie](https://github.com/JoonhoLee-Group/ipie/) for further details.'']"

definition full_workflow_cell_28 :: cell where
  "full_workflow_cell_28 =
   Markdown
     [''# Next steps'',
      '''',
      ''The results presented above are worse than reported in the paper. In practice one needs to:'',
      '''',
      ''1. Carefully converge the trial wavefunction parameters by scanning over multiple random restarts.'',
      ''2. Converge the reconstructed shadow wavefunction with respect to: `n_cliffords`'',
      ''3. The AFQMC part of the simulations can be sped up using MPI parallelism. See [ipie](https://github.com/JoonhoLee-Group/ipie) for more information. The number of walkers should also be increased to obtain better statistics and reduce any population control biases. The number of samples (`num_blocks`) should also be increased (`ETotal_nsamp_ac` should be about 100 for statistically significant results.) '']"

definition full_workflow :: "cell list" where
  "full_workflow =
   [full_workflow_cell_0,
    full_workflow_cell_1,
    full_workflow_cell_2,
    full_workflow_cell_3,
    full_workflow_cell_4,
    full_workflow_cell_5,
    full_workflow_cell_6,
    full_workflow_cell_7,
    full_workflow_cell_8,
    full_workflow_cell_9,
    full_workflow_cell_10,
    full_workflow_cell_11,
    full_workflow_cell_12,
    full_workflow_cell_13,
    full_workflow_cell_14,
    full_workflow_cell_15,
    full_workflow_cell_16,
    full_workflow_cell_17,
    full_workflow_cell_18,
    full_workflow_cell_19,
    full_workflow_cell_20,
    full_workflow_cell_21,
    full_workflow_cell_22,
    full_workflow_cell_23,
    full_workflow_cell_24,
    full_workflow_cell_25,
    full_workflow_cell_26,
    full_workflow_cell_27,
    full_workflow_cell_28]"

section \<open>Running a notebook\<close>

subsection \<open>Values, exceptions and the external world\<close>

text \<open>
  The notebooks call into libraries that are not part of the notebooks: the classes of
  \<open>recirq.qcqmc\<close>, \<open>ipie\<close>, \<open>numpy\<close>, \<open>h5py\<close>, \<open>pathlib\<close>, \<open>matplotlib\<close> and Python's
  built-ins. A value is therefore either a Python value the notebook itself computes
  (integers, strings, tuples, lists, dictionaries, ...), an object handed over by the
  outside world with known attributes (\<open>VObj\<close>), or an opaque value that records how it
  was obtained: the global it names (\<open>VGlobal\<close>, by qualified name), the object a call
  returned (\<open>VRef\<close>: the object's identity is the position of that call among the events
  of the run), an attribute of an opaque value, the result of an operator applied to
  opaque operands, or a generator expression.
\<close>

datatype val =
    VInt int
  | VFloat string
  | VStr string
  | VBool bool
  | VNone
  | VTuple "val list"
  | VList "val list"
  | VDict "(val \<times> val) list"
  | VObj "(string \<times> val) list"
  | VGlobal string
  | VAttr val string
  | VRef nat
  | VOp string "val list"
  | VGen expr string val

datatype exn =
    AssertionError
  | AttributeError
  | ImportError
  | IndexError
  | KeyError
  | ModuleNotFoundError
  | NameError
  | TypeError
  | ZeroDivisionError
  | OtherError string "string list"

text \<open>
  The exceptions are those the notebooks' own operations raise, and \<open>OtherError\<close> for any
  exception class of the outside world, given by its name and the names of its base
  classes. An \<open>except\<close> clause naming a class catches the instances of that class and of
  its subclasses.
\<close>

definition exn_name :: "exn \<Rightarrow> string" where
  "exn_name e =
     (case e of
        AssertionError \<Rightarrow> ''AssertionError''
      | AttributeError \<Rightarrow> ''AttributeError''
      | ImportError \<Rightarrow> ''ImportError''
      | IndexError \<Rightarrow> ''IndexError''
      | KeyError \<Rightarrow> ''KeyError''
      | ModuleNotFoundError \<Rightarrow> ''ModuleNotFoundError''
      | NameError \<Rightarrow> ''NameError''
      | TypeError \<Rightarrow> ''TypeError''
      | ZeroDivisionError \<Rightarrow> ''ZeroDivisionError''
      | OtherError s bases \<Rightarrow> s)"

definition base_classes :: "exn \<Rightarrow> string list" where
  "base_classes e =
     (case e of
        AssertionError \<Rightarrow> [''Exception'', ''BaseException'']
      | AttributeError \<Rightarrow> [''Exception'', ''BaseException'']
      | ImportError \<Rightarrow> [''Exception'', ''BaseException'']
      | IndexError \<Rightarrow> [''LookupError'', ''Exception'', ''BaseException'']
      | KeyError \<Rightarrow> [''LookupError'', ''Exception'', ''BaseException'']
      | ModuleNotFoundError \<Rightarrow> [''ImportError'', ''Exception'', ''BaseException'']
      | NameError \<Rightarrow> [''Exception'', ''BaseException'']
      | TypeError \<Rightarrow> [''Exception'', ''BaseException'']
      | ZeroDivisionError \<Rightarrow> [''ArithmeticError'', ''Exception'', ''BaseException'']
      | OtherError s bases \<Rightarrow> bases)"

definition catches :: "string \<Rightarrow> exn \<Rightarrow> bool" where
  "catches cls e = (cls = exn_name e \<or> cls \<in> set (base_classes e))"

text \<open>
  What a run does, in order. Calls (callee, positional arguments, keyword arguments),
  imports and IPython magics are the events proper. The other operations on values of
  the outside world are recorded as well: reading an attribute, reading an item,
  applying an operator (formatting included), testing the truth of a value, iterating,
  entering a \<open>with\<close> block and leaving it (normally, or on the exception that ended its
  body). A world answers an operation with a value or an
  exception; no answer means that the operation returns normally, with an opaque value
  (a call: with a new opaque object). \<open>ERaise\<close> records an exception that an operation
  of the notebook itself raises (a failed assertion, an index out of range, ...); the
  world is not asked about it.
\<close>

datatype event =
    ECall val "val list" "(string \<times> val) list"
  | EImport string
  | EMagic string
  | EAttr val string
  | EItem val val
  | EOp string "val list"
  | ETruth val
  | EIter val
  | EEnter val
  | EExit val "exn option"
  | ERaise exn

definition is_major :: "event \<Rightarrow> bool" where
  "is_major ev =
     (case ev of ECall f args kws \<Rightarrow> True | EImport m \<Rightarrow> True | EMagic m \<Rightarrow> True | _ \<Rightarrow> False)"

datatype reply = Returns val | Raises exn

type_synonym world = "event \<Rightarrow> reply option"

type_synonym env = "(string \<times> val) list"

type_synonym state = "env \<times> event list"

datatype outcome = Done | Raised exn | Unmodelled

definition default_world :: world where
  "default_world = (\<lambda>ev. None)"

subsection \<open>Names and attributes\<close>

definition builtins :: "string list" where
  "builtins = [''print'', ''str'', ''tuple'', ''type'', ''len'', ''int'', ''float'',
               ''list'', ''dict'', ''range'', ''isinstance'']"

definition lookup :: "env \<Rightarrow> string \<Rightarrow> exn + val" where
  "lookup env x =
     (case map_of env x of
        Some v \<Rightarrow> Inr v
      | None \<Rightarrow> if x \<in> set builtins then Inr (VGlobal (''builtins.'' @ x)) else Inl NameError)"

definition bind_name :: "string \<Rightarrow> val \<Rightarrow> env \<Rightarrow> env" where
  "bind_name x v env = (x, v) # env"

text \<open>The last component of a qualified name, and what precedes it.\<close>

definition last_component :: "string \<Rightarrow> string" where
  "last_component q = rev (takeWhile (\<lambda>c. c \<noteq> CHR ''.'') (rev q))"

definition qualifier :: "string \<Rightarrow> string" where
  "qualifier q = rev (drop 1 (dropWhile (\<lambda>c. c \<noteq> CHR ''.'') (rev q)))"

fun starts_with :: "string \<Rightarrow> string \<Rightarrow> bool" where
  "starts_with [] s = True"
| "starts_with (p # ps) [] = False"
| "starts_with (p # ps) (c # cs) = (p = c \<and> starts_with ps cs)"

definition ends_with :: "string \<Rightarrow> string \<Rightarrow> bool" where
  "ends_with p s = starts_with (rev p) (rev s)"

fun is_infix :: "string \<Rightarrow> string \<Rightarrow> bool" where
  "is_infix p [] = (p = [])"
| "is_infix p (c # cs) = (starts_with p (c # cs) \<or> is_infix p cs)"

text \<open>
  The notebooks' naming convention, read off the qualified name of a callee: a
  \<open>[Name]Params\<close> class is a global whose own name contains \<open>Params\<close>; a factory is an
  attribute \<open>build_...\<close> of a class whose name ends in \<open>Data\<close>.
\<close>

fun is_params_class :: "val \<Rightarrow> bool" where
  "is_params_class (VGlobal q) = is_infix ''Params'' (last_component q)"
| "is_params_class _ = False"

fun is_build_factory :: "val \<Rightarrow> bool" where
  "is_build_factory (VGlobal q) =
     (starts_with ''build_'' (last_component q) \<and> ends_with ''Data'' (last_component (qualifier q)))"
| "is_build_factory _ = False"

text \<open>
  Modelled from the spec: the dataclasses of \<open>recirq.qcqmc\<close> are not among the source
  files. The notebooks and the spec describe them as \<open>[Name]Params\<close> and \<open>[Name]Data\<close>
  dataclasses, a Data object being produced from a Params object; so a field of a Params
  object that was given by keyword to its constructor reads back as that argument, and
  the field \<open>params\<close> of a Data object is the Params argument of the factory call that
  built it (its first positional argument, or its keyword \<open>params\<close>). Every other
  attribute of an object returned by a call stays opaque.
\<close>

definition field_of_result :: "val \<Rightarrow> val list \<Rightarrow> (string \<times> val) list \<Rightarrow> string \<Rightarrow> val option" where
  "field_of_result f args kws a =
     (if is_params_class f then map_of kws a
      else if is_build_factory f \<and> a = ''params'' then
        (case args of p # _ \<Rightarrow> Some p | [] \<Rightarrow> map_of kws ''params'')
      else None)"

text \<open>
  \<open>VRef k\<close> is the object returned by the call that is the event number \<open>k\<close> (counted
  from 0 among the calls, imports and magics).
\<close>

definition object_field :: "event list \<Rightarrow> nat \<Rightarrow> string \<Rightarrow> val option" where
  "object_field t k a =
     (if k < length (filter is_major t) then
        (case filter is_major t ! k of ECall f args kws \<Rightarrow> field_of_result f args kws a | _ \<Rightarrow> None)
      else None)"

text \<open>
  What an operation on values comes to: a value the notebook computes itself, an
  exception it raises itself, or a question to the outside world, with the value that
  stands for the answer when the world gives none.
\<close>

datatype verdict = Value val | Error exn | Ask event val

text \<open>
  Reading an attribute: of an object with known attributes, the attribute or an
  \<open>AttributeError\<close>; of an object returned by a call, the field as above when there is
  one; otherwise the world is asked, the answer being by default the qualified name (of a
  global) or an opaque value.
\<close>

definition getattr :: "event list \<Rightarrow> val \<Rightarrow> string \<Rightarrow> verdict" where
  "getattr t v a =
     (case v of
        VObj fs \<Rightarrow> (case map_of fs a of Some x \<Rightarrow> Value x | None \<Rightarrow> Error AttributeError)
      | VGlobal q \<Rightarrow> Ask (EAttr v a) (VGlobal (q @ ''.'' @ a))
      | VRef k \<Rightarrow> (case object_field t k a of Some x \<Rightarrow> Value x | None \<Rightarrow> Ask (EAttr v a) (VAttr v a))
      | _ \<Rightarrow> Ask (EAttr v a) (VAttr v a))"

subsection \<open>Operators\<close>

text \<open>
  Values the operators do not compute with: the opaque ones, objects of the outside
  world, and floats (kept as literal text).
\<close>

definition is_opaque :: "val \<Rightarrow> bool" where
  "is_opaque v =
     (case v of
        VObj _ \<Rightarrow> True | VGlobal _ \<Rightarrow> True | VAttr _ _ \<Rightarrow> True | VRef _ \<Rightarrow> True
      | VOp _ _ \<Rightarrow> True | VGen _ _ _ \<Rightarrow> True | VFloat _ \<Rightarrow> True | _ \<Rightarrow> False)"

definition is_bool :: "val \<Rightarrow> bool" where
  "is_bool v = (case v of VBool _ \<Rightarrow> True | _ \<Rightarrow> False)"

text \<open>
  Python's truth value: zero, the empty string, \<open>None\<close> and empty containers are false;
  an object that defines neither \<open>__bool__\<close> nor \<open>__len__\<close> is true, and so is by default
  every opaque value here (the world is asked, see \<open>truth_of\<close>).
\<close>

fun truthy :: "val \<Rightarrow> bool" where
  "truthy (VInt i) = (i \<noteq> 0)"
| "truthy (VStr s) = (s \<noteq> [])"
| "truthy (VBool b) = b"
| "truthy VNone = False"
| "truthy (VTuple vs) = (vs \<noteq> [])"
| "truthy (VList vs) = (vs \<noteq> [])"
| "truthy (VDict kvs) = (kvs \<noteq> [])"
| "truthy _ = True"

text \<open>
  Values on which Python's \<open>==\<close> is structural equality: integers, strings, \<open>None\<close>, and
  tuples and lists of such values. (Booleans and floats compare equal to integers of the
  same value, so they are left out.)
\<close>

fun plain :: "val \<Rightarrow> bool" where
  "plain (VInt _) = True"
| "plain (VStr _) = True"
| "plain VNone = True"
| "plain (VTuple vs) = list_all plain vs"
| "plain (VList vs) = list_all plain vs"
| "plain _ = False"

definition binop_name :: "binop \<Rightarrow> string" where
  "binop_name op = (case op of FloorDiv \<Rightarrow> ''//'' | Mult \<Rightarrow> ''*'' | Add \<Rightarrow> ''+'')"

text \<open>Sequence repetition: a non-positive count gives the empty sequence.\<close>

definition repeat :: "int \<Rightarrow> 'a list \<Rightarrow> 'a list" where
  "repeat n xs = concat (replicate (nat n) xs)"

text \<open>
  Arithmetic on integers and the sequence operations are computed. An operation with an
  opaque operand (or a boolean one, which Python treats as an integer) is a question to
  the world, by default an opaque term; any other combination of operands is a
  \<open>TypeError\<close>.
\<close>

definition floordiv_val :: "val \<Rightarrow> val \<Rightarrow> exn + val" where
  "floordiv_val a b =
     (case a of
        VInt x \<Rightarrow> (case b of
                     VInt y \<Rightarrow> if y = 0 then Inl ZeroDivisionError else Inr (VInt (x div y))
                   | _ \<Rightarrow> Inl TypeError)
      | _ \<Rightarrow> Inl TypeError)"

definition mult_val :: "val \<Rightarrow> val \<Rightarrow> exn + val" where
  "mult_val a b =
     (case a of
        VInt x \<Rightarrow> (case b of
                     VInt y \<Rightarrow> Inr (VInt (x * y))
                   | VTuple vs \<Rightarrow> Inr (VTuple (repeat x vs))
                   | VList vs \<Rightarrow> Inr (VList (repeat x vs))
                   | VStr s \<Rightarrow> Inr (VStr (repeat x s))
                   | _ \<Rightarrow> Inl TypeError)
      | VTuple vs \<Rightarrow> (case b of VInt n \<Rightarrow> Inr (VTuple (repeat n vs)) | _ \<Rightarrow> Inl TypeError)
      | VList vs \<Rightarrow> (case b of VInt n \<Rightarrow> Inr (VList (repeat n vs)) | _ \<Rightarrow> Inl TypeError)
      | VStr s \<Rightarrow> (case b of VInt n \<Rightarrow> Inr (VStr (repeat n s)) | _ \<Rightarrow> Inl TypeError)
      | _ \<Rightarrow> Inl TypeError)"

definition add_val :: "val \<Rightarrow> val \<Rightarrow> exn + val" where
  "add_val a b =
     (case a of
        VInt x \<Rightarrow> (case b of VInt y \<Rightarrow> Inr (VInt (x + y)) | _ \<Rightarrow> Inl TypeError)
      | VStr x \<Rightarrow> (case b of VStr y \<Rightarrow> Inr (VStr (x @ y)) | _ \<Rightarrow> Inl TypeError)
      | VTuple x \<Rightarrow> (case b of VTuple y \<Rightarrow> Inr (VTuple (x @ y)) | _ \<Rightarrow> Inl TypeError)
      | VList x \<Rightarrow> (case b of VList y \<Rightarrow> Inr (VList (x @ y)) | _ \<Rightarrow> Inl TypeError)
      | _ \<Rightarrow> Inl TypeError)"

definition computed :: "exn + val \<Rightarrow> verdict" where
  "computed r = (case r of Inl e \<Rightarrow> Error e | Inr v \<Rightarrow> Value v)"

definition apply_binop :: "binop \<Rightarrow> val \<Rightarrow> val \<Rightarrow> verdict" where
  "apply_binop op a b =
     (if is_opaque a \<or> is_opaque b \<or> is_bool a \<or> is_bool b
      then Ask (EOp (binop_name op) [a, b]) (VOp (binop_name op) [a, b])
      else case op of
             FloorDiv \<Rightarrow> computed (floordiv_val a b)
           | Mult \<Rightarrow> computed (mult_val a b)
           | Add \<Rightarrow> computed (add_val a b))"

definition apply_compare :: "cmpop \<Rightarrow> val \<Rightarrow> val \<Rightarrow> verdict" where
  "apply_compare op a b =
     (case op of
        CmpEq \<Rightarrow> if plain a \<and> plain b then Value (VBool (a = b))
                 else Ask (EOp ''=='' [a, b]) (VOp ''=='' [a, b]))"

definition negate :: "val \<Rightarrow> verdict" where
  "negate v =
     (case v of
        VInt i \<Rightarrow> Value (VInt (- i))
      | VFloat s \<Rightarrow> Value (VFloat (''-'' @ s))
      | _ \<Rightarrow> if is_opaque v \<or> is_bool v then Ask (EOp ''-'' [v]) (VOp ''-'' [v]) else Error TypeError)"

text \<open>
  Indexing a sequence of length \<open>n\<close>: the indices \<open>0 .. n - 1\<close> count from the front, the
  indices \<open>-n .. -1\<close> from the end, and any other index is an \<open>IndexError\<close>.
\<close>

definition index_seq :: "val list \<Rightarrow> int \<Rightarrow> exn + val" where
  "index_seq vs i =
     (if 0 \<le> i \<and> i < int (length vs) then Inr (vs ! nat i)
      else if - int (length vs) \<le> i \<and> i < 0 then Inr (vs ! nat (int (length vs) + i))
      else Inl IndexError)"

definition slice_all :: val where
  "slice_all = VGlobal '':''"

definition index_val :: "val list \<Rightarrow> val \<Rightarrow> val \<Rightarrow> verdict" where
  "index_val vs v i =
     (case i of
        VInt n \<Rightarrow> computed (index_seq vs n)
      | _ \<Rightarrow> if is_opaque i \<or> is_bool i then Ask (EItem v i) (VOp ''[]'' [v, i]) else Error TypeError)"

definition subscript :: "val \<Rightarrow> val \<Rightarrow> verdict" where
  "subscript v i =
     (case v of
        VTuple vs \<Rightarrow> index_val vs v i
      | VList vs \<Rightarrow> index_val vs v i
      | VStr s \<Rightarrow> index_val (map (\<lambda>c. VStr [c]) s) v i
      | VDict kvs \<Rightarrow> (case map_of kvs i of Some x \<Rightarrow> Value x | None \<Rightarrow> Error KeyError)
      | _ \<Rightarrow> if is_opaque v then Ask (EItem v i) (VOp ''[]'' [v, i]) else Error TypeError)"

text \<open>
  A call: the world's answer, or a new opaque object, identified by the number \<open>k\<close> of
  the call among the events. Calling a value that is no callable (a number, a string, a
  container) is a \<open>TypeError\<close>. A function the notebook defines itself (\<open>print_fields\<close>,
  which only prints) is called like an external one: the call is one event, which raises
  what its body raises; the operations of the body are not events of the run.
\<close>

definition call :: "world \<Rightarrow> val \<Rightarrow> val list \<Rightarrow> (string \<times> val) list \<Rightarrow> nat \<Rightarrow> exn + val" where
  "call w f args kws k =
     (case w (ECall f args kws) of
        None \<Rightarrow> Inr (VRef k)
      | Some (Returns v) \<Rightarrow> Inr v
      | Some (Raises e) \<Rightarrow> Inl e)"

definition callable :: "val \<Rightarrow> bool" where
  "callable f = (case f of VGlobal _ \<Rightarrow> True | VAttr _ _ \<Rightarrow> True | VRef _ \<Rightarrow> True
                 | VObj _ \<Rightarrow> True | VOp _ _ \<Rightarrow> True | _ \<Rightarrow> False)"

subsection \<open>Expressions\<close>

text \<open>
  A computation runs in a world and an environment, appends to the list of operations
  and ends with a value or with the first exception raised.
\<close>

type_synonym 'a comp = "world \<Rightarrow> env \<Rightarrow> event list \<Rightarrow> (exn + 'a) \<times> event list"

definition return :: "'a \<Rightarrow> 'a comp" where
  "return v = (\<lambda>w env t. (Inr v, t))"

text \<open>An exception the notebook's own operation raises is recorded.\<close>

definition fail :: "exn \<Rightarrow> 'a comp" where
  "fail e = (\<lambda>w env t. (Inl e, t @ [ERaise e]))"

definition lift :: "exn + 'a \<Rightarrow> 'a comp" where
  "lift r = (case r of Inl e \<Rightarrow> fail e | Inr v \<Rightarrow> return v)"

text \<open>
  An operation of the outside world other than a call: it is recorded, and the world's
  answer, or the given default, is its result.
\<close>

definition consult :: "event \<Rightarrow> val \<Rightarrow> val comp" where
  "consult ev d =
     (\<lambda>w env t. (case w ev of
                    Some (Raises e) \<Rightarrow> Inl e
                  | Some (Returns v) \<Rightarrow> Inr v
                  | None \<Rightarrow> Inr d, t @ [ev]))"

definition settle :: "verdict \<Rightarrow> val comp" where
  "settle r = (case r of Value v \<Rightarrow> return v | Error e \<Rightarrow> fail e | Ask ev d \<Rightarrow> consult ev d)"

definition and_then :: "'a comp \<Rightarrow> ('a \<Rightarrow> 'b comp) \<Rightarrow> 'b comp" where
  "and_then m f =
     (\<lambda>w env t. case m w env t of
                   (Inl x, t1) \<Rightarrow> (Inl x, t1)
                 | (Inr v, t1) \<Rightarrow> f v w env t1)"

text \<open>Operands, arguments and items are evaluated left to right.\<close>

fun in_order :: "'a comp list \<Rightarrow> 'a list comp" where
  "in_order [] = return []"
| "in_order (m # ms) = and_then m (\<lambda>v. and_then (in_order ms) (\<lambda>vs. return (v # vs)))"

definition named :: "string \<Rightarrow> val comp \<Rightarrow> (string \<times> val) comp" where
  "named k m = and_then m (\<lambda>v. return (k, v))"

definition paired :: "val comp \<Rightarrow> val comp \<Rightarrow> (val \<times> val) comp" where
  "paired mk mv = and_then mk (\<lambda>k. and_then mv (\<lambda>v. return (k, v)))"

definition lookup_name :: "string \<Rightarrow> val comp" where
  "lookup_name x = (\<lambda>w env t. lift (lookup env x) w env t)"

definition read_attr :: "val \<Rightarrow> string \<Rightarrow> val comp" where
  "read_attr v a = (\<lambda>w env t. settle (getattr t v a) w env t)"

text \<open>A call is the next event; the object it returns is known by the event's number.\<close>

definition do_call :: "val \<Rightarrow> val list \<Rightarrow> (string \<times> val) list \<Rightarrow> val comp" where
  "do_call f args kws =
     (\<lambda>w env t. if callable f
                 then (call w f args kws (length (filter is_major t)), t @ [ECall f args kws])
                 else fail TypeError w env t)"

text \<open>
  The truth of a value: of a number, a string, \<open>None\<close> or a container as Python defines
  it; of a value of the outside world what the world answers (a boolean, or any value
  with a truth of its own), by default true.
\<close>

definition truth_of :: "val \<Rightarrow> bool comp" where
  "truth_of v =
     (if is_opaque v then and_then (consult (ETruth v) (VBool True)) (\<lambda>b. return (truthy b))
      else return (truthy v))"

definition apply_unaryop :: "unaryop \<Rightarrow> val \<Rightarrow> val comp" where
  "apply_unaryop op v =
     (case op of
        UNot \<Rightarrow> and_then (truth_of v) (\<lambda>b. return (VBool (\<not> b)))
      | USub \<Rightarrow> settle (negate v))"

text \<open>
  An f-string formats its values, an operation of theirs; the result is by default an
  opaque term. The iterable of a generator expression is evaluated at once and asked for
  its iterator, as Python does; the element expression is kept as syntax, to be
  evaluated by whoever consumes the generator.
\<close>

primrec eval_expr :: "expr \<Rightarrow> val comp"
  and eval_keyword :: "keyword \<Rightarrow> (string \<times> val) comp"
  and eval_fpart :: "fpart \<Rightarrow> val comp"
  and eval_item :: "item \<Rightarrow> (val \<times> val) comp"
where
  "eval_expr (Name x) = lookup_name x"
| "eval_expr (Attribute e a) = and_then (eval_expr e) (\<lambda>v. read_attr v a)"
| "eval_expr (Call f args kws) =
     and_then (eval_expr f) (\<lambda>fv.
     and_then (in_order (map eval_expr args)) (\<lambda>avs.
     and_then (in_order (map eval_keyword kws)) (\<lambda>kvs.
     do_call fv avs kvs)))"
| "eval_expr (IntLit i) = return (VInt i)"
| "eval_expr (FloatLit s) = return (VFloat s)"
| "eval_expr (StrLit s) = return (VStr s)"
| "eval_expr (BoolLit b) = return (VBool b)"
| "eval_expr NoneLit = return VNone"
| "eval_expr (JoinedStr ps) =
     and_then (in_order (map eval_fpart ps)) (\<lambda>vs. consult (EOp ''f-string'' vs) (VOp ''f-string'' vs))"
| "eval_expr (Tuple es) = and_then (in_order (map eval_expr es)) (\<lambda>vs. return (VTuple vs))"
| "eval_expr (ListE es) = and_then (in_order (map eval_expr es)) (\<lambda>vs. return (VList vs))"
| "eval_expr (Dict its) = and_then (in_order (map eval_item its)) (\<lambda>kvs. return (VDict kvs))"
| "eval_expr (BinOp a op b) =
     and_then (eval_expr a) (\<lambda>va. and_then (eval_expr b) (\<lambda>vb. settle (apply_binop op va vb)))"
| "eval_expr (Compare a op b) =
     and_then (eval_expr a) (\<lambda>va. and_then (eval_expr b) (\<lambda>vb. settle (apply_compare op va vb)))"
| "eval_expr (UnaryOp op a) = and_then (eval_expr a) (\<lambda>va. apply_unaryop op va)"
| "eval_expr (Subscript a i) =
     and_then (eval_expr a) (\<lambda>va. and_then (eval_expr i) (\<lambda>vi. settle (subscript va vi)))"
| "eval_expr SliceAll = return slice_all"
| "eval_expr (GeneratorExp elt x iter) =
     and_then (eval_expr iter) (\<lambda>v. and_then (consult (EIter v) v) (\<lambda>it. return (VGen elt x it)))"
| "eval_keyword (Keyword k e) = named k (eval_expr e)"
| "eval_fpart (FText s) = return (VStr s)"
| "eval_fpart (FValue e) = eval_expr e"
| "eval_item (Item k e) = paired (eval_expr k) (eval_expr e)"

subsection \<open>Statements, cells and notebooks\<close>

definition import_binding :: "string \<Rightarrow> string option \<Rightarrow> string \<times> val" where
  "import_binding m asname =
     (case asname of
        Some a \<Rightarrow> (a, VGlobal m)
      | None \<Rightarrow> (takeWhile (\<lambda>c. c \<noteq> CHR ''.'') m, VGlobal (takeWhile (\<lambda>c. c \<noteq> CHR ''.'') m)))"

definition bind_targets :: "string list \<Rightarrow> val \<Rightarrow> env \<Rightarrow> env option" where
  "bind_targets xs v env =
     (case xs of
        [x] \<Rightarrow> Some (bind_name x v env)
      | _ \<Rightarrow> (case v of
                VTuple vs \<Rightarrow> if length vs = length xs then Some (fold (\<lambda>(x, u). bind_name x u) (zip xs vs) env) else None
              | VList vs \<Rightarrow> if length vs = length xs then Some (fold (\<lambda>(x, u). bind_name x u) (zip xs vs) env) else None
              | _ \<Rightarrow> None))"

text \<open>
  A statement turns a state (the environment and the operations so far) into an outcome and
  a new state. A block runs its statements in order and stops at the first that does not
  complete.
\<close>

type_synonym action = "world \<Rightarrow> state \<Rightarrow> outcome \<times> state"

fun block :: "action list \<Rightarrow> action" where
  "block [] = (\<lambda>w st. (Done, st))"
| "block (a # as) =
     (\<lambda>w st. case a w st of
               (Done, st1) \<Rightarrow> block as w st1
             | r \<Rightarrow> r)"

text \<open>
  Evaluating an expression as part of a statement: an exception ends the statement, a
  value is passed on.
\<close>

definition with_value :: "'a comp \<Rightarrow> ('a \<Rightarrow> action) \<Rightarrow> action" where
  "with_value m k =
     (\<lambda>w (env, t). case m w env t of
                      (Inl ex, t1) \<Rightarrow> (Raised ex, (env, t1))
                    | (Inr v, t1) \<Rightarrow> k v w (env, t1))"

definition assign :: "string \<Rightarrow> val \<Rightarrow> action" where
  "assign x v = (\<lambda>w (env, t). (Done, (bind_name x v env, t)))"

definition skip :: action where
  "skip = (\<lambda>w st. (Done, st))"

definition raise :: "exn \<Rightarrow> action" where
  "raise ex = (\<lambda>w (env, t). (Raised ex, (env, t @ [ERaise ex])))"

definition ask :: "event \<Rightarrow> action \<Rightarrow> action" where
  "ask ev k =
     (\<lambda>w (env, t). case w ev of
                      Some (Raises e) \<Rightarrow> (Raised e, (env, t @ [ev]))
                    | _ \<Rightarrow> k w (env, t @ [ev]))"

definition try_except :: "action \<Rightarrow> string \<Rightarrow> action \<Rightarrow> action" where
  "try_except body cls handler =
     (\<lambda>w st. case body w st of
               (Raised ex, st1) \<Rightarrow> if catches cls ex then handler w st1 else (Raised ex, st1)
             | r \<Rightarrow> r)"

text \<open>
  A \<open>for\<close> loop over the items of a tuple or a list runs its body once per item. Any other
  iterable is asked for its items; when the world gives no tuple or list, what the
  iterable yields is not modelled: the run stops as \<open>Unmodelled\<close>, which no \<open>except\<close>
  clause catches.
\<close>

fun for_items :: "action \<Rightarrow> string list \<Rightarrow> val list \<Rightarrow> action" where
  "for_items body xs [] = skip"
| "for_items body xs (v # vs) =
     (\<lambda>w (env, t). case bind_targets xs v env of
                      None \<Rightarrow> raise TypeError w (env, t)
                    | Some env1 \<Rightarrow>
                        (case body w (env1, t) of
                           (Done, st1) \<Rightarrow> for_items body xs vs w st1
                         | r \<Rightarrow> r))"

definition unmodelled :: action where
  "unmodelled = (\<lambda>w st. (Unmodelled, st))"

definition over_items :: "string list \<Rightarrow> val \<Rightarrow> action \<Rightarrow> action" where
  "over_items xs v body =
     (case v of
        VTuple vs \<Rightarrow> for_items body xs vs
      | VList vs \<Rightarrow> for_items body xs vs
      | _ \<Rightarrow> unmodelled)"

definition for_loop :: "string list \<Rightarrow> val \<Rightarrow> action \<Rightarrow> action" where
  "for_loop xs v body =
     (case v of
        VTuple vs \<Rightarrow> for_items body xs vs
      | VList vs \<Rightarrow> for_items body xs vs
      | _ \<Rightarrow> with_value (consult (EIter v) v) (\<lambda>it. over_items xs it body))"

text \<open>
  Leaving a \<open>with\<close> block. When the body completes, the context is left normally. When
  the body ends with an exception, the context is left on that exception, as Python
  calls \<open>__exit__\<close> with it: the exit may raise an exception of its own, which replaces
  the pending one; it may return a true value, which suppresses the pending exception;
  otherwise the pending exception propagates.
\<close>

definition unwind :: "val \<Rightarrow> exn \<Rightarrow> action" where
  "unwind v ex =
     (\<lambda>w (env, t). (case w (EExit v (Some ex)) of
                       Some (Raises e) \<Rightarrow> Raised e
                     | Some (Returns r) \<Rightarrow> if truthy r then Done else Raised ex
                     | None \<Rightarrow> Raised ex,
                     (env, t @ [EExit v (Some ex)])))"

definition leaving :: "val \<Rightarrow> action \<Rightarrow> action" where
  "leaving v body =
     (\<lambda>w st. case body w st of
               (Done, st1) \<Rightarrow> ask (EExit v None) skip w st1
             | (Raised ex, st1) \<Rightarrow> unwind v ex w st1
             | (Unmodelled, st1) \<Rightarrow> (Unmodelled, st1))"

text \<open>
  An import binds the module (or the names taken from it) as globals. An annotated
  assignment assigns first and evaluates the annotation afterwards. An \<open>assert\<close> and an
  \<open>if\<close> test the truth of their condition. A \<open>with\<close> statement enters the value of its
  context expression, binds what entering gives, runs its body and leaves the context. A
  function definition binds the function's name; its
  body runs only when the function is called, and such a call is an event of its own
  (see \<open>call\<close>).
\<close>

primrec exec :: "stmt \<Rightarrow> action" where
  "exec (Import m asname) =
     ask (EImport m) (assign (fst (import_binding m asname)) (snd (import_binding m asname)))"
| "exec (ImportFrom m names) =
     ask (EImport m) (block (map (\<lambda>n. assign n (VGlobal (m @ ''.'' @ n))) names))"
| "exec (Assign x e) = with_value (eval_expr e) (\<lambda>v. assign x v)"
| "exec (AnnAssign x ann e) =
     with_value (eval_expr e) (\<lambda>v. block [assign x v, with_value (eval_expr ann) (\<lambda>_. skip)])"
| "exec (ExprStmt e) = with_value (eval_expr e) (\<lambda>_. skip)"
| "exec (Assert e) =
     with_value (and_then (eval_expr e) truth_of) (\<lambda>b. if b then skip else raise AssertionError)"
| "exec (Try body cls handler) = try_except (block (map exec body)) cls (block (map exec handler))"
| "exec (IfStmt c body) =
     with_value (and_then (eval_expr c) truth_of) (\<lambda>b. if b then block (map exec body) else skip)"
| "exec (With e x body) =
     with_value (eval_expr e) (\<lambda>v.
     with_value (consult (EEnter v) v) (\<lambda>m.
     leaving v (block [assign x m, block (map exec body)])))"
| "exec (For xs e body) = with_value (eval_expr e) (\<lambda>v. for_loop xs v (block (map exec body)))"
| "exec (FunctionDef f xs body) = assign f (VGlobal (''__main__.'' @ f))"
| "exec (Magic m) = ask (EMagic m) skip"
| "exec (Comment c) = skip"

text \<open>
  Running the cells in order, as the notebook's "run all" does: markdown cells do
  nothing, and the run stops at the first cell that does not complete.
\<close>

definition cell_statements :: "cell \<Rightarrow> stmt list" where
  "cell_statements c = (case c of Markdown ls \<Rightarrow> [] | Code ss \<Rightarrow> ss)"

definition exec_cell :: "cell \<Rightarrow> action" where
  "exec_cell c = block (map exec (cell_statements c))"

definition run :: "world \<Rightarrow> cell list \<Rightarrow> outcome \<times> state" where
  "run w nb = block (map exec_cell nb) w ([], [])"

definition status :: "outcome \<times> state \<Rightarrow> outcome" where
  "status r = fst r"

definition final_env :: "outcome \<times> state \<Rightarrow> env" where
  "final_env r = fst (snd r)"

text \<open>
  The operations of a run are all it did, in order; its events are the calls, imports
  and magics among them.
\<close>

definition operations :: "outcome \<times> state \<Rightarrow> event list" where
  "operations r = snd (snd r)"

definition events :: "outcome \<times> state \<Rightarrow> event list" where
  "events r = filter is_major (operations r)"

section \<open>Reading the events of a run\<close>

text \<open>
  The notebooks are read through the run in which every external operation returns
  normally (\<open>default_world\<close>): its events are the calls the notebook makes, in order, with
  the objects they are given.
\<close>

definition callee_name :: "event \<Rightarrow> string" where
  "callee_name ev = (case ev of ECall (VGlobal q) _ _ \<Rightarrow> q | _ \<Rightarrow> [])"

definition is_build_event :: "event \<Rightarrow> bool" where
  "is_build_event ev = (case ev of ECall f _ _ \<Rightarrow> is_build_factory f | _ \<Rightarrow> False)"

definition is_params_event :: "event \<Rightarrow> bool" where
  "is_params_event ev = (case ev of ECall f _ _ \<Rightarrow> is_params_class f | _ \<Rightarrow> False)"

text \<open>
  The Params argument of a factory call is its first positional argument or its keyword
  \<open>params\<close>; the dependencies are its keyword \<open>dependencies\<close>.
\<close>

definition params_arg :: "event \<Rightarrow> val option" where
  "params_arg ev =
     (case ev of
        ECall f args kws \<Rightarrow> (case args of p # _ \<Rightarrow> Some p | [] \<Rightarrow> map_of kws ''params'')
      | _ \<Rightarrow> None)"

definition dependencies_arg :: "event \<Rightarrow> val option" where
  "dependencies_arg ev = (case ev of ECall f args kws \<Rightarrow> map_of kws ''dependencies'' | _ \<Rightarrow> None)"

definition keyword_arg :: "string \<Rightarrow> event \<Rightarrow> val option" where
  "keyword_arg k ev = (case ev of ECall f args kws \<Rightarrow> map_of kws k | _ \<Rightarrow> None)"

text \<open>The call that created an object; a Params object.\<close>

definition the_default :: "'a \<Rightarrow> 'a option \<Rightarrow> 'a" where
  "the_default d x = (case x of Some v \<Rightarrow> v | None \<Rightarrow> d)"

definition object_event :: "event list \<Rightarrow> val \<Rightarrow> event option" where
  "object_event t v = (case v of VRef k \<Rightarrow> if k < length t then Some (t ! k) else None | _ \<Rightarrow> None)"

definition is_params_object :: "event list \<Rightarrow> val \<Rightarrow> bool" where
  "is_params_object t v = (case object_event t v of Some ev \<Rightarrow> is_params_event ev | None \<Rightarrow> False)"

text \<open>
  For every factory call of a run, in order: the factory; the class of its Params
  argument (the callee of the call that created the argument); and, if the call has a
  \<open>dependencies\<close> dictionary, for each entry the class of the key, the factory that
  returned the value, and whether that factory call was given the key as its Params
  argument.
\<close>

definition creator :: "event list \<Rightarrow> val \<Rightarrow> string" where
  "creator t v = (case object_event t v of Some ev \<Rightarrow> callee_name ev | None \<Rightarrow> [])"

definition built_from :: "event list \<Rightarrow> val \<Rightarrow> val \<Rightarrow> bool" where
  "built_from t d k =
     (case object_event t d of
        Some ev \<Rightarrow> is_build_event ev \<and> is_params_object t k \<and> params_arg ev = Some k
      | None \<Rightarrow> False)"

definition entries :: "event list \<Rightarrow> val \<Rightarrow> (string \<times> string \<times> bool) list option" where
  "entries t v =
     (case v of
        VDict kvs \<Rightarrow> Some (map (\<lambda>(k, d). (creator t k, creator t d, built_from t d k)) kvs)
      | _ \<Rightarrow> None)"

definition build_summary ::
  "event list \<Rightarrow> (string \<times> string option \<times> (string \<times> string \<times> bool) list option) list" where
  "build_summary t =
     map (\<lambda>ev. (callee_name ev,
                 map_option (creator t) (params_arg ev),
                 Option.bind (dependencies_arg ev) (entries t)))
         (filter is_build_event t)"

subsection \<open>Stages\<close>

text \<open>
  The five steps of the pipeline, in the order of the notebooks' sections. Each step has
  a module of \<open>recirq.qcqmc\<close>, from which the notebooks import its Params and Data classes.
\<close>

definition pipeline_modules :: "string list" where
  "pipeline_modules =
     [''recirq.qcqmc.hamiltonian'', ''recirq.qcqmc.trial_wf'', ''recirq.qcqmc.blueprint'',
      ''recirq.qcqmc.experiment'', ''recirq.qcqmc.analysis'']"

fun index_of :: "'a \<Rightarrow> 'a list \<Rightarrow> nat option" where
  "index_of x [] = None"
| "index_of x (y # ys) = (if x = y then Some 0 else map_option Suc (index_of x ys))"

definition stage_of_event :: "event \<Rightarrow> nat option" where
  "stage_of_event ev =
     (if is_params_event ev then index_of (qualifier (callee_name ev)) pipeline_modules
      else if is_build_event ev then index_of (qualifier (qualifier (callee_name ev))) pipeline_modules
      else None)"

definition stage_of_object :: "event list \<Rightarrow> val \<Rightarrow> nat option" where
  "stage_of_object t v = (case object_event t v of Some ev \<Rightarrow> stage_of_event ev | None \<Rightarrow> None)"

text \<open>
  The objects a value refers to, and the objects reachable from them through the
  arguments of the calls that created them.
\<close>

primrec refs_of :: "val \<Rightarrow> nat list" where
  "refs_of (VInt i) = []"
| "refs_of (VFloat s) = []"
| "refs_of (VStr s) = []"
| "refs_of (VBool b) = []"
| "refs_of VNone = []"
| "refs_of (VTuple vs) = concat (map refs_of vs)"
| "refs_of (VList vs) = concat (map refs_of vs)"
| "refs_of (VDict kvs) = concat (map (\<lambda>p. fst p @ snd p) (map (map_prod refs_of refs_of) kvs))"
| "refs_of (VObj fs) = concat (map snd (map (map_prod id refs_of) fs))"
| "refs_of (VGlobal q) = []"
| "refs_of (VRef k) = [k]"
| "refs_of (VAttr v a) = refs_of v"
| "refs_of (VOp s vs) = concat (map refs_of vs)"
| "refs_of (VGen e x v) = refs_of v"

definition event_refs :: "event \<Rightarrow> nat list" where
  "event_refs ev =
     (case ev of
        ECall f args kws \<Rightarrow> refs_of f @ concat (map refs_of args) @ concat (map (\<lambda>(k, v). refs_of v) kws)
      | _ \<Rightarrow> [])"

definition reach_step :: "event list \<Rightarrow> nat list \<Rightarrow> nat list" where
  "reach_step t ks = remdups (ks @ concat (map (\<lambda>k. if k < length t then event_refs (t ! k) else []) ks))"

fun reach :: "event list \<Rightarrow> nat \<Rightarrow> nat list \<Rightarrow> nat list" where
  "reach t 0 ks = ks"
| "reach t (Suc n) ks = (if reach_step t ks = ks then ks else reach t n (reach_step t ks))"

definition reachable :: "event list \<Rightarrow> event \<Rightarrow> nat list" where
  "reachable t ev = reach t (length t) (remdups (event_refs ev))"

text \<open>
  For each Params constructor call: its stage and the stages of the Params objects its
  arguments reach (the Params that the new Params object references). For each factory
  call: its stage, the stage of its Params argument, and the stages of the keys and of
  the values of its dependencies.
\<close>

definition stages_of :: "event list \<Rightarrow> nat list \<Rightarrow> nat list" where
  "stages_of t ks =
     sort (remdups (concat (map (\<lambda>k. case stage_of_object t (VRef k) of Some s \<Rightarrow> [s] | None \<Rightarrow> []) ks)))"

definition referenced_stages :: "event list \<Rightarrow> event \<Rightarrow> nat list" where
  "referenced_stages t ev = stages_of t (filter (\<lambda>k. is_params_object t (VRef k)) (reachable t ev))"

definition dependency_stages :: "event list \<Rightarrow> event \<Rightarrow> (nat option \<times> nat option) list" where
  "dependency_stages t ev =
     (case dependencies_arg ev of
        Some (VDict kvs) \<Rightarrow> map (\<lambda>(k, d). (stage_of_object t k, stage_of_object t d)) kvs
      | _ \<Rightarrow> [])"

definition params_table :: "event list \<Rightarrow> (nat option \<times> nat list) list" where
  "params_table t = map (\<lambda>ev. (stage_of_event ev, referenced_stages t ev)) (filter is_params_event t)"

definition build_table :: "event list \<Rightarrow> (nat option \<times> nat option \<times> (nat option \<times> nat option) list) list" where
  "build_table t =
     map (\<lambda>ev. (stage_of_event ev, stage_of_object t (the_default VNone (params_arg ev)), dependency_stages t ev))
         (filter is_build_event t)"

text \<open>
  A Params object of stage \<open>s\<close> references only Params of stages before \<open>s\<close>; a factory
  call of stage \<open>s\<close> is given the Params object of stage \<open>s\<close>, and the keys and the values
  of its dependencies are of stages before \<open>s\<close>.
\<close>

definition before_stage :: "nat \<Rightarrow> nat option \<Rightarrow> bool" where
  "before_stage s x = (case x of Some j \<Rightarrow> j < s | None \<Rightarrow> False)"

definition params_earlier_only :: "nat option \<times> nat list \<Rightarrow> bool" where
  "params_earlier_only row = (case row of (Some s, rs) \<Rightarrow> list_all (\<lambda>j. j < s) rs | (None, rs) \<Rightarrow> False)"

definition build_earlier_only :: "nat option \<times> nat option \<times> (nat option \<times> nat option) list \<Rightarrow> bool" where
  "build_earlier_only row =
     (case row of
        (Some s, p, ds) \<Rightarrow> p = Some s \<and> list_all (\<lambda>(k, d). before_stage s k \<and> before_stage s d) ds
      | (None, p, ds) \<Rightarrow> False)"

subsection \<open>Dependencies\<close>

text \<open>
  An entry of the dependencies of the factory call at position \<open>i\<close> is consistent when its
  key is a Params object created before the call, and its value is the object returned by
  an earlier factory call whose Params argument is that very key.
\<close>

definition consistent_entry :: "event list \<Rightarrow> nat \<Rightarrow> val \<times> val \<Rightarrow> bool" where
  "consistent_entry t i kd =
     (case kd of
        (VRef a, VRef b) \<Rightarrow>
          a < b \<and> b < i \<and> i \<le> length t \<and> is_params_event (t ! a) \<and> is_build_event (t ! b)
          \<and> params_arg (t ! b) = Some (VRef a)
      | _ \<Rightarrow> False)"

definition dependencies_of :: "event list \<Rightarrow> (nat \<times> (val \<times> val) list) list" where
  "dependencies_of t =
     concat (map (\<lambda>(i, ev). case dependencies_arg ev of
                              Some (VDict kvs) \<Rightarrow> [(i, kvs)]
                            | _ \<Rightarrow> [])
                 (filter (\<lambda>(i, ev). is_build_event ev) (enumerate 0 t)))"

definition dependencies_consistent :: "event list \<Rightarrow> bool" where
  "dependencies_consistent t =
     list_all (\<lambda>(i, kvs). list_all (consistent_entry t i) kvs) (dependencies_of t)"

definition from_dependencies_calls :: "event list \<Rightarrow> string list" where
  "from_dependencies_calls t =
     map callee_name (filter (\<lambda>ev. is_build_event ev \<and> ends_with ''_from_dependencies'' (callee_name ev)) t)"

subsection \<open>Seeds\<close>



definition calls_to :: "string \<Rightarrow> event list \<Rightarrow> (nat \<times> event) list" where
  "calls_to q t = filter (\<lambda>(i, ev). callee_name ev = q) (enumerate 0 t)"

section \<open>Reading the source of a notebook\<close>

text \<open>
  The words of a code cell: every identifier, attribute name, keyword, module name and
  literal text of its syntax, with its comments and magic lines. The text of a markdown
  cell is its lines.
\<close>

primrec expr_words :: "expr \<Rightarrow> string list"
  and keyword_words :: "keyword \<Rightarrow> string list"
  and fpart_words :: "fpart \<Rightarrow> string list"
  and item_words :: "item \<Rightarrow> string list"
where
  "expr_words (Name x) = [x]"
| "expr_words (Attribute e a) = expr_words e @ [a]"
| "expr_words (Call f args kws) =
     expr_words f @ concat (map expr_words args) @ concat (map keyword_words kws)"
| "expr_words (IntLit i) = []"
| "expr_words (FloatLit s) = [s]"
| "expr_words (StrLit s) = [s]"
| "expr_words (BoolLit b) = []"
| "expr_words NoneLit = []"
| "expr_words (JoinedStr ps) = concat (map fpart_words ps)"
| "expr_words (Tuple es) = concat (map expr_words es)"
| "expr_words (ListE es) = concat (map expr_words es)"
| "expr_words (Dict its) = concat (map item_words its)"
| "expr_words (BinOp a op b) = expr_words a @ expr_words b"
| "expr_words (Compare a op b) = expr_words a @ expr_words b"
| "expr_words (UnaryOp op a) = expr_words a"
| "expr_words (Subscript a i) = expr_words a @ expr_words i"
| "expr_words SliceAll = []"
| "expr_words (GeneratorExp elt x iter) = expr_words elt @ [x] @ expr_words iter"
| "keyword_words (Keyword k e) = k # expr_words e"
| "fpart_words (FText s) = [s]"
| "fpart_words (FValue e) = expr_words e"
| "item_words (Item k e) = expr_words k @ expr_words e"

primrec stmt_words :: "stmt \<Rightarrow> string list" where
  "stmt_words (Import m asname) = m # (case asname of Some a \<Rightarrow> [a] | None \<Rightarrow> [])"
| "stmt_words (ImportFrom m names) = m # names"
| "stmt_words (Assign x e) = x # expr_words e"
| "stmt_words (AnnAssign x ann e) = x # expr_words ann @ expr_words e"
| "stmt_words (ExprStmt e) = expr_words e"
| "stmt_words (Assert e) = expr_words e"
| "stmt_words (Try body cls handler) =
     concat (map stmt_words body) @ [cls] @ concat (map stmt_words handler)"
| "stmt_words (IfStmt c body) = expr_words c @ concat (map stmt_words body)"
| "stmt_words (With e x body) = expr_words e @ [x] @ concat (map stmt_words body)"
| "stmt_words (For xs e body) = xs @ expr_words e @ concat (map stmt_words body)"
| "stmt_words (FunctionDef f xs body) = f # xs @ concat (map stmt_words body)"
| "stmt_words (Magic m) = [m]"
| "stmt_words (Comment c) = [c]"

definition cell_text :: "cell \<Rightarrow> string list" where
  "cell_text c = (case c of Markdown ls \<Rightarrow> ls | Code ss \<Rightarrow> concat (map stmt_words ss))"

definition mentions :: "string \<Rightarrow> cell \<Rightarrow> bool" where
  "mentions p c = list_ex (is_infix p) (cell_text c)"

definition is_code :: "cell \<Rightarrow> bool" where
  "is_code c = (case c of Code ss \<Rightarrow> True | Markdown ls \<Rightarrow> False)"

definition is_markdown :: "cell \<Rightarrow> bool" where
  "is_markdown c = (case c of Code ss \<Rightarrow> False | Markdown ls \<Rightarrow> True)"

definition cells_mentioning :: "string \<Rightarrow> cell list \<Rightarrow> nat list" where
  "cells_mentioning p nb = map fst (filter (\<lambda>(i, c). mentions p c) (enumerate 0 nb))"

text \<open>The statements of a notebook, with the statements nested in them.\<close>

primrec substmts :: "stmt \<Rightarrow> stmt list" where
  "substmts (Import m asname) = [Import m asname]"
| "substmts (ImportFrom m names) = [ImportFrom m names]"
| "substmts (Assign x e) = [Assign x e]"
| "substmts (AnnAssign x ann e) = [AnnAssign x ann e]"
| "substmts (ExprStmt e) = [ExprStmt e]"
| "substmts (Assert e) = [Assert e]"
| "substmts (Try body cls handler) =
     Try body cls handler # concat (map substmts body) @ concat (map substmts handler)"
| "substmts (IfStmt c body) = IfStmt c body # concat (map substmts body)"
| "substmts (With e x body) = With e x body # concat (map substmts body)"
| "substmts (For xs e body) = For xs e body # concat (map substmts body)"
| "substmts (FunctionDef f xs body) = FunctionDef f xs body # concat (map substmts body)"
| "substmts (Magic m) = [Magic m]"
| "substmts (Comment c) = [Comment c]"

definition statements :: "cell list \<Rightarrow> stmt list" where
  "statements nb = concat (map (\<lambda>c. concat (map substmts (cell_statements c))) nb)"

definition is_try :: "stmt \<Rightarrow> bool" where
  "is_try s = (case s of Try body cls handler \<Rightarrow> True | _ \<Rightarrow> False)"

definition is_if :: "stmt \<Rightarrow> bool" where
  "is_if s = (case s of IfStmt c body \<Rightarrow> True | _ \<Rightarrow> False)"

definition is_for :: "stmt \<Rightarrow> bool" where
  "is_for s = (case s of For xs e body \<Rightarrow> True | _ \<Rightarrow> False)"

definition imported_modules :: "cell list \<Rightarrow> string list" where
  "imported_modules nb =
     remdups (concat (map (\<lambda>s. case s of Import m asname \<Rightarrow> [m] | ImportFrom m names \<Rightarrow> [m] | _ \<Rightarrow> [])
                          (statements nb)))"

text \<open>
  The expressions of a notebook: those its statements evaluate, with all the expressions
  nested in them. The callees are the expressions its calls call; the generators are its
  generator expressions.
\<close>

primrec subexprs :: "expr \<Rightarrow> expr list"
  and keyword_exprs :: "keyword \<Rightarrow> expr list"
  and fpart_exprs :: "fpart \<Rightarrow> expr list"
  and item_exprs :: "item \<Rightarrow> expr list"
where
  "subexprs (Name x) = [Name x]"
| "subexprs (Attribute e a) = Attribute e a # subexprs e"
| "subexprs (Call f args kws) =
     Call f args kws # subexprs f @ concat (map subexprs args) @ concat (map keyword_exprs kws)"
| "subexprs (IntLit i) = [IntLit i]"
| "subexprs (FloatLit s) = [FloatLit s]"
| "subexprs (StrLit s) = [StrLit s]"
| "subexprs (BoolLit b) = [BoolLit b]"
| "subexprs NoneLit = [NoneLit]"
| "subexprs (JoinedStr ps) = JoinedStr ps # concat (map fpart_exprs ps)"
| "subexprs (Tuple es) = Tuple es # concat (map subexprs es)"
| "subexprs (ListE es) = ListE es # concat (map subexprs es)"
| "subexprs (Dict its) = Dict its # concat (map item_exprs its)"
| "subexprs (BinOp a op b) = BinOp a op b # subexprs a @ subexprs b"
| "subexprs (Compare a op b) = Compare a op b # subexprs a @ subexprs b"
| "subexprs (UnaryOp op a) = UnaryOp op a # subexprs a"
| "subexprs (Subscript a i) = Subscript a i # subexprs a @ subexprs i"
| "subexprs SliceAll = [SliceAll]"
| "subexprs (GeneratorExp elt x iter) = GeneratorExp elt x iter # subexprs elt @ subexprs iter"
| "keyword_exprs (Keyword k e) = subexprs e"
| "fpart_exprs (FText s) = []"
| "fpart_exprs (FValue e) = subexprs e"
| "item_exprs (Item k e) = subexprs k @ subexprs e"

definition stmt_exprs :: "stmt \<Rightarrow> expr list" where
  "stmt_exprs s =
     (case s of
        Assign x e \<Rightarrow> [e]
      | AnnAssign x ann e \<Rightarrow> [ann, e]
      | ExprStmt e \<Rightarrow> [e]
      | Assert e \<Rightarrow> [e]
      | IfStmt c body \<Rightarrow> [c]
      | With e x body \<Rightarrow> [e]
      | For xs e body \<Rightarrow> [e]
      | _ \<Rightarrow> [])"

definition expressions :: "cell list \<Rightarrow> expr list" where
  "expressions nb = concat (map subexprs (concat (map stmt_exprs (statements nb))))"

definition callees :: "cell list \<Rightarrow> expr list" where
  "callees nb =
     remdups (concat (map (\<lambda>e. case e of Call f args kws \<Rightarrow> [f] | _ \<Rightarrow> []) (expressions nb)))"

definition generators :: "cell list \<Rightarrow> expr list" where
  "generators nb =
     filter (\<lambda>e. case e of GeneratorExp elt x iter \<Rightarrow> True | _ \<Rightarrow> False) (expressions nb)"

definition is_assert :: "stmt \<Rightarrow> bool" where
  "is_assert s = (case s of Assert e \<Rightarrow> True | _ \<Rightarrow> False)"

definition magic_lines :: "cell list \<Rightarrow> string list" where
  "magic_lines nb = concat (map (\<lambda>s. case s of Magic m \<Rightarrow> [m] | _ \<Rightarrow> []) (statements nb))"

definition defined_functions :: "cell list \<Rightarrow> string list" where
  "defined_functions nb =
     concat (map (\<lambda>s. case s of FunctionDef f xs body \<Rightarrow> [f] | _ \<Rightarrow> []) (statements nb))"

text \<open>What a run calls: the callees of its calls, each once, in the order of the first call.\<close>

definition called :: "event list \<Rightarrow> val list" where
  "called t = remdups (concat (map (\<lambda>ev. case ev of ECall f args kws \<Rightarrow> [f] | _ \<Rightarrow> []) t))"

text \<open>Mentions of a word whatever the case of its letters.\<close>

definition lower :: "string \<Rightarrow> string" where
  "lower s =
     map (\<lambda>c. case map_of (zip ''ABCDEFGHIJKLMNOPQRSTUVWXYZ'' ''abcdefghijklmnopqrstuvwxyz'') c of
                 Some d \<Rightarrow> d
               | None \<Rightarrow> c) s"

definition mentions_any_case :: "string \<Rightarrow> cell \<Rightarrow> bool" where
  "mentions_any_case p c = list_ex (\<lambda>s. is_infix (lower p) (lower s)) (cell_text c)"

definition cells_mentioning_any_case :: "string \<Rightarrow> cell list \<Rightarrow> nat list" where
  "cells_mentioning_any_case p nb =
     map fst (filter (\<lambda>(i, c). mentions_any_case p c) (enumerate 0 nb))"
section \<open>Worlds\<close>

text \<open>
  The factorized Hamiltonian that \<open>generate_hamiltonian_from_chk\<close> returns, as far as the
  end-to-end notebook looks at it: an object whose fields \<open>H1\<close> and \<open>chol\<close> are arrays
  with the given shapes. In \<open>ham_world\<close> the routine returns such an object and every
  other external operation returns normally.
\<close>

definition ham_object :: "int list \<Rightarrow> int list \<Rightarrow> val" where
  "ham_object h1_shape chol_shape =
     VObj [(''H1'', VObj [(''shape'', VTuple (map VInt h1_shape))]),
           (''chol'', VObj [(''shape'', VTuple (map VInt chol_shape))])]"

definition ham_world :: "int list \<Rightarrow> int list \<Rightarrow> world" where
  "ham_world h1_shape chol_shape =
     (\<lambda>ev. if callee_name ev = ''ipie.utils.from_pyscf.generate_hamiltonian_from_chk''
           then Some (Returns (ham_object h1_shape chol_shape)) else None)"

text \<open>A world in which one operation raises and every other one returns normally.\<close>

definition raising_world :: "event \<Rightarrow> exn \<Rightarrow> world" where
  "raising_world ev e = (\<lambda>ev'. if ev' = ev then Some (Raises e) else None)"

text \<open>The expressions a notebook assigns to a name.\<close>

definition assigned :: "string \<Rightarrow> cell list \<Rightarrow> expr list" where
  "assigned x nb =
     concat (map (\<lambda>s. case s of Assign y e \<Rightarrow> if y = x then [e] else [] | _ \<Rightarrow> []) (statements nb))"

section \<open>Exceptions of the outside world\<close>

text \<open>
  The exception an operation raises in a world: the one the world answers it with, or
  the one the notebook's own operation raised. Leaving a \<open>with\<close> block on an exception
  (unwinding) is set apart: it comes after the operation that raised, and what it does to
  the pending exception is up to the context manager. A world is calm when leaving a
  \<open>with\<close> block on an exception neither raises nor suppresses: the pending exception is
  passed on. The operations proper of a run are all but the unwinding ones.
\<close>

definition is_unwinding :: "event \<Rightarrow> bool" where
  "is_unwinding ev = (case ev of EExit v x \<Rightarrow> x \<noteq> None | _ \<Rightarrow> False)"

definition external :: "event \<Rightarrow> bool" where
  "external ev = (case ev of ERaise e \<Rightarrow> False | EExit v x \<Rightarrow> x = None | _ \<Rightarrow> True)"

definition passes_on :: "world \<Rightarrow> event \<Rightarrow> bool" where
  "passes_on w ev =
     (case w ev of
        Some (Raises e) \<Rightarrow> False
      | Some (Returns r) \<Rightarrow> \<not> truthy r
      | None \<Rightarrow> True)"

definition calm :: "world \<Rightarrow> bool" where
  "calm w = (\<forall>v x. passes_on w (EExit v (Some x)))"

definition proper :: "event list \<Rightarrow> event list" where
  "proper evs = filter (\<lambda>ev. \<not> is_unwinding ev) evs"

definition raised :: "world \<Rightarrow> event \<Rightarrow> exn option" where
  "raised w ev =
     (case ev of
        ERaise e \<Rightarrow> Some e
      | _ \<Rightarrow> (case w ev of Some (Raises e) \<Rightarrow> Some e | _ \<Rightarrow> None))"

text \<open>
  What the handler of the setup cells catches: an \<open>ImportError\<close> (an instance of that
  class or of a subclass, such as \<open>ModuleNotFoundError\<close>) raised by \<open>import recirq\<close>.
\<close>

definition handled :: "event \<Rightarrow> exn \<Rightarrow> bool" where
  "handled ev e = (ev = EImport ''recirq'' \<and> catches ''ImportError'' e)"

definition raising :: "world \<Rightarrow> event \<Rightarrow> bool" where
  "raising w ev = (case raised w ev of Some e \<Rightarrow> \<not> handled ev e | None \<Rightarrow> False)"

definition quiet :: "world \<Rightarrow> event list \<Rightarrow> bool" where
  "quiet w evs = list_all (\<lambda>ev. \<not> raising w ev) evs"

text \<open>
  The operations of a computation are faithful to its result when none raised before the
  last one, and an exception raised by the last one is the result. A computation is
  sound when, in a calm world, its operations proper are faithful to its result.
\<close>

definition faithful :: "world \<Rightarrow> event list \<Rightarrow> exn option \<Rightarrow> bool" where
  "faithful w new r =
     (case r of
        None \<Rightarrow> quiet w new
      | Some x \<Rightarrow> quiet w (butlast new)
                 \<and> (new = [] \<or> \<not> raising w (last new) \<or> raised w (last new) = Some x))"

definition raised_value :: "exn + 'a \<Rightarrow> exn option" where
  "raised_value r = (case r of Inl x \<Rightarrow> Some x | Inr v \<Rightarrow> None)"

definition raised_outcome :: "outcome \<Rightarrow> exn option" where
  "raised_outcome out = (case out of Raised x \<Rightarrow> Some x | _ \<Rightarrow> None)"

definition sound_comp :: "'a comp \<Rightarrow> bool" where
  "sound_comp m =
     (\<forall>w env t. calm w \<longrightarrow>
        (\<exists>new. snd (m w env t) = t @ new
               \<and> faithful w (proper new) (raised_value (fst (m w env t)))))"

definition sound_action :: "action \<Rightarrow> bool" where
  "sound_action a =
     (\<forall>w env t. calm w \<longrightarrow>
        (\<exists>new. snd (snd (a w (env, t))) = t @ new
               \<and> faithful w (proper new) (raised_outcome (fst (a w (env, t))))))"

text \<open>
  The operations a statement adds to those before it, and the bodies of the functions a
  notebook defines.
\<close>

definition added :: "event list \<Rightarrow> outcome \<times> state \<Rightarrow> event list" where
  "added t r = drop (length t) (operations r)"

definition function_bodies :: "cell list \<Rightarrow> stmt list list" where
  "function_bodies nb =
     concat (map (\<lambda>s. case s of FunctionDef f xs body \<Rightarrow> [body] | _ \<Rightarrow> []) (statements nb))"

text \<open>Statements without any \<open>try\<close>, however deeply nested.\<close>

primrec no_try :: "stmt \<Rightarrow> bool" where
  "no_try (Import m asname) = True"
| "no_try (ImportFrom m names) = True"
| "no_try (Assign x e) = True"
| "no_try (AnnAssign x ann e) = True"
| "no_try (ExprStmt e) = True"
| "no_try (Assert e) = True"
| "no_try (Try body cls handler) = False"
| "no_try (IfStmt c body) = list_all (\<lambda>b. b) (map no_try body)"
| "no_try (With e x body) = list_all (\<lambda>b. b) (map no_try body)"
| "no_try (For xs e body) = list_all (\<lambda>b. b) (map no_try body)"
| "no_try (FunctionDef f xs body) = list_all (\<lambda>b. b) (map no_try body)"
| "no_try (Magic m) = True"
| "no_try (Comment c) = True"


section \<open>Runs as functions of the outside world\<close>

text \<open>
  Two worlds agree on a list of operations when they answer each of them alike. A
  computation depends on the world only through its operations when every world that
  agrees with the given one on the operations of the computation gives the same
  computation: the same result and the same operations.
\<close>

definition agree :: "world \<Rightarrow> world \<Rightarrow> event list \<Rightarrow> bool" where
  "agree w w' evs = list_all (\<lambda>ev. w' ev = w ev) evs"

definition frame_comp :: "'a comp \<Rightarrow> bool" where
  "frame_comp m =
     (\<forall>w env t. \<exists>new. snd (m w env t) = t @ new
                      \<and> (\<forall>w'. agree w w' new \<longrightarrow> m w' env t = m w env t))"

definition frame_action :: "action \<Rightarrow> bool" where
  "frame_action a =
     (\<forall>w env t. \<exists>new. snd (snd (a w (env, t))) = t @ new
                      \<and> (\<forall>w'. agree w w' new \<longrightarrow> a w' (env, t) = a w (env, t)))"
section \<open>Properties of the table of contents\<close>

text \<open>
  C4 (as stated): every entry of the \<open>toc\<close> list is either a heading entry or a title
  entry paired with exactly one path. The entry at index 18 (line 38 of the file) carries
  the single key \<open>include\<close>: it is neither a heading entry nor a title/path entry.
\<close>

theorem toc_include_entry_counterexample:
  "toc ! 18 = [(''include'', ''/cirq/experiments/unitary/_toc.yaml'')]
   \<and> \<not> is_heading (toc ! 18) \<and> \<not> is_title_path (toc ! 18)"
  by (simp add: toc_def is_heading_def is_title_path_def)

text \<open>
  C4 (amended): every entry of the \<open>toc\<close> list is a heading entry, a title entry paired
  with exactly one path, or an include entry; there is exactly one include entry (of the
  table of contents of the unitary experiments), next to 10 headings and 33 title/path
  entries.
\<close>

theorem toc_entry_kinds:
  "list_all (\<lambda>e. is_heading e \<or> is_title_path e \<or> is_include e) toc
   \<and> filter is_include toc = [[(''include'', ''/cirq/experiments/unitary/_toc.yaml'')]]
   \<and> length (filter is_heading toc) = 10
   \<and> length (filter is_title_path toc) = 33"
  by (simp add: toc_def is_heading_def is_title_path_def is_include_def)

section \<open>The runs of the two notebooks\<close>

text \<open>
  The run of each notebook when every external operation returns normally: it completes,
  with the final bindings of the names (latest first) and the operations in order. Its
  events are the calls, imports and magics among them; \<open>VRef k\<close> is the object returned by
  the call that is event number \<open>k\<close> (counted from 0).
\<close>

lemma high_level_run:
  "run default_world high_level =
     (Done,
      [(''analysis_data'', VRef 27),
       (''OverlapAnalysisData'', VGlobal ''recirq.qcqmc.analysis.OverlapAnalysisData''),
       (''analysis_params'', VRef 25),
       (''OverlapAnalysisParams'', VGlobal ''recirq.qcqmc.analysis.OverlapAnalysisParams''),
       (''expt_data'', VRef 22),
       (''ExperimentData'', VGlobal ''recirq.qcqmc.experiment.ExperimentData''),
       (''expt_params'', VRef 20),
       (''SimulatedExperimentParams'', VGlobal ''recirq.qcqmc.experiment.SimulatedExperimentParams''),
       (''blueprint_data'', VRef 17),
       (''BlueprintData'', VGlobal ''recirq.qcqmc.blueprint.BlueprintData''),
       (''blueprint_params'', VRef 15),
       (''BlueprintParamsTrialWf'', VGlobal ''recirq.qcqmc.blueprint.BlueprintParamsTrialWf''),
       (''qubits'', VAttr (VRef 8) ''qubits_linearly_connected''),
       (''trial_wf_data'', VRef 10),
       (''TrialWavefunctionData'', VGlobal ''recirq.qcqmc.trial_wf.TrialWavefunctionData''),
       (''trial_wf_params'', VRef 8),
       (''PerfectPairingPlusTrialWavefunctionParams'', VGlobal ''recirq.qcqmc.trial_wf.PerfectPairingPlusTrialWavefunctionParams''),
       (''hamiltonian_data'', VRef 5),
       (''HamiltonianData'', VGlobal ''recirq.qcqmc.hamiltonian.HamiltonianData''),
       (''hamiltonian_params'', VRef 3),
       (''HamiltonianFileParams'', VGlobal ''recirq.qcqmc.hamiltonian.HamiltonianFileParams''),
       (''print_fields'', VGlobal ''__main__.print_fields''),
       (''attrs'', VGlobal ''attrs''),
       (''recirq'', VGlobal ''recirq'')],
      [EImport ''recirq'',
       EImport ''attrs'',
       EImport ''recirq.qcqmc.hamiltonian'',
       ECall (VGlobal ''recirq.qcqmc.hamiltonian.HamiltonianFileParams'') [] [(''name'', VStr ''4q_pp''), (''integral_key'', VStr ''fh_sto3g''), (''n_orb'', VInt 2), (''n_elec'', VInt 2)],
       EImport ''recirq.qcqmc.hamiltonian'',
       EAttr (VGlobal ''recirq.qcqmc.hamiltonian.HamiltonianData'') ''build_hamiltonian_from_file'',
       ECall (VGlobal ''recirq.qcqmc.hamiltonian.HamiltonianData.build_hamiltonian_from_file'') [VRef 3] [],
       ECall (VGlobal ''__main__.print_fields'') [VRef 5] [],
       EImport ''recirq.qcqmc.trial_wf'',
       ECall (VGlobal ''recirq.qcqmc.trial_wf.PerfectPairingPlusTrialWavefunctionParams'') [] [(''name'', VStr ''4q_pp''), (''hamiltonian_params'', VRef 3), (''heuristic_layers'', VTuple [])],
       EImport ''recirq.qcqmc.trial_wf'',
       EAttr (VGlobal ''recirq.qcqmc.trial_wf.TrialWavefunctionData'') ''build_pp_plus_trial_from_dependencies'',
       ECall (VGlobal ''recirq.qcqmc.trial_wf.TrialWavefunctionData.build_pp_plus_trial_from_dependencies'') [VRef 8] [(''dependencies'', VDict [(VRef 3, VRef 5)])],
       ECall (VGlobal ''builtins.print'') [VStr ''----------------------------------------''] [],
       ECall (VGlobal ''__main__.print_fields'') [VRef 10] [],
       EAttr (VRef 8) ''qubits_linearly_connected'',
       EImport ''recirq.qcqmc.blueprint'',
       EIter (VAttr (VRef 8) ''qubits_linearly_connected''),
       ECall (VGlobal ''builtins.tuple'') [VGen (Tuple [Name ''q'']) ''q'' (VAttr (VRef 8) ''qubits_linearly_connected'')] [],
       ECall (VGlobal ''recirq.qcqmc.blueprint.BlueprintParamsTrialWf'') [] [(''name'', VStr ''4q_pp''), (''trial_wf_params'', VRef 8), (''n_cliffords'', VInt 100), (''qubit_partition'', VRef 14)],
       EImport ''recirq.qcqmc.blueprint'',
       EAttr (VGlobal ''recirq.qcqmc.blueprint.BlueprintData'') ''build_blueprint_from_dependencies'',
       ECall (VGlobal ''recirq.qcqmc.blueprint.BlueprintData.build_blueprint_from_dependencies'') [VRef 15] [(''dependencies'', VDict [(VRef 8, VRef 10)])],
       ECall (VGlobal ''__main__.print_fields'') [VRef 17] [],
       EImport ''recirq.qcqmc.experiment'',
       ECall (VGlobal ''recirq.qcqmc.experiment.SimulatedExperimentParams'') [] [(''name'', VStr ''4q_pp''), (''blueprint_params'', VRef 15), (''n_samples_per_clifford'', VInt 1000), (''noise_model_name'', VStr ''None'')],
       EImport ''recirq.qcqmc.experiment'',
       EAttr (VGlobal ''recirq.qcqmc.experiment.ExperimentData'') ''build_experiment_from_dependencies'',
       ECall (VGlobal ''recirq.qcqmc.experiment.ExperimentData.build_experiment_from_dependencies'') [VRef 20] [(''dependencies'', VDict [(VRef 15, VRef 17)])],
       ECall (VGlobal ''__main__.print_fields'') [VRef 22] [],
       EImport ''recirq.qcqmc.analysis'',
       ECall (VGlobal ''recirq.qcqmc.analysis.OverlapAnalysisParams'') [] [(''name'', VStr ''4q_pp''), (''experiment_params'', VRef 20), (''k_to_calculate'', VTuple [VInt 1, VInt 2])],
       EImport ''recirq.qcqmc.analysis'',
       EAttr (VGlobal ''recirq.qcqmc.analysis.OverlapAnalysisData'') ''build_analysis_from_dependencies'',
       ECall (VGlobal ''recirq.qcqmc.analysis.OverlapAnalysisData.build_analysis_from_dependencies'') [VRef 25] [(''dependencies'', VDict [(VRef 20, VRef 22), (VRef 15, VRef 17), (VRef 8, VRef 10)])],
       ECall (VGlobal ''__main__.print_fields'') [VRef 27] []])"
  by code_simp

lemma high_level_events:
  "events (run default_world high_level) =
     [EImport ''recirq'',
      EImport ''attrs'',
      EImport ''recirq.qcqmc.hamiltonian'',
      ECall (VGlobal ''recirq.qcqmc.hamiltonian.HamiltonianFileParams'') [] [(''name'', VStr ''4q_pp''), (''integral_key'', VStr ''fh_sto3g''), (''n_orb'', VInt 2), (''n_elec'', VInt 2)],
      EImport ''recirq.qcqmc.hamiltonian'',
      ECall (VGlobal ''recirq.qcqmc.hamiltonian.HamiltonianData.build_hamiltonian_from_file'') [VRef 3] [],
      ECall (VGlobal ''__main__.print_fields'') [VRef 5] [],
      EImport ''recirq.qcqmc.trial_wf'',
      ECall (VGlobal ''recirq.qcqmc.trial_wf.PerfectPairingPlusTrialWavefunctionParams'') [] [(''name'', VStr ''4q_pp''), (''hamiltonian_params'', VRef 3), (''heuristic_layers'', VTuple [])],
      EImport ''recirq.qcqmc.trial_wf'',
      ECall (VGlobal ''recirq.qcqmc.trial_wf.TrialWavefunctionData.build_pp_plus_trial_from_dependencies'') [VRef 8] [(''dependencies'', VDict [(VRef 3, VRef 5)])],
      ECall (VGlobal ''builtins.print'') [VStr ''----------------------------------------''] [],
      ECall (VGlobal ''__main__.print_fields'') [VRef 10] [],
      EImport ''recirq.qcqmc.blueprint'',
      ECall (VGlobal ''builtins.tuple'') [VGen (Tuple [Name ''q'']) ''q'' (VAttr (VRef 8) ''qubits_linearly_connected'')] [],
      ECall (VGlobal ''recirq.qcqmc.blueprint.BlueprintParamsTrialWf'') [] [(''name'', VStr ''4q_pp''), (''trial_wf_params'', VRef 8), (''n_cliffords'', VInt 100), (''qubit_partition'', VRef 14)],
      EImport ''recirq.qcqmc.blueprint'',
      ECall (VGlobal ''recirq.qcqmc.blueprint.BlueprintData.build_blueprint_from_dependencies'') [VRef 15] [(''dependencies'', VDict [(VRef 8, VRef 10)])],
      ECall (VGlobal ''__main__.print_fields'') [VRef 17] [],
      EImport ''recirq.qcqmc.experiment'',
      ECall (VGlobal ''recirq.qcqmc.experiment.SimulatedExperimentParams'') [] [(''name'', VStr ''4q_pp''), (''blueprint_params'', VRef 15), (''n_samples_per_clifford'', VInt 1000), (''noise_model_name'', VStr ''None'')],
      EImport ''recirq.qcqmc.experiment'',
      ECall (VGlobal ''recirq.qcqmc.experiment.ExperimentData.build_experiment_from_dependencies'') [VRef 20] [(''dependencies'', VDict [(VRef 15, VRef 17)])],
      ECall (VGlobal ''__main__.print_fields'') [VRef 22] [],
      EImport ''recirq.qcqmc.analysis'',
      ECall (VGlobal ''recirq.qcqmc.analysis.OverlapAnalysisParams'') [] [(''name'', VStr ''4q_pp''), (''experiment_params'', VRef 20), (''k_to_calculate'', VTuple [VInt 1, VInt 2])],
      EImport ''recirq.qcqmc.analysis'',
      ECall (VGlobal ''recirq.qcqmc.analysis.OverlapAnalysisData.build_analysis_from_dependencies'') [VRef 25] [(''dependencies'', VDict [(VRef 20, VRef 22), (VRef 15, VRef 17), (VRef 8, VRef 10)])],
      ECall (VGlobal ''__main__.print_fields'') [VRef 27] []]"
  unfolding events_def operations_def high_level_run snd_conv
  by code_simp

lemma full_workflow_run:
  "run default_world full_workflow =
     (Done,
      [(''reblock_minimal'', VGlobal ''ipie.analysis.blocking.reblock_minimal''),
       (''data'', VRef 53),
       (''plt'', VGlobal ''matplotlib.pyplot''),
       (''extract_observable'', VGlobal ''ipie.analysis.extraction.extract_observable''),
       (''ipie_path'', VRef 48),
       (''pathlib'', VGlobal ''pathlib''),
       (''OUTDIRS'', VGlobal ''recirq.qcqmc.config.OUTDIRS''),
       (''qmc_driver'', VRef 45),
       (''AFQMC'', VGlobal ''ipie.qmc.afqmc.AFQMC''),
       (''wfn'', VRef 39),
       (''occb'', VOp ''[]'' [VOp ''[]'' [VRef 38, VStr ''occb_rotated''], VGlobal '':'']),
       (''occa'', VOp ''[]'' [VOp ''[]'' [VRef 38, VStr ''occa_rotated''], VGlobal '':'']),
       (''coeffs'', VOp ''[]'' [VOp ''[]'' [VRef 38, VStr ''coeffs_rotated''], VGlobal '':'']),
       (''fh5'', VRef 38),
       (''ParticleHole'', VGlobal ''ipie.trial_wavefunction.particle_hole.ParticleHole''),
       (''h5py'', VGlobal ''h5py''),
       (''ham'', VRef 35),
       (''chk_path'', VRef 33),
       (''system'', VRef 32),
       (''num_elec'', VTuple [VInt 2, VInt 2]),
       (''generate_hamiltonian_from_chk'', VGlobal ''ipie.utils.from_pyscf.generate_hamiltonian_from_chk''),
       (''Generic'', VGlobal ''ipie.systems.generic.Generic''),
       (''ipie_data'', VRef 26),
       (''save_wavefunction_for_ipie'', VGlobal ''recirq.qcqmc.convert_to_ipie.save_wavefunction_for_ipie''),
       (''analysis'', VRef 24),
       (''all_dependencies'', VDict [(VRef 2, VRef 3), (VRef 9, VRef 10), (VRef 16, VRef 17), (VRef 18, VRef 19)]),
       (''analysis_params'', VRef 23),
       (''OverlapAnalysisParams'', VGlobal ''recirq.qcqmc.analysis.OverlapAnalysisParams''),
       (''OverlapAnalysisData'', VGlobal ''recirq.qcqmc.analysis.OverlapAnalysisData''),
       (''Data'', VGlobal ''recirq.qcqmc.data.Data''),
       (''Params'', VGlobal ''recirq.qcqmc.data.Params''),
       (''Dict'', VGlobal ''typing.Dict''),
       (''experiment'', VRef 19),
       (''simulated_experiment_params'', VRef 18),
       (''blueprint'', VRef 17),
       (''blueprint_params'', VRef 16),
       (''ExperimentData'', VGlobal ''recirq.qcqmc.experiment.ExperimentData''),
       (''SimulatedExperimentParams'', VGlobal ''recirq.qcqmc.experiment.SimulatedExperimentParams''),
       (''BlueprintData'', VGlobal ''recirq.qcqmc.blueprint.BlueprintData''),
       (''BlueprintParamsTrialWf'', VGlobal ''recirq.qcqmc.blueprint.BlueprintParamsTrialWf''),
       (''trial_wf'', VRef 10),
       (''pp_params'', VRef 9),
       (''TrialWavefunctionData'', VGlobal ''recirq.qcqmc.trial_wf.TrialWavefunctionData''),
       (''PerfectPairingPlusTrialWavefunctionParams'', VGlobal ''recirq.qcqmc.trial_wf.PerfectPairingPlusTrialWavefunctionParams''),
       (''np'', VGlobal ''numpy''),
       (''chk_path'', VRef 4),
       (''pyscf_hamiltonian'', VRef 3),
       (''pyscf_params'', VRef 2),
       (''HamiltonianData'', VGlobal ''recirq.qcqmc.hamiltonian.HamiltonianData''),
       (''PyscfHamiltonianParams'', VGlobal ''recirq.qcqmc.hamiltonian.PyscfHamiltonianParams''),
       (''recirq'', VGlobal ''recirq'')],
      [EImport ''recirq'',
       EImport ''recirq.qcqmc.hamiltonian'',
       ECall (VGlobal ''recirq.qcqmc.hamiltonian.PyscfHamiltonianParams'') [] [(''name'', VStr ''TEST_square_H4''), (''n_orb'', VInt 4), (''n_elec'', VInt 4), (''geometry'', VTuple [VTuple [VStr ''H'', VTuple [VInt 0, VInt 0, VInt 0]], VTuple [VStr ''H'', VTuple [VInt 0, VInt 0, VFloat ''1.23'']], VTuple [VStr ''H'', VTuple [VFloat ''1.23'', VInt 0, VInt 0]], VTuple [VStr ''H'', VTuple [VFloat ''1.23'', VInt 0, VFloat ''1.23'']]]), (''basis'', VStr ''sto3g''), (''multiplicity'', VInt 1), (''charge'', VInt 0), (''save_chkfile'', VBool True), (''overwrite_chk_file'', VBool True)],
       EAttr (VGlobal ''recirq.qcqmc.hamiltonian.HamiltonianData'') ''build_hamiltonian_from_pyscf'',
       ECall (VGlobal ''recirq.qcqmc.hamiltonian.HamiltonianData.build_hamiltonian_from_pyscf'') [VRef 2] [],
       EAttr (VRef 2) ''base_path'',
       EAttr (VAttr (VRef 2) ''base_path'') ''with_suffix'',
       ECall (VAttr (VAttr (VRef 2) ''base_path'') ''with_suffix'') [VStr ''.chk''] [],
       EImport ''numpy'',
       EImport ''recirq.qcqmc.trial_wf'',
       ECall (VGlobal ''builtins.tuple'') [] [],
       EAttr (VGlobal ''numpy'') ''asarray'',
       ECall (VGlobal ''numpy.asarray'') [VList [VFloat ''0.3'', VFloat ''0.4'']] [],
       ECall (VGlobal ''recirq.qcqmc.trial_wf.PerfectPairingPlusTrialWavefunctionParams'') [VStr ''pp_plus_test''] [(''hamiltonian_params'', VRef 2), (''heuristic_layers'', VRef 7), (''do_pp'', VBool True), (''restricted'', VBool False), (''initial_orbital_rotation'', VNone), (''initial_two_body_qchem_amplitudes'', VRef 8), (''do_optimization'', VBool True), (''use_fast_gradients'', VBool True)],
       EAttr (VGlobal ''recirq.qcqmc.trial_wf.TrialWavefunctionData'') ''build_pp_plus_trial_from_dependencies'',
       ECall (VGlobal ''recirq.qcqmc.trial_wf.TrialWavefunctionData.build_pp_plus_trial_from_dependencies'') [VRef 9] [(''dependencies'', VDict [(VRef 2, VRef 3)]), (''do_print'', VBool True)],
       EAttr (VRef 10) ''ansatz_energy'',
       EOp ''f-string'' [VStr ''Trial wavefunction energy: '', VAttr (VRef 10) ''ansatz_energy''],
       ECall (VGlobal ''builtins.print'') [VOp ''f-string'' [VStr ''Trial wavefunction energy: '', VAttr (VRef 10) ''ansatz_energy'']] [],
       EAttr (VRef 10) ''fci_energy'',
       EOp ''f-string'' [VStr ''Exact ground state energy: '', VAttr (VRef 10) ''fci_energy''],
       ECall (VGlobal ''builtins.print'') [VOp ''f-string'' [VStr ''Exact ground state energy: '', VAttr (VRef 10) ''fci_energy'']] [],
       EImport ''recirq.qcqmc.blueprint'',
       EImport ''recirq.qcqmc.experiment'',
       EAttr (VRef 9) ''qubits_jordan_wigner_ordered'',
       EIter (VAttr (VRef 9) ''qubits_jordan_wigner_ordered''),
       ECall (VGlobal ''builtins.tuple'') [VGen (Name ''qubit'') ''qubit'' (VAttr (VRef 9) ''qubits_jordan_wigner_ordered'')] [],
       ECall (VGlobal ''recirq.qcqmc.blueprint.BlueprintParamsTrialWf'') [] [(''name'', VStr ''blueprint_test_medium''), (''trial_wf_params'', VRef 9), (''n_cliffords'', VInt 100), (''qubit_partition'', VTuple [VRef 15]), (''seed'', VInt 1)],
       EAttr (VGlobal ''recirq.qcqmc.blueprint.BlueprintData'') ''build_blueprint_from_dependencies'',
       ECall (VGlobal ''recirq.qcqmc.blueprint.BlueprintData.build_blueprint_from_dependencies'') [VRef 16] [(''dependencies'', VDict [(VRef 9, VRef 10)])],
       ECall (VGlobal ''recirq.qcqmc.experiment.SimulatedExperimentParams'') [] [(''name'', VStr ''test_1''), (''blueprint_params'', VRef 16), (''noise_model_name'', VStr ''None''), (''noise_model_params'', VTuple [VInt 0]), (''n_samples_per_clifford'', VInt 31), (''seed'', VInt 1)],
       EAttr (VGlobal ''recirq.qcqmc.experiment.ExperimentData'') ''build_experiment_from_dependencies'',
       ECall (VGlobal ''recirq.qcqmc.experiment.ExperimentData.build_experiment_from_dependencies'') [] [(''params'', VRef 18), (''dependencies'', VDict [(VRef 16, VRef 17)])],
       EImport ''typing'',
       EImport ''recirq.qcqmc.data'',
       EImport ''recirq.qcqmc.analysis'',
       ECall (VGlobal ''recirq.qcqmc.analysis.OverlapAnalysisParams'') [VStr ''TEST_analysis''] [(''experiment_params'', VRef 18), (''k_to_calculate'', VTuple [VInt 1])],
       EItem (VGlobal ''typing.Dict'') (VTuple [VGlobal ''recirq.qcqmc.data.Params'', VGlobal ''recirq.qcqmc.data.Data'']),
       EAttr (VGlobal ''recirq.qcqmc.analysis.OverlapAnalysisData'') ''build_analysis_from_dependencies'',
       ECall (VGlobal ''recirq.qcqmc.analysis.OverlapAnalysisData.build_analysis_from_dependencies'') [VRef 23] [(''dependencies'', VDict [(VRef 2, VRef 3), (VRef 9, VRef 10), (VRef 16, VRef 17), (VRef 18, VRef 19)])],
       EImport ''recirq.qcqmc.convert_to_ipie'',
       ECall (VGlobal ''recirq.qcqmc.convert_to_ipie.save_wavefunction_for_ipie'') [] [(''hamiltonian_data'', VRef 3), (''trial_wf_data'', VRef 10), (''overlap_analysis_data'', VRef 24), (''do_print'', VBool False)],
       EAttr (VRef 26) ''variational_energy'',
       EOp ''f-string'' [VStr ''Reconstructed shadow wavefunction energy: '', VAttr (VRef 26) ''variational_energy''],
       ECall (VGlobal ''builtins.print'') [VOp ''f-string'' [VStr ''Reconstructed shadow wavefunction energy: '', VAttr (VRef 26) ''variational_energy'']] [],
       EAttr (VRef 10) ''ansatz_energy'',
       EOp ''f-string'' [VStr ''Ideal trial wavefunction energy: '', VAttr (VRef 10) ''ansatz_energy''],
       ECall (VGlobal ''builtins.print'') [VOp ''f-string'' [VStr ''Ideal trial wavefunction energy: '', VAttr (VRef 10) ''ansatz_energy'']] [],
       EAttr (VRef 10) ''fci_energy'',
       EOp ''f-string'' [VStr ''FCI energy: '', VAttr (VRef 10) ''fci_energy''],
       ECall (VGlobal ''builtins.print'') [VOp ''f-string'' [VStr ''FCI energy: '', VAttr (VRef 10) ''fci_energy'']] [],
       EImport ''ipie.systems.generic'',
       EImport ''ipie.utils.from_pyscf'',
       ECall (VGlobal ''ipie.systems.generic.Generic'') [VTuple [VInt 2, VInt 2]] [],
       EAttr (VRef 2) ''base_path'',
       EAttr (VAttr (VRef 2) ''base_path'') ''with_suffix'',
       ECall (VAttr (VAttr (VRef 2) ''base_path'') ''with_suffix'') [VStr ''.chk''] [],
       ECall (VGlobal ''builtins.str'') [VRef 33] [],
       ECall (VGlobal ''ipie.utils.from_pyscf.generate_hamiltonian_from_chk'') [VRef 34] [],
       EAttr (VRef 35) ''H1'',
       EAttr (VAttr (VRef 35) ''H1'') ''shape'',
       EOp ''=='' [VAttr (VAttr (VRef 35) ''H1'') ''shape'', VTuple [VInt 2, VInt 4, VInt 4]],
       ETruth (VOp ''=='' [VAttr (VAttr (VRef 35) ''H1'') ''shape'', VTuple [VInt 2, VInt 4, VInt 4]]),
       EAttr (VRef 35) ''chol'',
       EAttr (VAttr (VRef 35) ''chol'') ''shape'',
       EItem (VAttr (VAttr (VRef 35) ''chol'') ''shape'') (VInt 0),
       EOp ''=='' [VOp ''[]'' [VAttr (VAttr (VRef 35) ''chol'') ''shape'', VInt 0], VInt 16],
       ETruth (VOp ''=='' [VOp ''[]'' [VAttr (VAttr (VRef 35) ''chol'') ''shape'', VInt 0], VInt 16]),
       EImport ''h5py'',
       EImport ''ipie.trial_wavefunction.particle_hole'',
       EAttr (VGlobal ''h5py'') ''File'',
       EAttr (VRef 26) ''path'',
       ECall (VGlobal ''h5py.File'') [VAttr (VRef 26) ''path'', VStr ''r''] [],
       EEnter (VRef 38),
       EItem (VRef 38) (VStr ''coeffs_rotated''),
       EItem (VOp ''[]'' [VRef 38, VStr ''coeffs_rotated'']) (VGlobal '':''),
       EItem (VRef 38) (VStr ''occa_rotated''),
       EItem (VOp ''[]'' [VRef 38, VStr ''occa_rotated'']) (VGlobal '':''),
       EItem (VRef 38) (VStr ''occb_rotated''),
       EItem (VOp ''[]'' [VRef 38, VStr ''occb_rotated'']) (VGlobal '':''),
       EExit (VRef 38) None,
       ECall (VGlobal ''ipie.trial_wavefunction.particle_hole.ParticleHole'') [VTuple [VOp ''[]'' [VOp ''[]'' [VRef 38, VStr ''coeffs_rotated''], VGlobal '':''], VOp ''[]'' [VOp ''[]'' [VRef 38, VStr ''occa_rotated''], VGlobal '':''], VOp ''[]'' [VOp ''[]'' [VRef 38, VStr ''occb_rotated''], VGlobal '':'']], VTuple [VInt 2, VInt 2], VInt 4] [],
       EAttr (VRef 39) ''half_rotate'',
       ECall (VAttr (VRef 39) ''half_rotate'') [VRef 35] [],
       EAttr (VRef 39) ''calculate_energy'',
       ECall (VAttr (VRef 39) ''calculate_energy'') [VRef 32, VRef 35] [],
       EAttr (VRef 39) ''energy'',
       EAttr (VAttr (VRef 39) ''energy'') ''real'',
       EOp ''f-string'' [VStr ''Trial wavefunction variational energy in ipie: '', VAttr (VAttr (VRef 39) ''energy'') ''real''],
       ECall (VGlobal ''builtins.print'') [VOp ''f-string'' [VStr ''Trial wavefunction variational energy in ipie: '', VAttr (VAttr (VRef 39) ''energy'') ''real'']] [],
       EAttr (VGlobal ''numpy'') ''isclose'',
       EAttr (VRef 39) ''energy'',
       EAttr (VAttr (VRef 39) ''energy'') ''real'',
       EAttr (VRef 26) ''variational_energy'',
       ECall (VGlobal ''numpy.isclose'') [VAttr (VAttr (VRef 39) ''energy'') ''real'', VAttr (VRef 26) ''variational_energy''] [],
       ETruth (VRef 43),
       EImport ''ipie.qmc.afqmc'',
       EAttr (VGlobal ''ipie.qmc.afqmc.AFQMC'') ''build'',
       ECall (VGlobal ''ipie.qmc.afqmc.AFQMC.build'') [VTuple [VInt 2, VInt 2], VRef 35, VRef 39] [(''num_blocks'', VInt 300), (''num_walkers'', VInt 50), (''seed'', VInt 7)],
       EImport ''recirq.qcqmc.config'',
       EImport ''pathlib'',
       EAttr (VGlobal ''pathlib'') ''Path'',
       EAttr (VRef 2) ''path_prefix'',
       EAttr (VGlobal ''recirq.qcqmc.config.OUTDIRS'') ''DEFAULT_QMC_DIRECTORY'',
       EOp ''+'' [VAttr (VRef 2) ''path_prefix'', VGlobal ''recirq.qcqmc.config.OUTDIRS.DEFAULT_QMC_DIRECTORY''],
       ECall (VGlobal ''pathlib.Path'') [VOp ''+'' [VAttr (VRef 2) ''path_prefix'', VGlobal ''recirq.qcqmc.config.OUTDIRS.DEFAULT_QMC_DIRECTORY'']] [],
       EAttr (VRef 48) ''is_dir'',
       ECall (VAttr (VRef 48) ''is_dir'') [] [],
       ETruth (VRef 49),
       EAttr (VRef 45) ''run'',
       EOp ''f-string'' [VRef 48, VStr ''/estimates.h5''],
       ECall (VAttr (VRef 45) ''run'') [] [(''estimator_filename'', VOp ''f-string'' [VRef 48, VStr ''/estimates.h5''])],
       EImport ''ipie.analysis.extraction'',
       EImport ''matplotlib.pyplot'',
       EAttr (VRef 45) ''estimators'',
       EAttr (VAttr (VRef 45) ''estimators'') ''filename'',
       ECall (VGlobal ''ipie.analysis.extraction.extract_observable'') [VAttr (VAttr (VRef 45) ''estimators'') ''filename''] [],
       EAttr (VGlobal ''matplotlib.pyplot'') ''plot'',
       EAttr (VRef 53) ''ETotal'',
       ECall (VGlobal ''matplotlib.pyplot.plot'') [VAttr (VRef 53) ''ETotal''] [(''marker'', VStr ''o''), (''label'', VStr ''AFQMC''), (''color'', VStr ''C0'')],
       EAttr (VGlobal ''matplotlib.pyplot'') ''axhline'',
       ECall (VGlobal ''matplotlib.pyplot.axhline'') [VFloat ''-1.969512''] [(''label'', VStr ''Exact Result''), (''color'', VStr ''C1'')],
       EAttr (VGlobal ''matplotlib.pyplot'') ''legend'',
       ECall (VGlobal ''matplotlib.pyplot.legend'') [] [],
       EAttr (VGlobal ''matplotlib.pyplot'') ''xlabel'',
       ECall (VGlobal ''matplotlib.pyplot.xlabel'') [VStr ''Block number''] [],
       EAttr (VGlobal ''matplotlib.pyplot'') ''ylabel'',
       ECall (VGlobal ''matplotlib.pyplot.ylabel'') [VStr ''Total Energy (Ha)''] [],
       EImport ''ipie.analysis.blocking'',
       EAttr (VRef 45) ''estimators'',
       EAttr (VAttr (VRef 45) ''estimators'') ''filename'',
       ECall (VGlobal ''ipie.analysis.blocking.reblock_minimal'') [VAttr (VAttr (VRef 45) ''estimators'') ''filename''] [(''start_block'', VInt 20)]])"
  by code_simp

lemma full_workflow_events:
  "events (run default_world full_workflow) =
     [EImport ''recirq'',
      EImport ''recirq.qcqmc.hamiltonian'',
      ECall (VGlobal ''recirq.qcqmc.hamiltonian.PyscfHamiltonianParams'') [] [(''name'', VStr ''TEST_square_H4''), (''n_orb'', VInt 4), (''n_elec'', VInt 4), (''geometry'', VTuple [VTuple [VStr ''H'', VTuple [VInt 0, VInt 0, VInt 0]], VTuple [VStr ''H'', VTuple [VInt 0, VInt 0, VFloat ''1.23'']], VTuple [VStr ''H'', VTuple [VFloat ''1.23'', VInt 0, VInt 0]], VTuple [VStr ''H'', VTuple [VFloat ''1.23'', VInt 0, VFloat ''1.23'']]]), (''basis'', VStr ''sto3g''), (''multiplicity'', VInt 1), (''charge'', VInt 0), (''save_chkfile'', VBool True), (''overwrite_chk_file'', VBool True)],
      ECall (VGlobal ''recirq.qcqmc.hamiltonian.HamiltonianData.build_hamiltonian_from_pyscf'') [VRef 2] [],
      ECall (VAttr (VAttr (VRef 2) ''base_path'') ''with_suffix'') [VStr ''.chk''] [],
      EImport ''numpy'',
      EImport ''recirq.qcqmc.trial_wf'',
      ECall (VGlobal ''builtins.tuple'') [] [],
      ECall (VGlobal ''numpy.asarray'') [VList [VFloat ''0.3'', VFloat ''0.4'']] [],
      ECall (VGlobal ''recirq.qcqmc.trial_wf.PerfectPairingPlusTrialWavefunctionParams'') [VStr ''pp_plus_test''] [(''hamiltonian_params'', VRef 2), (''heuristic_layers'', VRef 7), (''do_pp'', VBool True), (''restricted'', VBool False), (''initial_orbital_rotation'', VNone), (''initial_two_body_qchem_amplitudes'', VRef 8), (''do_optimization'', VBool True), (''use_fast_gradients'', VBool True)],
      ECall (VGlobal ''recirq.qcqmc.trial_wf.TrialWavefunctionData.build_pp_plus_trial_from_dependencies'') [VRef 9] [(''dependencies'', VDict [(VRef 2, VRef 3)]), (''do_print'', VBool True)],
      ECall (VGlobal ''builtins.print'') [VOp ''f-string'' [VStr ''Trial wavefunction energy: '', VAttr (VRef 10) ''ansatz_energy'']] [],
      ECall (VGlobal ''builtins.print'') [VOp ''f-string'' [VStr ''Exact ground state energy: '', VAttr (VRef 10) ''fci_energy'']] [],
      EImport ''recirq.qcqmc.blueprint'',
      EImport ''recirq.qcqmc.experiment'',
      ECall (VGlobal ''builtins.tuple'') [VGen (Name ''qubit'') ''qubit'' (VAttr (VRef 9) ''qubits_jordan_wigner_ordered'')] [],
      ECall (VGlobal ''recirq.qcqmc.blueprint.BlueprintParamsTrialWf'') [] [(''name'', VStr ''blueprint_test_medium''), (''trial_wf_params'', VRef 9), (''n_cliffords'', VInt 100), (''qubit_partition'', VTuple [VRef 15]), (''seed'', VInt 1)],
      ECall (VGlobal ''recirq.qcqmc.blueprint.BlueprintData.build_blueprint_from_dependencies'') [VRef 16] [(''dependencies'', VDict [(VRef 9, VRef 10)])],
      ECall (VGlobal ''recirq.qcqmc.experiment.SimulatedExperimentParams'') [] [(''name'', VStr ''test_1''), (''blueprint_params'', VRef 16), (''noise_model_name'', VStr ''None''), (''noise_model_params'', VTuple [VInt 0]), (''n_samples_per_clifford'', VInt 31), (''seed'', VInt 1)],
      ECall (VGlobal ''recirq.qcqmc.experiment.ExperimentData.build_experiment_from_dependencies'') [] [(''params'', VRef 18), (''dependencies'', VDict [(VRef 16, VRef 17)])],
      EImport ''typing'',
      EImport ''recirq.qcqmc.data'',
      EImport ''recirq.qcqmc.analysis'',
      ECall (VGlobal ''recirq.qcqmc.analysis.OverlapAnalysisParams'') [VStr ''TEST_analysis''] [(''experiment_params'', VRef 18), (''k_to_calculate'', VTuple [VInt 1])],
      ECall (VGlobal ''recirq.qcqmc.analysis.OverlapAnalysisData.build_analysis_from_dependencies'') [VRef 23] [(''dependencies'', VDict [(VRef 2, VRef 3), (VRef 9, VRef 10), (VRef 16, VRef 17), (VRef 18, VRef 19)])],
      EImport ''recirq.qcqmc.convert_to_ipie'',
      ECall (VGlobal ''recirq.qcqmc.convert_to_ipie.save_wavefunction_for_ipie'') [] [(''hamiltonian_data'', VRef 3), (''trial_wf_data'', VRef 10), (''overlap_analysis_data'', VRef 24), (''do_print'', VBool False)],
      ECall (VGlobal ''builtins.print'') [VOp ''f-string'' [VStr ''Reconstructed shadow wavefunction energy: '', VAttr (VRef 26) ''variational_energy'']] [],
      ECall (VGlobal ''builtins.print'') [VOp ''f-string'' [VStr ''Ideal trial wavefunction energy: '', VAttr (VRef 10) ''ansatz_energy'']] [],
      ECall (VGlobal ''builtins.print'') [VOp ''f-string'' [VStr ''FCI energy: '', VAttr (VRef 10) ''fci_energy'']] [],
      EImport ''ipie.systems.generic'',
      EImport ''ipie.utils.from_pyscf'',
      ECall (VGlobal ''ipie.systems.generic.Generic'') [VTuple [VInt 2, VInt 2]] [],
      ECall (VAttr (VAttr (VRef 2) ''base_path'') ''with_suffix'') [VStr ''.chk''] [],
      ECall (VGlobal ''builtins.str'') [VRef 33] [],
      ECall (VGlobal ''ipie.utils.from_pyscf.generate_hamiltonian_from_chk'') [VRef 34] [],
      EImport ''h5py'',
      EImport ''ipie.trial_wavefunction.particle_hole'',
      ECall (VGlobal ''h5py.File'') [VAttr (VRef 26) ''path'', VStr ''r''] [],
      ECall (VGlobal ''ipie.trial_wavefunction.particle_hole.ParticleHole'') [VTuple [VOp ''[]'' [VOp ''[]'' [VRef 38, VStr ''coeffs_rotated''], VGlobal '':''], VOp ''[]'' [VOp ''[]'' [VRef 38, VStr ''occa_rotated''], VGlobal '':''], VOp ''[]'' [VOp ''[]'' [VRef 38, VStr ''occb_rotated''], VGlobal '':'']], VTuple [VInt 2, VInt 2], VInt 4] [],
      ECall (VAttr (VRef 39) ''half_rotate'') [VRef 35] [],
      ECall (VAttr (VRef 39) ''calculate_energy'') [VRef 32, VRef 35] [],
      ECall (VGlobal ''builtins.print'') [VOp ''f-string'' [VStr ''Trial wavefunction variational energy in ipie: '', VAttr (VAttr (VRef 39) ''energy'') ''real'']] [],
      ECall (VGlobal ''numpy.isclose'') [VAttr (VAttr (VRef 39) ''energy'') ''real'', VAttr (VRef 26) ''variational_energy''] [],
      EImport ''ipie.qmc.afqmc'',
      ECall (VGlobal ''ipie.qmc.afqmc.AFQMC.build'') [VTuple [VInt 2, VInt 2], VRef 35, VRef 39] [(''num_blocks'', VInt 300), (''num_walkers'', VInt 50), (''seed'', VInt 7)],
      EImport ''recirq.qcqmc.config'',
      EImport ''pathlib'',
      ECall (VGlobal ''pathlib.Path'') [VOp ''+'' [VAttr (VRef 2) ''path_prefix'', VGlobal ''recirq.qcqmc.config.OUTDIRS.DEFAULT_QMC_DIRECTORY'']] [],
      ECall (VAttr (VRef 48) ''is_dir'') [] [],
      ECall (VAttr (VRef 45) ''run'') [] [(''estimator_filename'', VOp ''f-string'' [VRef 48, VStr ''/estimates.h5''])],
      EImport ''ipie.analysis.extraction'',
      EImport ''matplotlib.pyplot'',
      ECall (VGlobal ''ipie.analysis.extraction.extract_observable'') [VAttr (VAttr (VRef 45) ''estimators'') ''filename''] [],
      ECall (VGlobal ''matplotlib.pyplot.plot'') [VAttr (VRef 53) ''ETotal''] [(''marker'', VStr ''o''), (''label'', VStr ''AFQMC''), (''color'', VStr ''C0'')],
      ECall (VGlobal ''matplotlib.pyplot.axhline'') [VFloat ''-1.969512''] [(''label'', VStr ''Exact Result''), (''color'', VStr ''C1'')],
      ECall (VGlobal ''matplotlib.pyplot.legend'') [] [],
      ECall (VGlobal ''matplotlib.pyplot.xlabel'') [VStr ''Block number''] [],
      ECall (VGlobal ''matplotlib.pyplot.ylabel'') [VStr ''Total Energy (Ha)''] [],
      EImport ''ipie.analysis.blocking'',
      ECall (VGlobal ''ipie.analysis.blocking.reblock_minimal'') [VAttr (VAttr (VRef 45) ''estimators'') ''filename''] [(''start_block'', VInt 20)]]"
  unfolding events_def operations_def full_workflow_run snd_conv
  by code_simp

section \<open>Runs depend on the world through their operations only\<close>

lemma agree_Nil: "agree w w' []"
  by (simp add: agree_def)

lemma agree_append: "agree w w' (a @ b) = (agree w w' a \<and> agree w w' b)"
  by (simp add: agree_def)

lemma agree_single: "agree w w' [ev] = (w' ev = w ev)"
  by (simp add: agree_def)

subsection \<open>Expressions\<close>

lemma frame_return: "frame_comp (return v)"
  by (simp add: frame_comp_def return_def)

lemma frame_fail: "frame_comp (fail e)"
  by (simp add: frame_comp_def fail_def)

lemma frame_lift: "frame_comp (lift r)"
  by (cases r) (simp_all add: lift_def frame_return frame_fail)

lemma frame_consult: "frame_comp (consult ev d)"
  unfolding frame_comp_def
proof (intro allI)
  fix w env t
  have "snd (consult ev d w env t) = t @ [ev]"
    by (simp add: consult_def)
  moreover have "consult ev d w' env t = consult ev d w env t" if "agree w w' [ev]" for w'
    using that by (simp add: consult_def agree_single)
  ultimately show "\<exists>new. snd (consult ev d w env t) = t @ new
      \<and> (\<forall>w'. agree w w' new \<longrightarrow> consult ev d w' env t = consult ev d w env t)"
    by blast
qed

lemma frame_settle: "frame_comp (settle r)"
  by (cases r) (simp_all add: settle_def frame_return frame_fail frame_consult)

lemma frame_state:
  assumes "\<And>env t. frame_comp (f env t)"
  shows "frame_comp (\<lambda>w env t. f env t w env t)"
  using assms
  unfolding frame_comp_def by blast

lemma frame_and_then:
  assumes "frame_comp m" and "\<And>v. frame_comp (f v)"
  shows "frame_comp (and_then m f)"
  unfolding frame_comp_def
proof (intro allI)
  fix w env t
  from assms(1) obtain new1 where n1: "snd (m w env t) = t @ new1"
    and a1: "\<And>w'. agree w w' new1 \<Longrightarrow> m w' env t = m w env t"
    unfolding frame_comp_def by blast
  show "\<exists>new. snd (and_then m f w env t) = t @ new
          \<and> (\<forall>w'. agree w w' new \<longrightarrow> and_then m f w' env t = and_then m f w env t)"
  proof (cases "fst (m w env t)")
    case (Inl x)
    with n1 have r: "m w env t = (Inl x, t @ new1)"
      by (cases "m w env t") simp
    then have "snd (and_then m f w env t) = t @ new1"
      by (simp add: and_then_def)
    moreover have "and_then m f w' env t = and_then m f w env t" if "agree w w' new1" for w'
      using a1 [OF that] r by (simp add: and_then_def)
    ultimately show ?thesis
      by blast
  next
    case (Inr v)
    with n1 have r: "m w env t = (Inr v, t @ new1)"
      by (cases "m w env t") simp
    from assms(2) [of v] obtain new2 where n2: "snd (f v w env (t @ new1)) = (t @ new1) @ new2"
      and a2: "\<And>w'. agree w w' new2 \<Longrightarrow> f v w' env (t @ new1) = f v w env (t @ new1)"
      unfolding frame_comp_def by blast
    from r n2 have "snd (and_then m f w env t) = t @ (new1 @ new2)"
      by (simp add: and_then_def)
    moreover have "and_then m f w' env t = and_then m f w env t"
      if "agree w w' (new1 @ new2)" for w'
    proof -
      from that have "agree w w' new1" and "agree w w' new2"
        by (simp_all add: agree_append)
      with a1 a2 r show ?thesis
        by (simp add: and_then_def)
    qed
    ultimately show ?thesis
      by blast
  qed
qed

lemma frame_in_order:
  assumes "\<And>m. m \<in> set ms \<Longrightarrow> frame_comp m"
  shows "frame_comp (in_order ms)"
  using assms
  by (induction ms) (simp_all add: frame_return frame_and_then)

lemma frame_lookup: "frame_comp (lookup_name x)"
  unfolding lookup_name_def by (rule frame_state) (rule frame_lift)

lemma frame_getattr: "frame_comp (read_attr v a)"
  unfolding read_attr_def by (rule frame_state) (rule frame_settle)

lemma frame_do_call: "frame_comp (do_call f args kws)"
  unfolding frame_comp_def
proof (intro allI)
  fix w env t
  show "\<exists>new. snd (do_call f args kws w env t) = t @ new
          \<and> (\<forall>w'. agree w w' new \<longrightarrow> do_call f args kws w' env t = do_call f args kws w env t)"
  proof (cases "callable f")
    case False
    then have "snd (do_call f args kws w env t) = t @ [ERaise TypeError]"
      and "\<And>w'. do_call f args kws w' env t = do_call f args kws w env t"
      by (simp_all add: do_call_def fail_def)
    then show ?thesis
      by blast
  next
    case True
    then have "snd (do_call f args kws w env t) = t @ [ECall f args kws]"
      by (simp add: do_call_def)
    moreover have "do_call f args kws w' env t = do_call f args kws w env t"
      if "agree w w' [ECall f args kws]" for w'
      using that True by (simp add: do_call_def call_def agree_single)
    ultimately show ?thesis
      by blast
  qed
qed

lemma frame_truth: "frame_comp (truth_of v)"
  by (simp add: truth_of_def frame_return frame_and_then frame_consult)

lemma frame_unaryop: "frame_comp (apply_unaryop op v)"
  by (cases op)
    (auto simp: apply_unaryop_def intro!: frame_and_then frame_truth frame_return frame_settle)

lemma frame_eval:
  "frame_comp (eval_expr e)" "frame_comp (eval_keyword k)" "frame_comp (eval_fpart p)"
  "frame_comp (eval_item i)"
  by (induction e and k and p and i)
    (auto intro!: frame_and_then frame_in_order frame_return frame_lookup frame_getattr
      frame_do_call frame_unaryop frame_settle frame_consult
      simp: named_def paired_def)

subsection \<open>Statements\<close>

lemma frame_skip: "frame_action skip"
  by (simp add: frame_action_def skip_def)

lemma frame_raise: "frame_action (raise ex)"
  by (simp add: frame_action_def raise_def)

lemma frame_assign: "frame_action (assign x v)"
  by (simp add: frame_action_def assign_def)

lemma frame_unmodelled: "frame_action unmodelled"
  by (simp add: frame_action_def unmodelled_def)

text \<open>
  Sequencing, with or without a handler: the second action runs, from the state the
  first one left, when \<open>next\<close> says so for the outcome of the first.
\<close>

lemma frame_seq:
  assumes "frame_action a" and "\<And>out. frame_action (b out)"
  shows "frame_action (\<lambda>w st. case a w st of (out, st1) \<Rightarrow> if nxt out then b out w st1 else (out, st1))"
  unfolding frame_action_def
proof (intro allI)
  fix w env t
  let ?c = "\<lambda>w st. case a w st of (out, st1) \<Rightarrow> if nxt out then b out w st1 else (out, st1)"
  obtain out env1 t1 where r: "a w (env, t) = (out, env1, t1)"
    by (cases "a w (env, t)")
  from assms(1) obtain new1 where n1: "snd (snd (a w (env, t))) = t @ new1"
    and a1: "\<And>w'. agree w w' new1 \<Longrightarrow> a w' (env, t) = a w (env, t)"
    unfolding frame_action_def by blast
  from r n1 have t1: "t1 = t @ new1"
    by simp
  show "\<exists>new. snd (snd (?c w (env, t))) = t @ new
          \<and> (\<forall>w'. agree w w' new \<longrightarrow> ?c w' (env, t) = ?c w (env, t))"
  proof (cases "nxt out")
    case False
    with r t1 have "snd (snd (?c w (env, t))) = t @ new1"
      by simp
    moreover have "?c w' (env, t) = ?c w (env, t)" if "agree w w' new1" for w'
      using a1 [OF that] r False by simp
    ultimately show ?thesis
      by blast
  next
    case True
    from assms(2) [of out] obtain new2 where n2: "snd (snd (b out w (env1, t1))) = t1 @ new2"
      and a2: "\<And>w'. agree w w' new2 \<Longrightarrow> b out w' (env1, t1) = b out w (env1, t1)"
      unfolding frame_action_def by blast
    from True r t1 n2 have "snd (snd (?c w (env, t))) = t @ (new1 @ new2)"
      by simp
    moreover have "?c w' (env, t) = ?c w (env, t)" if "agree w w' (new1 @ new2)" for w'
    proof -
      from that have "agree w w' new1" and "agree w w' new2"
        by (simp_all add: agree_append)
      with a1 a2 r True show ?thesis
        by simp
    qed
    ultimately show ?thesis
      by blast
  qed
qed

lemma then_as_seq:
  "(\<lambda>w st. case a w st of (Done, st1) \<Rightarrow> b w st1 | r \<Rightarrow> r) =
   (\<lambda>w st. case a w st of (out, st1) \<Rightarrow> if out = Done then b w st1 else (out, st1))"
  by (auto simp: fun_eq_iff split: prod.splits outcome.splits)

lemma frame_then:
  assumes "frame_action a" and "frame_action b"
  shows "frame_action (\<lambda>w st. case a w st of (Done, st1) \<Rightarrow> b w st1 | r \<Rightarrow> r)"
  unfolding then_as_seq using assms by (intro frame_seq)

lemma frame_block:
  assumes "\<And>a. a \<in> set as \<Longrightarrow> frame_action a"
  shows "frame_action (block as)"
  using assms
proof (induction as)
  case Nil
  then show ?case
    using frame_skip by (simp add: skip_def)
next
  case (Cons a as)
  then have "frame_action a" and "frame_action (block as)"
    by simp_all
  then show ?case
    using frame_then [of a "block as"] by simp
qed

lemma try_as_seq:
  "try_except body cls handler =
   (\<lambda>w st. case body w st of (out, st1) \<Rightarrow>
      if (case out of Raised ex \<Rightarrow> catches cls ex | _ \<Rightarrow> False) then handler w st1 else (out, st1))"
  by (auto simp: try_except_def fun_eq_iff split: prod.splits outcome.splits)

lemma frame_try:
  assumes "frame_action body" and "frame_action handler"
  shows "frame_action (try_except body cls handler)"
  unfolding try_as_seq using assms by (intro frame_seq)

lemma frame_with_value:
  assumes "frame_comp m" and "\<And>v. frame_action (k v)"
  shows "frame_action (with_value m k)"
  unfolding frame_action_def
proof (intro allI)
  fix w env t
  from assms(1) obtain new1 where n1: "snd (m w env t) = t @ new1"
    and a1: "\<And>w'. agree w w' new1 \<Longrightarrow> m w' env t = m w env t"
    unfolding frame_comp_def by blast
  show "\<exists>new. snd (snd (with_value m k w (env, t))) = t @ new
          \<and> (\<forall>w'. agree w w' new \<longrightarrow> with_value m k w' (env, t) = with_value m k w (env, t))"
  proof (cases "fst (m w env t)")
    case (Inl x)
    with n1 have r: "m w env t = (Inl x, t @ new1)"
      by (cases "m w env t") simp
    then have "snd (snd (with_value m k w (env, t))) = t @ new1"
      by (simp add: with_value_def)
    moreover have "with_value m k w' (env, t) = with_value m k w (env, t)"
      if "agree w w' new1" for w'
      using a1 [OF that] r by (simp add: with_value_def)
    ultimately show ?thesis
      by blast
  next
    case (Inr v)
    with n1 have r: "m w env t = (Inr v, t @ new1)"
      by (cases "m w env t") simp
    from assms(2) [of v] obtain new2
      where n2: "snd (snd (k v w (env, t @ new1))) = (t @ new1) @ new2"
      and a2: "\<And>w'. agree w w' new2 \<Longrightarrow> k v w' (env, t @ new1) = k v w (env, t @ new1)"
      unfolding frame_action_def by blast
    from r n2 have "snd (snd (with_value m k w (env, t))) = t @ (new1 @ new2)"
      by (simp add: with_value_def)
    moreover have "with_value m k w' (env, t) = with_value m k w (env, t)"
      if "agree w w' (new1 @ new2)" for w'
    proof -
      from that have "agree w w' new1" and "agree w w' new2"
        by (simp_all add: agree_append)
      with a1 a2 r show ?thesis
        by (simp add: with_value_def)
    qed
    ultimately show ?thesis
      by blast
  qed
qed

lemma ask_as_with_value:
  "ask ev k = with_value (consult ev VNone) (\<lambda>v. k)"
  by (auto simp: ask_def with_value_def consult_def fun_eq_iff split: option.splits reply.splits)

lemma frame_ask:
  assumes "frame_action k"
  shows "frame_action (ask ev k)"
  unfolding ask_as_with_value using assms by (intro frame_with_value frame_consult)

lemma frame_unwind: "frame_action (unwind v ex)"
  unfolding frame_action_def
proof (intro allI)
  fix w env t
  have "snd (snd (unwind v ex w (env, t))) = t @ [EExit v (Some ex)]"
    by (simp add: unwind_def)
  moreover have "unwind v ex w' (env, t) = unwind v ex w (env, t)"
    if "agree w w' [EExit v (Some ex)]" for w'
    using that by (simp add: unwind_def agree_single)
  ultimately show "\<exists>new. snd (snd (unwind v ex w (env, t))) = t @ new
      \<and> (\<forall>w'. agree w w' new \<longrightarrow> unwind v ex w' (env, t) = unwind v ex w (env, t))"
    by blast
qed

lemma leaving_as_seq:
  "leaving v body =
   (\<lambda>w st. case body w st of (out, st1) \<Rightarrow>
      if out \<noteq> Unmodelled
      then (case out of Raised ex \<Rightarrow> unwind v ex | _ \<Rightarrow> ask (EExit v None) skip) w st1
      else (out, st1))"
  by (auto simp: leaving_def fun_eq_iff split: prod.splits outcome.splits)

lemma frame_leaving:
  assumes "frame_action body"
  shows "frame_action (leaving v body)"
  unfolding leaving_as_seq
proof (rule frame_seq [OF assms])
  fix out
  show "frame_action (case out of Raised ex \<Rightarrow> unwind v ex | _ \<Rightarrow> ask (EExit v None) skip)"
    by (cases out) (simp_all add: frame_unwind frame_ask frame_skip)
qed

lemma frame_for_items:
  assumes "frame_action body"
  shows "frame_action (for_items body xs vs)"
proof (induction vs)
  case Nil
  then show ?case
    by (simp add: frame_skip)
next
  case (Cons v vs)
  show ?case
    unfolding frame_action_def
  proof (intro allI)
    fix w env t
    show "\<exists>new. snd (snd (for_items body xs (v # vs) w (env, t))) = t @ new
            \<and> (\<forall>w'. agree w w' new \<longrightarrow>
                  for_items body xs (v # vs) w' (env, t) = for_items body xs (v # vs) w (env, t))"
    proof (cases "bind_targets xs v env")
      case None
      then show ?thesis
        by (simp add: raise_def)
    next
      case (Some env1)
      let ?c = "\<lambda>w st. case body w st of (Done, st1) \<Rightarrow> for_items body xs vs w st1 | r \<Rightarrow> r"
      from Some have "for_items body xs (v # vs) w' (env, t) = ?c w' (env1, t)" for w'
        by simp
      moreover from frame_then [OF assms Cons]
      have "\<exists>new. snd (snd (?c w (env1, t))) = t @ new
              \<and> (\<forall>w'. agree w w' new \<longrightarrow> ?c w' (env1, t) = ?c w (env1, t))"
        unfolding frame_action_def by blast
      ultimately show ?thesis
        by simp
    qed
  qed
qed

lemma frame_over_items: "frame_action body \<Longrightarrow> frame_action (over_items xs v body)"
  by (cases v) (simp_all add: over_items_def frame_for_items frame_unmodelled)

lemma frame_for_loop: "frame_action body \<Longrightarrow> frame_action (for_loop xs v body)"
  by (cases v)
    (simp_all add: for_loop_def frame_for_items frame_with_value frame_consult frame_over_items)

lemma frame_body:
  assumes "\<And>s. s \<in> set body \<Longrightarrow> frame_action (exec s)"
  shows "frame_action (block (map exec body))"
  using assms by (intro frame_block) auto

lemma frame_exec: "frame_action (exec s)"
proof (induction s)
  case (Import m asname)
  show ?case
    by (simp only: exec.simps) (intro frame_ask frame_assign)
next
  case (ImportFrom m names)
  have "frame_action (block (map (\<lambda>n. assign n (VGlobal (m @ ''.'' @ n))) names))"
    by (rule frame_block) (auto simp: frame_assign)
  then show ?case
    by (simp only: exec.simps) (rule frame_ask)
next
  case (Assign x e)
  show ?case
    by (simp only: exec.simps) (intro frame_with_value frame_eval frame_assign)
next
  case (AnnAssign x ann e)
  have "frame_action (block [assign x v, with_value (eval_expr ann) (\<lambda>_. skip)])" for v
    by (rule frame_block) (auto simp: frame_assign frame_with_value frame_eval frame_skip)
  then show ?case
    by (simp only: exec.simps) (intro frame_with_value frame_eval)
next
  case (ExprStmt e)
  show ?case
    by (simp only: exec.simps) (intro frame_with_value frame_eval frame_skip)
next
  case (Assert e)
  have "frame_action (if b then skip else raise AssertionError)" for b
    by (simp add: frame_skip frame_raise)
  then show ?case
    by (simp only: exec.simps) (intro frame_with_value frame_and_then frame_eval frame_truth)
next
  case (Try body cls handler)
  then have "frame_action (block (map exec body))" and "frame_action (block (map exec handler))"
    by (simp_all add: frame_body)
  then show ?case
    by (simp only: exec.simps) (rule frame_try)
next
  case (IfStmt c body)
  then have "frame_action (block (map exec body))"
    by (simp add: frame_body)
  then have "frame_action (if b then block (map exec body) else skip)" for b
    by (simp add: frame_skip)
  then show ?case
    by (simp only: exec.simps) (intro frame_with_value frame_and_then frame_eval frame_truth)
next
  case (With e x body)
  then have body: "frame_action (block (map exec body))"
    by (simp add: frame_body)
  have "frame_action (block [assign x m, block (map exec body)])" for m
    by (rule frame_block) (auto simp: frame_assign body)
  then have "frame_action (leaving v (block [assign x m, block (map exec body)]))" for v m
    by (rule frame_leaving)
  then have inner: "frame_action
      (with_value (consult (EEnter v) v)
         (\<lambda>m. leaving v (block [assign x m, block (map exec body)])))" for v
    by (intro frame_with_value frame_consult)
  show ?case
    by (simp only: exec.simps) (rule frame_with_value, rule frame_eval, rule inner)
next
  case (For xs e body)
  then have "frame_action (block (map exec body))"
    by (simp add: frame_body)
  then have "frame_action (for_loop xs v (block (map exec body)))" for v
    by (rule frame_for_loop)
  then show ?case
    by (simp only: exec.simps) (intro frame_with_value frame_eval)
next
  case (FunctionDef f xs body)
  show ?case
    by (simp only: exec.simps) (rule frame_assign)
next
  case (Magic m)
  show ?case
    by (simp only: exec.simps) (intro frame_ask frame_skip)
next
  case (Comment c)
  show ?case
    by (simp only: exec.simps) (rule frame_skip)
qed

lemma frame_notebook: "frame_action (block (map exec_cell nb))"
  by (rule frame_block) (auto simp: exec_cell_def intro!: frame_block frame_exec)


section \<open>The build factories\<close>

text \<open>
  C1 (as stated): for every step of the five-step pipeline, the Hamiltonian step
  included, the Data object is produced by a \<open>build_...\<close> factory from a Params object plus
  a mapping of upstream Params to upstream Data (the \<open>dependencies\<close> argument). In the
  code-layout notebook the Hamiltonian is built by the call at position 5,
  \<open>HamiltonianData.build_hamiltonian_from_file(hamiltonian_params)\<close>, and in the
  end-to-end notebook by the call at position 3,
  \<open>HamiltonianData.build_hamiltonian_from_pyscf(pyscf_params)\<close>: a factory call on a
  Params object alone, with no \<open>dependencies\<close> argument.
\<close>

theorem hamiltonian_build_without_dependencies_counterexample:
  "events (run default_world high_level) ! 5 =
     ECall (VGlobal ''recirq.qcqmc.hamiltonian.HamiltonianData.build_hamiltonian_from_file'') [VRef 3] []
   \<and> is_build_event (events (run default_world high_level) ! 5)
   \<and> dependencies_arg (events (run default_world high_level) ! 5) = None
   \<and> events (run default_world full_workflow) ! 3 =
     ECall (VGlobal ''recirq.qcqmc.hamiltonian.HamiltonianData.build_hamiltonian_from_pyscf'') [VRef 2] []
   \<and> is_build_event (events (run default_world full_workflow) ! 3)
   \<and> dependencies_arg (events (run default_world full_workflow) ! 3) = None"
  unfolding high_level_events full_workflow_events
  unfolding final_env_def full_workflow_run snd_conv fst_conv
  by code_simp

text \<open>
  C1 (amended): in both notebooks each of the five steps produces its Data object by one
  call of a \<open>build_...\<close> factory of the step's \<open>[Name]Data\<close> class, given the Params object
  of that step (an instance of the \<open>Params\<close> class of the same module). The four later
  steps (trial wavefunction, blueprint, experiment, analysis) are also given a
  \<open>dependencies\<close> dictionary; each of its keys is the Params object of an earlier step, and
  the value under it is the Data object that the factory of that earlier step built from
  that very Params object. The Hamiltonian step is given its Params object alone. Each
  row of the summary names the factory, the class of its Params argument and, for every
  entry of the dependencies, the class of the key, the factory that returned the value,
  and whether that factory call was given the key as its Params argument; the stages of
  the rows are those of the pipeline, in order (0 to 4).
\<close>

lemma high_level_build_table:
  "build_table (events (run default_world high_level)) =
     [(Some 0, Some 0, []),
      (Some 1, Some 1, [(Some 0, Some 0)]),
      (Some 2, Some 2, [(Some 1, Some 1)]),
      (Some 3, Some 3, [(Some 2, Some 2)]),
      (Some 4, Some 4, [(Some 3, Some 3), (Some 2, Some 2), (Some 1, Some 1)])]"
  unfolding high_level_events
  by code_simp

lemma full_workflow_build_table:
  "build_table (events (run default_world full_workflow)) =
     [(Some 0, Some 0, []),
      (Some 1, Some 1, [(Some 0, Some 0)]),
      (Some 2, Some 2, [(Some 1, Some 1)]),
      (Some 3, Some 3, [(Some 2, Some 2)]),
      (Some 4, Some 4, [(Some 0, Some 0), (Some 1, Some 1), (Some 2, Some 2), (Some 3, Some 3)])]"
  unfolding full_workflow_events
  by code_simp

lemma high_level_build_summary:
  "build_summary (events (run default_world high_level)) =
     [(''recirq.qcqmc.hamiltonian.HamiltonianData.build_hamiltonian_from_file'',
       Some ''recirq.qcqmc.hamiltonian.HamiltonianFileParams'', None),
      (''recirq.qcqmc.trial_wf.TrialWavefunctionData.build_pp_plus_trial_from_dependencies'',
       Some ''recirq.qcqmc.trial_wf.PerfectPairingPlusTrialWavefunctionParams'',
       Some [(''recirq.qcqmc.hamiltonian.HamiltonianFileParams'', ''recirq.qcqmc.hamiltonian.HamiltonianData.build_hamiltonian_from_file'', True)]),
      (''recirq.qcqmc.blueprint.BlueprintData.build_blueprint_from_dependencies'',
       Some ''recirq.qcqmc.blueprint.BlueprintParamsTrialWf'',
       Some [(''recirq.qcqmc.trial_wf.PerfectPairingPlusTrialWavefunctionParams'', ''recirq.qcqmc.trial_wf.TrialWavefunctionData.build_pp_plus_trial_from_dependencies'', True)]),
      (''recirq.qcqmc.experiment.ExperimentData.build_experiment_from_dependencies'',
       Some ''recirq.qcqmc.experiment.SimulatedExperimentParams'',
       Some [(''recirq.qcqmc.blueprint.BlueprintParamsTrialWf'', ''recirq.qcqmc.blueprint.BlueprintData.build_blueprint_from_dependencies'', True)]),
      (''recirq.qcqmc.analysis.OverlapAnalysisData.build_analysis_from_dependencies'',
       Some ''recirq.qcqmc.analysis.OverlapAnalysisParams'',
       Some [(''recirq.qcqmc.experiment.SimulatedExperimentParams'', ''recirq.qcqmc.experiment.ExperimentData.build_experiment_from_dependencies'', True),
             (''recirq.qcqmc.blueprint.BlueprintParamsTrialWf'', ''recirq.qcqmc.blueprint.BlueprintData.build_blueprint_from_dependencies'', True),
             (''recirq.qcqmc.trial_wf.PerfectPairingPlusTrialWavefunctionParams'', ''recirq.qcqmc.trial_wf.TrialWavefunctionData.build_pp_plus_trial_from_dependencies'', True)])]"
  unfolding high_level_events
  by code_simp

lemma full_workflow_build_summary:
  "build_summary (events (run default_world full_workflow)) =
     [(''recirq.qcqmc.hamiltonian.HamiltonianData.build_hamiltonian_from_pyscf'',
       Some ''recirq.qcqmc.hamiltonian.PyscfHamiltonianParams'', None),
      (''recirq.qcqmc.trial_wf.TrialWavefunctionData.build_pp_plus_trial_from_dependencies'',
       Some ''recirq.qcqmc.trial_wf.PerfectPairingPlusTrialWavefunctionParams'',
       Some [(''recirq.qcqmc.hamiltonian.PyscfHamiltonianParams'', ''recirq.qcqmc.hamiltonian.HamiltonianData.build_hamiltonian_from_pyscf'', True)]),
      (''recirq.qcqmc.blueprint.BlueprintData.build_blueprint_from_dependencies'',
       Some ''recirq.qcqmc.blueprint.BlueprintParamsTrialWf'',
       Some [(''recirq.qcqmc.trial_wf.PerfectPairingPlusTrialWavefunctionParams'', ''recirq.qcqmc.trial_wf.TrialWavefunctionData.build_pp_plus_trial_from_dependencies'', True)]),
      (''recirq.qcqmc.experiment.ExperimentData.build_experiment_from_dependencies'',
       Some ''recirq.qcqmc.experiment.SimulatedExperimentParams'',
       Some [(''recirq.qcqmc.blueprint.BlueprintParamsTrialWf'', ''recirq.qcqmc.blueprint.BlueprintData.build_blueprint_from_dependencies'', True)]),
      (''recirq.qcqmc.analysis.OverlapAnalysisData.build_analysis_from_dependencies'',
       Some ''recirq.qcqmc.analysis.OverlapAnalysisParams'',
       Some [(''recirq.qcqmc.hamiltonian.PyscfHamiltonianParams'', ''recirq.qcqmc.hamiltonian.HamiltonianData.build_hamiltonian_from_pyscf'', True),
             (''recirq.qcqmc.trial_wf.PerfectPairingPlusTrialWavefunctionParams'', ''recirq.qcqmc.trial_wf.TrialWavefunctionData.build_pp_plus_trial_from_dependencies'', True),
             (''recirq.qcqmc.blueprint.BlueprintParamsTrialWf'', ''recirq.qcqmc.blueprint.BlueprintData.build_blueprint_from_dependencies'', True),
             (''recirq.qcqmc.experiment.SimulatedExperimentParams'', ''recirq.qcqmc.experiment.ExperimentData.build_experiment_from_dependencies'', True)])]"
  unfolding full_workflow_events
  by code_simp

theorem build_factories_from_params:
  "build_summary (events (run default_world high_level)) =
     [(''recirq.qcqmc.hamiltonian.HamiltonianData.build_hamiltonian_from_file'',
       Some ''recirq.qcqmc.hamiltonian.HamiltonianFileParams'', None),
      (''recirq.qcqmc.trial_wf.TrialWavefunctionData.build_pp_plus_trial_from_dependencies'',
       Some ''recirq.qcqmc.trial_wf.PerfectPairingPlusTrialWavefunctionParams'',
       Some [(''recirq.qcqmc.hamiltonian.HamiltonianFileParams'', ''recirq.qcqmc.hamiltonian.HamiltonianData.build_hamiltonian_from_file'', True)]),
      (''recirq.qcqmc.blueprint.BlueprintData.build_blueprint_from_dependencies'',
       Some ''recirq.qcqmc.blueprint.BlueprintParamsTrialWf'',
       Some [(''recirq.qcqmc.trial_wf.PerfectPairingPlusTrialWavefunctionParams'', ''recirq.qcqmc.trial_wf.TrialWavefunctionData.build_pp_plus_trial_from_dependencies'', True)]),
      (''recirq.qcqmc.experiment.ExperimentData.build_experiment_from_dependencies'',
       Some ''recirq.qcqmc.experiment.SimulatedExperimentParams'',
       Some [(''recirq.qcqmc.blueprint.BlueprintParamsTrialWf'', ''recirq.qcqmc.blueprint.BlueprintData.build_blueprint_from_dependencies'', True)]),
      (''recirq.qcqmc.analysis.OverlapAnalysisData.build_analysis_from_dependencies'',
       Some ''recirq.qcqmc.analysis.OverlapAnalysisParams'',
       Some [(''recirq.qcqmc.experiment.SimulatedExperimentParams'', ''recirq.qcqmc.experiment.ExperimentData.build_experiment_from_dependencies'', True),
             (''recirq.qcqmc.blueprint.BlueprintParamsTrialWf'', ''recirq.qcqmc.blueprint.BlueprintData.build_blueprint_from_dependencies'', True),
             (''recirq.qcqmc.trial_wf.PerfectPairingPlusTrialWavefunctionParams'', ''recirq.qcqmc.trial_wf.TrialWavefunctionData.build_pp_plus_trial_from_dependencies'', True)])]
   \<and> build_summary (events (run default_world full_workflow)) =
     [(''recirq.qcqmc.hamiltonian.HamiltonianData.build_hamiltonian_from_pyscf'',
       Some ''recirq.qcqmc.hamiltonian.PyscfHamiltonianParams'', None),
      (''recirq.qcqmc.trial_wf.TrialWavefunctionData.build_pp_plus_trial_from_dependencies'',
       Some ''recirq.qcqmc.trial_wf.PerfectPairingPlusTrialWavefunctionParams'',
       Some [(''recirq.qcqmc.hamiltonian.PyscfHamiltonianParams'', ''recirq.qcqmc.hamiltonian.HamiltonianData.build_hamiltonian_from_pyscf'', True)]),
      (''recirq.qcqmc.blueprint.BlueprintData.build_blueprint_from_dependencies'',
       Some ''recirq.qcqmc.blueprint.BlueprintParamsTrialWf'',
       Some [(''recirq.qcqmc.trial_wf.PerfectPairingPlusTrialWavefunctionParams'', ''recirq.qcqmc.trial_wf.TrialWavefunctionData.build_pp_plus_trial_from_dependencies'', True)]),
      (''recirq.qcqmc.experiment.ExperimentData.build_experiment_from_dependencies'',
       Some ''recirq.qcqmc.experiment.SimulatedExperimentParams'',
       Some [(''recirq.qcqmc.blueprint.BlueprintParamsTrialWf'', ''recirq.qcqmc.blueprint.BlueprintData.build_blueprint_from_dependencies'', True)]),
      (''recirq.qcqmc.analysis.OverlapAnalysisData.build_analysis_from_dependencies'',
       Some ''recirq.qcqmc.analysis.OverlapAnalysisParams'',
       Some [(''recirq.qcqmc.hamiltonian.PyscfHamiltonianParams'', ''recirq.qcqmc.hamiltonian.HamiltonianData.build_hamiltonian_from_pyscf'', True),
             (''recirq.qcqmc.trial_wf.PerfectPairingPlusTrialWavefunctionParams'', ''recirq.qcqmc.trial_wf.TrialWavefunctionData.build_pp_plus_trial_from_dependencies'', True),
             (''recirq.qcqmc.blueprint.BlueprintParamsTrialWf'', ''recirq.qcqmc.blueprint.BlueprintData.build_blueprint_from_dependencies'', True),
             (''recirq.qcqmc.experiment.SimulatedExperimentParams'', ''recirq.qcqmc.experiment.ExperimentData.build_experiment_from_dependencies'', True)])]
   \<and> map fst (build_table (events (run default_world high_level))) = [Some 0, Some 1, Some 2, Some 3, Some 4]
   \<and> map fst (build_table (events (run default_world full_workflow))) = [Some 0, Some 1, Some 2, Some 3, Some 4]
   \<and> list_all build_earlier_only (build_table (events (run default_world high_level)))
   \<and> list_all build_earlier_only (build_table (events (run default_world full_workflow)))"
  unfolding high_level_build_summary full_workflow_build_summary high_level_build_table
    full_workflow_build_table
  by (simp add: build_earlier_only_def before_stage_def)

section \<open>The order of the pipeline\<close>

text \<open>
  C2: in each of the two notebooks the stages are invoked in the order Hamiltonian (0),
  trial wavefunction (1), blueprint (2), experiment (3), analysis (4); the Params object
  of a stage references only Params of strictly earlier stages (the table gives, for each
  Params constructor call, its stage and the stages of the Params objects it reaches),
  and a factory call is given, besides the Params object of its own stage, only Params
  and Data objects of earlier stages: no build call depends on a later stage.
\<close>

lemma high_level_params_table:
  "params_table (events (run default_world high_level)) =
     [(Some 0, []), (Some 1, [0]), (Some 2, [0, 1]), (Some 3, [0, 1, 2]), (Some 4, [0, 1, 2, 3])]"
  unfolding high_level_events
  by code_simp

lemma full_workflow_params_table:
  "params_table (events (run default_world full_workflow)) =
     [(Some 0, []), (Some 1, [0]), (Some 2, [0, 1]), (Some 3, [0, 1, 2]), (Some 4, [0, 1, 2, 3])]"
  unfolding full_workflow_events
  by code_simp

theorem pipeline_order:
  "map fst (build_table (events (run default_world high_level))) = [Some 0, Some 1, Some 2, Some 3, Some 4]
   \<and> map fst (build_table (events (run default_world full_workflow))) = [Some 0, Some 1, Some 2, Some 3, Some 4]
   \<and> params_table (events (run default_world high_level)) =
     [(Some 0, []), (Some 1, [0]), (Some 2, [0, 1]), (Some 3, [0, 1, 2]), (Some 4, [0, 1, 2, 3])]
   \<and> params_table (events (run default_world full_workflow)) =
     [(Some 0, []), (Some 1, [0]), (Some 2, [0, 1]), (Some 3, [0, 1, 2]), (Some 4, [0, 1, 2, 3])]
   \<and> list_all params_earlier_only (params_table (events (run default_world high_level)))
   \<and> list_all params_earlier_only (params_table (events (run default_world full_workflow)))
   \<and> list_all build_earlier_only (build_table (events (run default_world high_level)))
   \<and> list_all build_earlier_only (build_table (events (run default_world full_workflow)))"
  unfolding high_level_params_table full_workflow_params_table high_level_build_table
    full_workflow_build_table
  by (simp add: params_earlier_only_def build_earlier_only_def before_stage_def)

section \<open>Dependency threading\<close>

text \<open>
  C6: in every \<open>build_..._from_dependencies\<close> call of both notebooks (four in each), every
  key of the \<open>dependencies\<close> dictionary is a Params object constructed earlier in the
  notebook, and the value under that key is the Data object returned by the earlier
  factory call whose Params argument is that same object. (The key \<open>blueprint.params\<close> of
  the end-to-end notebook reads the Params object back from the Data object.)
\<close>

theorem dependencies_threaded:
  "from_dependencies_calls (events (run default_world high_level)) =
     [''recirq.qcqmc.trial_wf.TrialWavefunctionData.build_pp_plus_trial_from_dependencies'',
      ''recirq.qcqmc.blueprint.BlueprintData.build_blueprint_from_dependencies'',
      ''recirq.qcqmc.experiment.ExperimentData.build_experiment_from_dependencies'',
      ''recirq.qcqmc.analysis.OverlapAnalysisData.build_analysis_from_dependencies'']
   \<and> from_dependencies_calls (events (run default_world full_workflow)) =
       from_dependencies_calls (events (run default_world high_level))
   \<and> dependencies_of (events (run default_world high_level)) =
     [(10, [(VRef 3, VRef 5)]),
      (17, [(VRef 8, VRef 10)]),
      (22, [(VRef 15, VRef 17)]),
      (27, [(VRef 20, VRef 22), (VRef 15, VRef 17), (VRef 8, VRef 10)])]
   \<and> dependencies_of (events (run default_world full_workflow)) =
     [(10, [(VRef 2, VRef 3)]),
      (17, [(VRef 9, VRef 10)]),
      (19, [(VRef 16, VRef 17)]),
      (24, [(VRef 2, VRef 3), (VRef 9, VRef 10), (VRef 16, VRef 17), (VRef 18, VRef 19)])]
   \<and> dependencies_consistent (events (run default_world high_level))
   \<and> dependencies_consistent (events (run default_world full_workflow))"
  unfolding high_level_events full_workflow_events
  unfolding final_env_def full_workflow_run snd_conv fst_conv
  by code_simp

section \<open>The checkpoint path\<close>

text \<open>
  C7: in the end-to-end notebook the factorization routine
  \<open>generate_hamiltonian_from_chk\<close> is called once, on \<open>str(chk_path)\<close>, where \<open>chk_path\<close> is
  the result of \<open>pyscf_params.base_path.with_suffix(".chk")\<close>: the call at position 33,
  which is the same call, on the same Params object (created at position 2), as the one
  made at position 4 right after the pyscf Hamiltonian is built at position 3.
\<close>

theorem checkpoint_path_passed:
  "callee_name (events (run default_world full_workflow) ! 2) = ''recirq.qcqmc.hamiltonian.PyscfHamiltonianParams''
   \<and> events (run default_world full_workflow) ! 3 =
       ECall (VGlobal ''recirq.qcqmc.hamiltonian.HamiltonianData.build_hamiltonian_from_pyscf'') [VRef 2] []
   \<and> events (run default_world full_workflow) ! 4 =
       ECall (VAttr (VAttr (VRef 2) ''base_path'') ''with_suffix'') [VStr ''.chk''] []
   \<and> events (run default_world full_workflow) ! 33 = events (run default_world full_workflow) ! 4
   \<and> events (run default_world full_workflow) ! 34 = ECall (VGlobal ''builtins.str'') [VRef 33] []
   \<and> calls_to ''ipie.utils.from_pyscf.generate_hamiltonian_from_chk'' (events (run default_world full_workflow)) =
       [(35, ECall (VGlobal ''ipie.utils.from_pyscf.generate_hamiltonian_from_chk'') [VRef 34] [])]
   \<and> map_of (final_env (run default_world full_workflow)) ''chk_path'' = Some (VRef 33)"
  unfolding high_level_events full_workflow_events
  unfolding final_env_def full_workflow_run snd_conv fst_conv
  by code_simp

section \<open>Seeds\<close>




section \<open>Concurrency\<close>

text \<open>
  C8: what the code cells of the two notebooks import, define and call, in full. The
  modules they import are \<open>recirq\<close> and its \<open>qcqmc\<close> modules, \<open>attrs\<close>, \<open>numpy\<close>, \<open>typing\<close>,
  \<open>h5py\<close>, \<open>pathlib\<close>, \<open>matplotlib.pyplot\<close> and modules of \<open>ipie\<close>; their only magic line is
  the \<open>%pip install\<close> of the setup cell; the only function they define is \<open>print_fields\<close>;
  and the expressions they call are the ones listed, which the run resolves to the
  callees listed: constructors and factories of \<open>recirq.qcqmc\<close>, routines of \<open>ipie\<close>
  (among them \<open>AFQMC.build\<close> and the driver's \<open>run\<close>), \<open>numpy\<close>, \<open>h5py\<close>, \<open>pathlib\<close>,
  \<open>matplotlib\<close>, and the builtins \<open>print\<close>, \<open>tuple\<close>, \<open>str\<close> and \<open>type\<close>. None of them is a
  module or a routine that starts threads, processes, tasks or MPI ranks. Whatever the
  case of the letters, "mpi" occurs in no code cell; it occurs in the markdown cell 10
  of the code-layout notebook (in "compiled") and in the markdown cells 27 and 28 of the
  end-to-end notebook, which are the only cells that mention MPI (the closing note and
  the "Next steps" list).
\<close>

theorem no_concurrency_in_code:
  "imported_modules high_level =
     [''recirq'',
      ''attrs'',
      ''recirq.qcqmc.hamiltonian'',
      ''recirq.qcqmc.trial_wf'',
      ''recirq.qcqmc.blueprint'',
      ''recirq.qcqmc.experiment'',
      ''recirq.qcqmc.analysis'']
   \<and> imported_modules full_workflow =
     [''recirq'',
      ''recirq.qcqmc.hamiltonian'',
      ''numpy'',
      ''recirq.qcqmc.trial_wf'',
      ''recirq.qcqmc.blueprint'',
      ''recirq.qcqmc.experiment'',
      ''typing'',
      ''recirq.qcqmc.data'',
      ''recirq.qcqmc.analysis'',
      ''recirq.qcqmc.convert_to_ipie'',
      ''ipie.systems.generic'',
      ''ipie.utils.from_pyscf'',
      ''h5py'',
      ''ipie.trial_wavefunction.particle_hole'',
      ''ipie.qmc.afqmc'',
      ''recirq.qcqmc.config'',
      ''pathlib'',
      ''ipie.analysis.extraction'',
      ''matplotlib.pyplot'',
      ''ipie.analysis.blocking'']
   \<and> magic_lines high_level = [''%pip install git+https://github.com/quantumlib/ReCirq'']
   \<and> magic_lines full_workflow = [''%pip install git+https://github.com/quantumlib/ReCirq'']
   \<and> defined_functions high_level = [''print_fields'']
   \<and> defined_functions full_workflow = []
   \<and> callees high_level =
     [Attribute (Call (Attribute (Name ''attrs'') ''asdict'') [Name ''x''] []) ''items'',
      Attribute (Name ''attrs'') ''asdict'',
      Name ''type'',
      Name ''HamiltonianFileParams'',
      Attribute (Name ''HamiltonianData'') ''build_hamiltonian_from_file'',
      Name ''PerfectPairingPlusTrialWavefunctionParams'',
      Attribute (Name ''TrialWavefunctionData'') ''build_pp_plus_trial_from_dependencies'',
      Name ''print'',
      Name ''BlueprintParamsTrialWf'',
      Name ''tuple'',
      Attribute (Name ''BlueprintData'') ''build_blueprint_from_dependencies'',
      Name ''SimulatedExperimentParams'',
      Attribute (Name ''ExperimentData'') ''build_experiment_from_dependencies'',
      Name ''OverlapAnalysisParams'',
      Attribute (Name ''OverlapAnalysisData'') ''build_analysis_from_dependencies'',
      Name ''print_fields'']
   \<and> callees full_workflow =
     [Name ''PyscfHamiltonianParams'',
      Attribute (Name ''HamiltonianData'') ''build_hamiltonian_from_pyscf'',
      Name ''PerfectPairingPlusTrialWavefunctionParams'',
      Attribute (Name ''np'') ''asarray'',
      Attribute (Name ''TrialWavefunctionData'') ''build_pp_plus_trial_from_dependencies'',
      Name ''BlueprintParamsTrialWf'',
      Name ''tuple'',
      Attribute (Name ''BlueprintData'') ''build_blueprint_from_dependencies'',
      Name ''SimulatedExperimentParams'',
      Attribute (Name ''ExperimentData'') ''build_experiment_from_dependencies'',
      Name ''OverlapAnalysisParams'',
      Attribute (Name ''OverlapAnalysisData'') ''build_analysis_from_dependencies'',
      Name ''save_wavefunction_for_ipie'',
      Name ''Generic'',
      Attribute (Attribute (Name ''pyscf_params'') ''base_path'') ''with_suffix'',
      Name ''generate_hamiltonian_from_chk'',
      Name ''str'',
      Attribute (Name ''h5py'') ''File'',
      Name ''ParticleHole'',
      Attribute (Name ''wfn'') ''half_rotate'',
      Attribute (Name ''wfn'') ''calculate_energy'',
      Name ''print'',
      Attribute (Name ''np'') ''isclose'',
      Attribute (Name ''AFQMC'') ''build'',
      Attribute (Name ''pathlib'') ''Path'',
      Attribute (Name ''ipie_path'') ''is_dir'',
      Attribute (Name ''ipie_path'') ''mkdir'',
      Attribute (Name ''qmc_driver'') ''run'',
      Name ''extract_observable'',
      Attribute (Name ''plt'') ''plot'',
      Attribute (Name ''plt'') ''axhline'',
      Attribute (Name ''plt'') ''legend'',
      Attribute (Name ''plt'') ''xlabel'',
      Attribute (Name ''plt'') ''ylabel'',
      Name ''reblock_minimal'']
   \<and> called (events (run default_world high_level)) =
     [VGlobal ''recirq.qcqmc.hamiltonian.HamiltonianFileParams'',
      VGlobal ''recirq.qcqmc.hamiltonian.HamiltonianData.build_hamiltonian_from_file'',
      VGlobal ''recirq.qcqmc.trial_wf.PerfectPairingPlusTrialWavefunctionParams'',
      VGlobal ''recirq.qcqmc.trial_wf.TrialWavefunctionData.build_pp_plus_trial_from_dependencies'',
      VGlobal ''builtins.print'',
      VGlobal ''builtins.tuple'',
      VGlobal ''recirq.qcqmc.blueprint.BlueprintParamsTrialWf'',
      VGlobal ''recirq.qcqmc.blueprint.BlueprintData.build_blueprint_from_dependencies'',
      VGlobal ''recirq.qcqmc.experiment.SimulatedExperimentParams'',
      VGlobal ''recirq.qcqmc.experiment.ExperimentData.build_experiment_from_dependencies'',
      VGlobal ''recirq.qcqmc.analysis.OverlapAnalysisParams'',
      VGlobal ''recirq.qcqmc.analysis.OverlapAnalysisData.build_analysis_from_dependencies'',
      VGlobal ''__main__.print_fields'']
   \<and> called (events (run default_world full_workflow)) =
     [VGlobal ''recirq.qcqmc.hamiltonian.PyscfHamiltonianParams'',
      VGlobal ''recirq.qcqmc.hamiltonian.HamiltonianData.build_hamiltonian_from_pyscf'',
      VGlobal ''numpy.asarray'',
      VGlobal ''recirq.qcqmc.trial_wf.PerfectPairingPlusTrialWavefunctionParams'',
      VGlobal ''recirq.qcqmc.trial_wf.TrialWavefunctionData.build_pp_plus_trial_from_dependencies'',
      VGlobal ''builtins.tuple'',
      VGlobal ''recirq.qcqmc.blueprint.BlueprintParamsTrialWf'',
      VGlobal ''recirq.qcqmc.blueprint.BlueprintData.build_blueprint_from_dependencies'',
      VGlobal ''recirq.qcqmc.experiment.SimulatedExperimentParams'',
      VGlobal ''recirq.qcqmc.experiment.ExperimentData.build_experiment_from_dependencies'',
      VGlobal ''recirq.qcqmc.analysis.OverlapAnalysisParams'',
      VGlobal ''recirq.qcqmc.analysis.OverlapAnalysisData.build_analysis_from_dependencies'',
      VGlobal ''recirq.qcqmc.convert_to_ipie.save_wavefunction_for_ipie'',
      VGlobal ''ipie.systems.generic.Generic'',
      VAttr (VAttr (VRef 2) ''base_path'') ''with_suffix'',
      VGlobal ''builtins.str'',
      VGlobal ''ipie.utils.from_pyscf.generate_hamiltonian_from_chk'',
      VGlobal ''h5py.File'',
      VGlobal ''ipie.trial_wavefunction.particle_hole.ParticleHole'',
      VAttr (VRef 39) ''half_rotate'',
      VAttr (VRef 39) ''calculate_energy'',
      VGlobal ''builtins.print'',
      VGlobal ''numpy.isclose'',
      VGlobal ''ipie.qmc.afqmc.AFQMC.build'',
      VGlobal ''pathlib.Path'',
      VAttr (VRef 48) ''is_dir'',
      VAttr (VRef 45) ''run'',
      VGlobal ''ipie.analysis.extraction.extract_observable'',
      VGlobal ''matplotlib.pyplot.plot'',
      VGlobal ''matplotlib.pyplot.axhline'',
      VGlobal ''matplotlib.pyplot.legend'',
      VGlobal ''matplotlib.pyplot.xlabel'',
      VGlobal ''matplotlib.pyplot.ylabel'',
      VGlobal ''ipie.analysis.blocking.reblock_minimal'']
   \<and> cells_mentioning_any_case ''mpi'' high_level = [10]
   \<and> cells_mentioning_any_case ''mpi'' full_workflow = [27, 28]
   \<and> is_markdown (high_level ! 10)
   \<and> is_markdown (full_workflow ! 27) \<and> is_markdown (full_workflow ! 28)
   \<and> cells_mentioning ''MPI'' high_level = []
   \<and> cells_mentioning ''MPI'' full_workflow = [27, 28]"
proof -
  have modules: "imported_modules high_level =
     [''recirq'',
      ''attrs'',
      ''recirq.qcqmc.hamiltonian'',
      ''recirq.qcqmc.trial_wf'',
      ''recirq.qcqmc.blueprint'',
      ''recirq.qcqmc.experiment'',
      ''recirq.qcqmc.analysis'']
   \<and> imported_modules full_workflow =
     [''recirq'',
      ''recirq.qcqmc.hamiltonian'',
      ''numpy'',
      ''recirq.qcqmc.trial_wf'',
      ''recirq.qcqmc.blueprint'',
      ''recirq.qcqmc.experiment'',
      ''typing'',
      ''recirq.qcqmc.data'',
      ''recirq.qcqmc.analysis'',
      ''recirq.qcqmc.convert_to_ipie'',
      ''ipie.systems.generic'',
      ''ipie.utils.from_pyscf'',
      ''h5py'',
      ''ipie.trial_wavefunction.particle_hole'',
      ''ipie.qmc.afqmc'',
      ''recirq.qcqmc.config'',
      ''pathlib'',
      ''ipie.analysis.extraction'',
      ''matplotlib.pyplot'',
      ''ipie.analysis.blocking'']
   \<and> magic_lines high_level = [''%pip install git+https://github.com/quantumlib/ReCirq'']
   \<and> magic_lines full_workflow = [''%pip install git+https://github.com/quantumlib/ReCirq'']
   \<and> defined_functions high_level = [''print_fields'']
   \<and> defined_functions full_workflow = []"
    by code_simp
  have source: "callees high_level =
     [Attribute (Call (Attribute (Name ''attrs'') ''asdict'') [Name ''x''] []) ''items'',
      Attribute (Name ''attrs'') ''asdict'',
      Name ''type'',
      Name ''HamiltonianFileParams'',
      Attribute (Name ''HamiltonianData'') ''build_hamiltonian_from_file'',
      Name ''PerfectPairingPlusTrialWavefunctionParams'',
      Attribute (Name ''TrialWavefunctionData'') ''build_pp_plus_trial_from_dependencies'',
      Name ''print'',
      Name ''BlueprintParamsTrialWf'',
      Name ''tuple'',
      Attribute (Name ''BlueprintData'') ''build_blueprint_from_dependencies'',
      Name ''SimulatedExperimentParams'',
      Attribute (Name ''ExperimentData'') ''build_experiment_from_dependencies'',
      Name ''OverlapAnalysisParams'',
      Attribute (Name ''OverlapAnalysisData'') ''build_analysis_from_dependencies'',
      Name ''print_fields'']
   \<and> callees full_workflow =
     [Name ''PyscfHamiltonianParams'',
      Attribute (Name ''HamiltonianData'') ''build_hamiltonian_from_pyscf'',
      Name ''PerfectPairingPlusTrialWavefunctionParams'',
      Attribute (Name ''np'') ''asarray'',
      Attribute (Name ''TrialWavefunctionData'') ''build_pp_plus_trial_from_dependencies'',
      Name ''BlueprintParamsTrialWf'',
      Name ''tuple'',
      Attribute (Name ''BlueprintData'') ''build_blueprint_from_dependencies'',
      Name ''SimulatedExperimentParams'',
      Attribute (Name ''ExperimentData'') ''build_experiment_from_dependencies'',
      Name ''OverlapAnalysisParams'',
      Attribute (Name ''OverlapAnalysisData'') ''build_analysis_from_dependencies'',
      Name ''save_wavefunction_for_ipie'',
      Name ''Generic'',
      Attribute (Attribute (Name ''pyscf_params'') ''base_path'') ''with_suffix'',
      Name ''generate_hamiltonian_from_chk'',
      Name ''str'',
      Attribute (Name ''h5py'') ''File'',
      Name ''ParticleHole'',
      Attribute (Name ''wfn'') ''half_rotate'',
      Attribute (Name ''wfn'') ''calculate_energy'',
      Name ''print'',
      Attribute (Name ''np'') ''isclose'',
      Attribute (Name ''AFQMC'') ''build'',
      Attribute (Name ''pathlib'') ''Path'',
      Attribute (Name ''ipie_path'') ''is_dir'',
      Attribute (Name ''ipie_path'') ''mkdir'',
      Attribute (Name ''qmc_driver'') ''run'',
      Name ''extract_observable'',
      Attribute (Name ''plt'') ''plot'',
      Attribute (Name ''plt'') ''axhline'',
      Attribute (Name ''plt'') ''legend'',
      Attribute (Name ''plt'') ''xlabel'',
      Attribute (Name ''plt'') ''ylabel'',
      Name ''reblock_minimal'']"
    by code_simp
  have runs: "called (events (run default_world high_level)) =
     [VGlobal ''recirq.qcqmc.hamiltonian.HamiltonianFileParams'',
      VGlobal ''recirq.qcqmc.hamiltonian.HamiltonianData.build_hamiltonian_from_file'',
      VGlobal ''recirq.qcqmc.trial_wf.PerfectPairingPlusTrialWavefunctionParams'',
      VGlobal ''recirq.qcqmc.trial_wf.TrialWavefunctionData.build_pp_plus_trial_from_dependencies'',
      VGlobal ''builtins.print'',
      VGlobal ''builtins.tuple'',
      VGlobal ''recirq.qcqmc.blueprint.BlueprintParamsTrialWf'',
      VGlobal ''recirq.qcqmc.blueprint.BlueprintData.build_blueprint_from_dependencies'',
      VGlobal ''recirq.qcqmc.experiment.SimulatedExperimentParams'',
      VGlobal ''recirq.qcqmc.experiment.ExperimentData.build_experiment_from_dependencies'',
      VGlobal ''recirq.qcqmc.analysis.OverlapAnalysisParams'',
      VGlobal ''recirq.qcqmc.analysis.OverlapAnalysisData.build_analysis_from_dependencies'',
      VGlobal ''__main__.print_fields'']
   \<and> called (events (run default_world full_workflow)) =
     [VGlobal ''recirq.qcqmc.hamiltonian.PyscfHamiltonianParams'',
      VGlobal ''recirq.qcqmc.hamiltonian.HamiltonianData.build_hamiltonian_from_pyscf'',
      VGlobal ''numpy.asarray'',
      VGlobal ''recirq.qcqmc.trial_wf.PerfectPairingPlusTrialWavefunctionParams'',
      VGlobal ''recirq.qcqmc.trial_wf.TrialWavefunctionData.build_pp_plus_trial_from_dependencies'',
      VGlobal ''builtins.tuple'',
      VGlobal ''recirq.qcqmc.blueprint.BlueprintParamsTrialWf'',
      VGlobal ''recirq.qcqmc.blueprint.BlueprintData.build_blueprint_from_dependencies'',
      VGlobal ''recirq.qcqmc.experiment.SimulatedExperimentParams'',
      VGlobal ''recirq.qcqmc.experiment.ExperimentData.build_experiment_from_dependencies'',
      VGlobal ''recirq.qcqmc.analysis.OverlapAnalysisParams'',
      VGlobal ''recirq.qcqmc.analysis.OverlapAnalysisData.build_analysis_from_dependencies'',
      VGlobal ''recirq.qcqmc.convert_to_ipie.save_wavefunction_for_ipie'',
      VGlobal ''ipie.systems.generic.Generic'',
      VAttr (VAttr (VRef 2) ''base_path'') ''with_suffix'',
      VGlobal ''builtins.str'',
      VGlobal ''ipie.utils.from_pyscf.generate_hamiltonian_from_chk'',
      VGlobal ''h5py.File'',
      VGlobal ''ipie.trial_wavefunction.particle_hole.ParticleHole'',
      VAttr (VRef 39) ''half_rotate'',
      VAttr (VRef 39) ''calculate_energy'',
      VGlobal ''builtins.print'',
      VGlobal ''numpy.isclose'',
      VGlobal ''ipie.qmc.afqmc.AFQMC.build'',
      VGlobal ''pathlib.Path'',
      VAttr (VRef 48) ''is_dir'',
      VAttr (VRef 45) ''run'',
      VGlobal ''ipie.analysis.extraction.extract_observable'',
      VGlobal ''matplotlib.pyplot.plot'',
      VGlobal ''matplotlib.pyplot.axhline'',
      VGlobal ''matplotlib.pyplot.legend'',
      VGlobal ''matplotlib.pyplot.xlabel'',
      VGlobal ''matplotlib.pyplot.ylabel'',
      VGlobal ''ipie.analysis.blocking.reblock_minimal'']"
    unfolding high_level_events full_workflow_events
    by code_simp
  have mentions: "cells_mentioning_any_case ''mpi'' high_level = [10]
   \<and> cells_mentioning_any_case ''mpi'' full_workflow = [27, 28]
   \<and> is_markdown (high_level ! 10)
   \<and> is_markdown (full_workflow ! 27) \<and> is_markdown (full_workflow ! 28)
   \<and> cells_mentioning ''MPI'' high_level = []
   \<and> cells_mentioning ''MPI'' full_workflow = [27, 28]"
    by code_simp
  from modules source runs mentions show ?thesis
    by blast
qed

section \<open>The electron count\<close>

text \<open>
  C9: in the end-to-end notebook \<open>num_elec\<close> is assigned once, the tuple
  \<open>(pyscf_params.n_elec // 2,) * 2\<close>. For a Params object constructed with \<open>n_elec = n\<close> its
  value is \<open>(n div 2, n div 2)\<close> with floor division: two equal components, whose sum is
  \<open>n\<close> exactly when \<open>n\<close> is even and \<open>n - 1\<close> when \<open>n\<close> is odd. In the notebook \<open>n_elec\<close> is
  4, and the constructor \<open>Generic\<close> of the AFQMC system is given \<open>(2, 2)\<close>.
\<close>

theorem electron_count_floor_division:
  "assigned ''num_elec'' full_workflow =
     [BinOp (Tuple [BinOp (Attribute (Name ''pyscf_params'') ''n_elec'') FloorDiv (IntLit 2)]) Mult (IntLit 2)]
   \<and> fst (eval_expr
            (BinOp (Tuple [BinOp (Attribute (Name ''pyscf_params'') ''n_elec'') FloorDiv (IntLit 2)]) Mult (IntLit 2))
            w [(''pyscf_params'', VRef 0)]
            [ECall (VGlobal ''recirq.qcqmc.hamiltonian.PyscfHamiltonianParams'') []
               [(''n_orb'', VInt m), (''n_elec'', VInt n)]])
       = Inr (VTuple [VInt (n div 2), VInt (n div 2)])
   \<and> (n div 2 + n div 2 = n) = even n
   \<and> (odd n \<longrightarrow> n div 2 + n div 2 = n - 1)
   \<and> keyword_arg ''n_elec'' (events (run default_world full_workflow) ! 2) = Some (VInt 4)
   \<and> events (run default_world full_workflow) ! 32 =
       ECall (VGlobal ''ipie.systems.generic.Generic'') [VTuple [VInt 2, VInt 2]] []"
proof -
  have a: "assigned ''num_elec'' full_workflow =
     [BinOp (Tuple [BinOp (Attribute (Name ''pyscf_params'') ''n_elec'') FloorDiv (IntLit 2)]) Mult (IntLit 2)]"
    by code_simp
  have b: "fst (eval_expr
            (BinOp (Tuple [BinOp (Attribute (Name ''pyscf_params'') ''n_elec'') FloorDiv (IntLit 2)]) Mult (IntLit 2))
            w [(''pyscf_params'', VRef 0)]
            [ECall (VGlobal ''recirq.qcqmc.hamiltonian.PyscfHamiltonianParams'') []
               [(''n_orb'', VInt m), (''n_elec'', VInt n)]])
       = Inr (VTuple [VInt (n div 2), VInt (n div 2)])"
    by (simp add: and_then_def lookup_name_def lift_def return_def read_attr_def settle_def
        lookup_def getattr_def object_field_def is_major_def field_of_result_def
        last_component_def apply_binop_def computed_def is_opaque_def is_bool_def floordiv_val_def
        mult_val_def repeat_def numeral_2_eq_2)
  have c: "(n div 2 + n div 2 = n) = even n"
    by presburger
  have d: "odd n \<longrightarrow> n div 2 + n div 2 = n - 1"
    by presburger
  have e: "keyword_arg ''n_elec'' (events (run default_world full_workflow) ! 2) = Some (VInt 4)
     \<and> events (run default_world full_workflow) ! 32 =
       ECall (VGlobal ''ipie.systems.generic.Generic'') [VTuple [VInt 2, VInt 2]] []"
    unfolding full_workflow_events
    by code_simp
  from a b c d e show ?thesis
    by blast
qed

theorem electron_count_floor_division_witness:
  "odd (3 :: int) \<and> (3 :: int) div 2 + 3 div 2 = 3 - 1
   \<and> fst (eval_expr
            (BinOp (Tuple [BinOp (Attribute (Name ''pyscf_params'') ''n_elec'') FloorDiv (IntLit 2)]) Mult (IntLit 2))
            default_world [(''pyscf_params'', VRef 0)]
            [ECall (VGlobal ''recirq.qcqmc.hamiltonian.PyscfHamiltonianParams'') []
               [(''n_orb'', VInt 4), (''n_elec'', VInt 3)]])
       = Inr (VTuple [VInt 1, VInt 1])"
  using electron_count_floor_division [of default_world 4 3]
  by simp

section \<open>The shape assertions\<close>

text \<open>Sequencing: a block of blocks runs like the one block of all their actions.\<close>

lemma block_append:
  "block (xs @ ys) w st = (case block xs w st of (Done, st1) \<Rightarrow> block ys w st1 | r \<Rightarrow> r)"
  by (induction xs arbitrary: st) (auto split: prod.splits outcome.splits)

lemma block_single: "block [a] w st = a w st"
  by (auto split: prod.splits outcome.splits)

lemma block_cons_block: "block (block ys # zs) w st = block (ys @ zs) w st"
  by (simp add: block_append)

lemma block_nested: "block (xs @ block ys # zs) w st = block (xs @ ys @ zs) w st"
  by (simp add: block_append [of xs] block_cons_block del: block.simps
      split: prod.splits outcome.splits)

lemma plain_ints: "list_all plain (map VInt xs)"
  by (induction xs) auto

lemma ints_eq_iff: "(map VInt xs = map VInt ys) = (xs = ys)"
  by (simp add: inj_on_def inj_map_eq_map [unfolded inj_on_def])

text \<open>
  The two assertions, in any state in which \<open>ham\<close> is a factorized Hamiltonian with \<open>H1\<close> of
  shape \<open>h1\<close> and \<open>chol\<close> of shape \<open>d # ds\<close>, and \<open>pyscf_params\<close> is a Params object with
  \<open>n_orb = n\<close>: they pass when \<open>h1 = (2, n, n)\<close> and \<open>d = n * n\<close>, and raise an
  \<open>AssertionError\<close> otherwise.
\<close>

lemma shape_assertions:
  assumes "map_of env ''ham'' = Some (ham_object h1 (d # ds))"
    and "map_of env ''pyscf_params'' = Some (VRef k)"
    and "object_field t k ''n_orb'' = Some (VInt n)"
  shows "block (map exec
           [Assert (Compare (Attribute (Attribute (Name ''ham'') ''H1'') ''shape'') CmpEq
                      (Tuple [IntLit 2, Attribute (Name ''pyscf_params'') ''n_orb'',
                              Attribute (Name ''pyscf_params'') ''n_orb''])),
            Assert (Compare (Subscript (Attribute (Attribute (Name ''ham'') ''chol'') ''shape'') (IntLit 0)) CmpEq
                      (BinOp (Attribute (Name ''pyscf_params'') ''n_orb'') Mult
                             (Attribute (Name ''pyscf_params'') ''n_orb'')))])
           w (env, t) =
         (if h1 = [2, n, n] \<and> d = n * n then (Done, (env, t))
          else (Raised AssertionError, (env, t @ [ERaise AssertionError])))"
proof -
  have three: "(map VInt h1 = [VInt 2, VInt n, VInt n]) = (h1 = [2, n, n])"
    using ints_eq_iff [of h1 "[2, n, n]"] by simp
  show ?thesis
    using assms
    by (simp add: with_value_def and_then_def lookup_name_def lift_def return_def read_attr_def
        settle_def truth_of_def skip_def raise_def lookup_def getattr_def
        ham_object_def apply_compare_def apply_binop_def computed_def is_opaque_def is_bool_def
        mult_val_def subscript_def index_val_def index_seq_def plain_ints three)
qed

text \<open>
  C5: in the end-to-end notebook, once \<open>generate_hamiltonian_from_chk\<close> has returned the
  factorized Hamiltonian (with \<open>H1\<close> of shape \<open>h1\<close> and \<open>chol\<close> of shape \<open>d # ds\<close>), the run
  goes on past the cell with the two assertions exactly when \<open>h1 = (2, 4, 4)\<close> and
  \<open>d = 16\<close>, that is \<open>(2, n_orb, n_orb)\<close> and \<open>n_orb * n_orb\<close> for the configured \<open>n_orb = 4\<close>;
  then it completes. Otherwise it ends with an \<open>AssertionError\<close>, its last event being
  the call of \<open>generate_hamiltonian_from_chk\<close> (position 35): the next cell, which imports
  \<open>h5py\<close> and builds the trial wavefunction of the AFQMC calculation (\<open>ParticleHole\<close>,
  position 39), is not reached. (The data of the quantum trial wavefunction,
  \<open>TrialWavefunctionData\<close>, were built by an earlier cell, at position 10. An array
  \<open>chol\<close> without any axis has no \<open>shape[0]\<close>: there the second assertion ends with an
  \<open>IndexError\<close>, see \<open>chol_without_axes\<close>.)
\<close>

lemma chol_without_axes:
  "status (run (ham_world [2, 4, 4] []) full_workflow) = Raised IndexError"
  by code_simp

theorem shape_assertions_guard:
  "status (run (ham_world h1 (d # ds)) full_workflow) =
     (if h1 = [2, 4, 4] \<and> d = 16 then Done else Raised AssertionError)
   \<and> (EImport ''h5py'' \<in> set (events (run (ham_world h1 (d # ds)) full_workflow))) =
     (h1 = [2, 4, 4] \<and> d = 16)
   \<and> map fst (calls_to ''ipie.trial_wavefunction.particle_hole.ParticleHole''
                 (events (run (ham_world h1 (d # ds)) full_workflow))) =
     (if h1 = [2, 4, 4] \<and> d = 16 then [39] else [])
   \<and> map fst (calls_to ''ipie.utils.from_pyscf.generate_hamiltonian_from_chk''
                 (events (run (ham_world h1 (d # ds)) full_workflow))) = [35]
   \<and> length (events (run (ham_world h1 (d # ds)) full_workflow)) =
     (if h1 = [2, 4, 4] \<and> d = 16 then 61 else 36)"
proof -
  define S :: "int list \<Rightarrow> int list \<Rightarrow> state" where
    "S = (\<lambda>h c.
       (((''ham'', ham_object h c) #
        [(''chk_path'', VRef 33),
         (''system'', VRef 32),
         (''num_elec'', VTuple [VInt 2, VInt 2]),
         (''generate_hamiltonian_from_chk'', VGlobal ''ipie.utils.from_pyscf.generate_hamiltonian_from_chk''),
         (''Generic'', VGlobal ''ipie.systems.generic.Generic''),
         (''ipie_data'', VRef 26),
         (''save_wavefunction_for_ipie'', VGlobal ''recirq.qcqmc.convert_to_ipie.save_wavefunction_for_ipie''),
         (''analysis'', VRef 24),
         (''all_dependencies'', VDict [(VRef 2, VRef 3), (VRef 9, VRef 10), (VRef 16, VRef 17), (VRef 18, VRef 19)]),
         (''analysis_params'', VRef 23),
         (''OverlapAnalysisParams'', VGlobal ''recirq.qcqmc.analysis.OverlapAnalysisParams''),
         (''OverlapAnalysisData'', VGlobal ''recirq.qcqmc.analysis.OverlapAnalysisData''),
         (''Data'', VGlobal ''recirq.qcqmc.data.Data''),
         (''Params'', VGlobal ''recirq.qcqmc.data.Params''),
         (''Dict'', VGlobal ''typing.Dict''),
         (''experiment'', VRef 19),
         (''simulated_experiment_params'', VRef 18),
         (''blueprint'', VRef 17),
         (''blueprint_params'', VRef 16),
         (''ExperimentData'', VGlobal ''recirq.qcqmc.experiment.ExperimentData''),
         (''SimulatedExperimentParams'', VGlobal ''recirq.qcqmc.experiment.SimulatedExperimentParams''),
         (''BlueprintData'', VGlobal ''recirq.qcqmc.blueprint.BlueprintData''),
         (''BlueprintParamsTrialWf'', VGlobal ''recirq.qcqmc.blueprint.BlueprintParamsTrialWf''),
         (''trial_wf'', VRef 10),
         (''pp_params'', VRef 9),
         (''TrialWavefunctionData'', VGlobal ''recirq.qcqmc.trial_wf.TrialWavefunctionData''),
         (''PerfectPairingPlusTrialWavefunctionParams'', VGlobal ''recirq.qcqmc.trial_wf.PerfectPairingPlusTrialWavefunctionParams''),
         (''np'', VGlobal ''numpy''),
         (''chk_path'', VRef 4),
         (''pyscf_hamiltonian'', VRef 3),
         (''pyscf_params'', VRef 2),
         (''HamiltonianData'', VGlobal ''recirq.qcqmc.hamiltonian.HamiltonianData''),
         (''PyscfHamiltonianParams'', VGlobal ''recirq.qcqmc.hamiltonian.PyscfHamiltonianParams''),
         (''recirq'', VGlobal ''recirq'')]),
        [EImport ''recirq'',
         EImport ''recirq.qcqmc.hamiltonian'',
         ECall (VGlobal ''recirq.qcqmc.hamiltonian.PyscfHamiltonianParams'') [] [(''name'', VStr ''TEST_square_H4''), (''n_orb'', VInt 4), (''n_elec'', VInt 4), (''geometry'', VTuple [VTuple [VStr ''H'', VTuple [VInt 0, VInt 0, VInt 0]], VTuple [VStr ''H'', VTuple [VInt 0, VInt 0, VFloat ''1.23'']], VTuple [VStr ''H'', VTuple [VFloat ''1.23'', VInt 0, VInt 0]], VTuple [VStr ''H'', VTuple [VFloat ''1.23'', VInt 0, VFloat ''1.23'']]]), (''basis'', VStr ''sto3g''), (''multiplicity'', VInt 1), (''charge'', VInt 0), (''save_chkfile'', VBool True), (''overwrite_chk_file'', VBool True)],
         EAttr (VGlobal ''recirq.qcqmc.hamiltonian.HamiltonianData'') ''build_hamiltonian_from_pyscf'',
         ECall (VGlobal ''recirq.qcqmc.hamiltonian.HamiltonianData.build_hamiltonian_from_pyscf'') [VRef 2] [],
         EAttr (VRef 2) ''base_path'',
         EAttr (VAttr (VRef 2) ''base_path'') ''with_suffix'',
         ECall (VAttr (VAttr (VRef 2) ''base_path'') ''with_suffix'') [VStr ''.chk''] [],
         EImport ''numpy'',
         EImport ''recirq.qcqmc.trial_wf'',
         ECall (VGlobal ''builtins.tuple'') [] [],
         EAttr (VGlobal ''numpy'') ''asarray'',
         ECall (VGlobal ''numpy.asarray'') [VList [VFloat ''0.3'', VFloat ''0.4'']] [],
         ECall (VGlobal ''recirq.qcqmc.trial_wf.PerfectPairingPlusTrialWavefunctionParams'') [VStr ''pp_plus_test''] [(''hamiltonian_params'', VRef 2), (''heuristic_layers'', VRef 7), (''do_pp'', VBool True), (''restricted'', VBool False), (''initial_orbital_rotation'', VNone), (''initial_two_body_qchem_amplitudes'', VRef 8), (''do_optimization'', VBool True), (''use_fast_gradients'', VBool True)],
         EAttr (VGlobal ''recirq.qcqmc.trial_wf.TrialWavefunctionData'') ''build_pp_plus_trial_from_dependencies'',
         ECall (VGlobal ''recirq.qcqmc.trial_wf.TrialWavefunctionData.build_pp_plus_trial_from_dependencies'') [VRef 9] [(''dependencies'', VDict [(VRef 2, VRef 3)]), (''do_print'', VBool True)],
         EAttr (VRef 10) ''ansatz_energy'',
         EOp ''f-string'' [VStr ''Trial wavefunction energy: '', VAttr (VRef 10) ''ansatz_energy''],
         ECall (VGlobal ''builtins.print'') [VOp ''f-string'' [VStr ''Trial wavefunction energy: '', VAttr (VRef 10) ''ansatz_energy'']] [],
         EAttr (VRef 10) ''fci_energy'',
         EOp ''f-string'' [VStr ''Exact ground state energy: '', VAttr (VRef 10) ''fci_energy''],
         ECall (VGlobal ''builtins.print'') [VOp ''f-string'' [VStr ''Exact ground state energy: '', VAttr (VRef 10) ''fci_energy'']] [],
         EImport ''recirq.qcqmc.blueprint'',
         EImport ''recirq.qcqmc.experiment'',
         EAttr (VRef 9) ''qubits_jordan_wigner_ordered'',
         EIter (VAttr (VRef 9) ''qubits_jordan_wigner_ordered''),
         ECall (VGlobal ''builtins.tuple'') [VGen (Name ''qubit'') ''qubit'' (VAttr (VRef 9) ''qubits_jordan_wigner_ordered'')] [],
         ECall (VGlobal ''recirq.qcqmc.blueprint.BlueprintParamsTrialWf'') [] [(''name'', VStr ''blueprint_test_medium''), (''trial_wf_params'', VRef 9), (''n_cliffords'', VInt 100), (''qubit_partition'', VTuple [VRef 15]), (''seed'', VInt 1)],
         EAttr (VGlobal ''recirq.qcqmc.blueprint.BlueprintData'') ''build_blueprint_from_dependencies'',
         ECall (VGlobal ''recirq.qcqmc.blueprint.BlueprintData.build_blueprint_from_dependencies'') [VRef 16] [(''dependencies'', VDict [(VRef 9, VRef 10)])],
         ECall (VGlobal ''recirq.qcqmc.experiment.SimulatedExperimentParams'') [] [(''name'', VStr ''test_1''), (''blueprint_params'', VRef 16), (''noise_model_name'', VStr ''None''), (''noise_model_params'', VTuple [VInt 0]), (''n_samples_per_clifford'', VInt 31), (''seed'', VInt 1)],
         EAttr (VGlobal ''recirq.qcqmc.experiment.ExperimentData'') ''build_experiment_from_dependencies'',
         ECall (VGlobal ''recirq.qcqmc.experiment.ExperimentData.build_experiment_from_dependencies'') [] [(''params'', VRef 18), (''dependencies'', VDict [(VRef 16, VRef 17)])],
         EImport ''typing'',
         EImport ''recirq.qcqmc.data'',
         EImport ''recirq.qcqmc.analysis'',
         ECall (VGlobal ''recirq.qcqmc.analysis.OverlapAnalysisParams'') [VStr ''TEST_analysis''] [(''experiment_params'', VRef 18), (''k_to_calculate'', VTuple [VInt 1])],
         EItem (VGlobal ''typing.Dict'') (VTuple [VGlobal ''recirq.qcqmc.data.Params'', VGlobal ''recirq.qcqmc.data.Data'']),
         EAttr (VGlobal ''recirq.qcqmc.analysis.OverlapAnalysisData'') ''build_analysis_from_dependencies'',
         ECall (VGlobal ''recirq.qcqmc.analysis.OverlapAnalysisData.build_analysis_from_dependencies'') [VRef 23] [(''dependencies'', VDict [(VRef 2, VRef 3), (VRef 9, VRef 10), (VRef 16, VRef 17), (VRef 18, VRef 19)])],
         EImport ''recirq.qcqmc.convert_to_ipie'',
         ECall (VGlobal ''recirq.qcqmc.convert_to_ipie.save_wavefunction_for_ipie'') [] [(''hamiltonian_data'', VRef 3), (''trial_wf_data'', VRef 10), (''overlap_analysis_data'', VRef 24), (''do_print'', VBool False)],
         EAttr (VRef 26) ''variational_energy'',
         EOp ''f-string'' [VStr ''Reconstructed shadow wavefunction energy: '', VAttr (VRef 26) ''variational_energy''],
         ECall (VGlobal ''builtins.print'') [VOp ''f-string'' [VStr ''Reconstructed shadow wavefunction energy: '', VAttr (VRef 26) ''variational_energy'']] [],
         EAttr (VRef 10) ''ansatz_energy'',
         EOp ''f-string'' [VStr ''Ideal trial wavefunction energy: '', VAttr (VRef 10) ''ansatz_energy''],
         ECall (VGlobal ''builtins.print'') [VOp ''f-string'' [VStr ''Ideal trial wavefunction energy: '', VAttr (VRef 10) ''ansatz_energy'']] [],
         EAttr (VRef 10) ''fci_energy'',
         EOp ''f-string'' [VStr ''FCI energy: '', VAttr (VRef 10) ''fci_energy''],
         ECall (VGlobal ''builtins.print'') [VOp ''f-string'' [VStr ''FCI energy: '', VAttr (VRef 10) ''fci_energy'']] [],
         EImport ''ipie.systems.generic'',
         EImport ''ipie.utils.from_pyscf'',
         ECall (VGlobal ''ipie.systems.generic.Generic'') [VTuple [VInt 2, VInt 2]] [],
         EAttr (VRef 2) ''base_path'',
         EAttr (VAttr (VRef 2) ''base_path'') ''with_suffix'',
         ECall (VAttr (VAttr (VRef 2) ''base_path'') ''with_suffix'') [VStr ''.chk''] [],
         ECall (VGlobal ''builtins.str'') [VRef 33] [],
         ECall (VGlobal ''ipie.utils.from_pyscf.generate_hamiltonian_from_chk'') [VRef 34] []]))"
  let ?w = "ham_world h1 (d # ds)"
  let ?ok = "h1 = [2, 4, 4] \<and> d = 16"
  let ?pre = "map exec_cell (take 16 full_workflow) @ map exec (take 6 (cell_statements (full_workflow ! 16)))"
  let ?asserts = "map exec (drop 6 (cell_statements (full_workflow ! 16)))"
  let ?post = "map exec_cell (drop 17 full_workflow)"
  let ?ph = "''ipie.trial_wavefunction.particle_hole.ParticleHole''"
  let ?gen = "''ipie.utils.from_pyscf.generate_hamiltonian_from_chk''"
  have "full_workflow = take 16 full_workflow @ full_workflow ! 16 # drop 17 full_workflow"
    by (simp add: full_workflow_def)
  then have "map exec_cell full_workflow =
      map exec_cell (take 16 full_workflow @ full_workflow ! 16 # drop 17 full_workflow)"
    by (rule arg_cong)
  moreover have "exec_cell (full_workflow ! 16) =
      block (map exec (take 6 (cell_statements (full_workflow ! 16))) @ ?asserts)"
    unfolding exec_cell_def
    by (simp only: map_append [symmetric] append_take_drop_id)
  ultimately have run_eq: "run v full_workflow = block (?pre @ ?asserts @ ?post) v ([], [])" for v
    by (simp add: run_def block_nested)
  have pre: "block ?pre (ham_world h c) ([], []) = (Done, S h c)" for h c
    unfolding S_def
    by code_simp
  have stmts: "drop 6 (cell_statements (full_workflow ! 16)) =
      [Assert (Compare (Attribute (Attribute (Name ''ham'') ''H1'') ''shape'') CmpEq
                 (Tuple [IntLit 2, Attribute (Name ''pyscf_params'') ''n_orb'',
                         Attribute (Name ''pyscf_params'') ''n_orb''])),
       Assert (Compare (Subscript (Attribute (Attribute (Name ''ham'') ''chol'') ''shape'') (IntLit 0)) CmpEq
                 (BinOp (Attribute (Name ''pyscf_params'') ''n_orb'') Mult
                        (Attribute (Name ''pyscf_params'') ''n_orb'')))]"
    by code_simp
  have bound: "case S h c of
      (env, t) \<Rightarrow>
        map_of env ''ham'' = Some (ham_object h c) \<and> map_of env ''pyscf_params'' = Some (VRef 2)
        \<and> object_field t 2 ''n_orb'' = Some (VInt 4)" for h c
    unfolding S_def
    by code_simp
  have asserts: "block ?asserts ?w (S h1 (d # ds)) =
      (if ?ok then (Done, S h1 (d # ds))
       else (Raised AssertionError, (fst (S h1 (d # ds)), snd (S h1 (d # ds)) @ [ERaise AssertionError])))"
  proof -
    obtain env t where st: "S h1 (d # ds) = (env, t)"
      by (cases "S h1 (d # ds)")
    with bound [of h1 "d # ds"]
    have "map_of env ''ham'' = Some (ham_object h1 (d # ds))"
      and "map_of env ''pyscf_params'' = Some (VRef 2)"
      and "object_field t 2 ''n_orb'' = Some (VInt 4)"
      by simp_all
    from shape_assertions [OF this, of ?w]
    have "block ?asserts ?w (env, t) =
        (if h1 = [2, 4, 4] \<and> d = 4 * 4 then (Done, (env, t))
         else (Raised AssertionError, (env, t @ [ERaise AssertionError])))"
      by (simp only: stmts)
    moreover have "(4 :: int) * 4 = 16"
      by simp
    ultimately show ?thesis
      by (simp only: st fst_conv snd_conv)
  qed
  have post: "case block ?post (ham_world [2, 4, 4] (16 # ds)) (S [2, 4, 4] (16 # ds)) of
      (out, env, t) \<Rightarrow>
        out = Done \<and> EImport ''h5py'' \<in> set (filter is_major t)
        \<and> map fst (calls_to ?ph (filter is_major t)) = [39]
        \<and> map fst (calls_to ?gen (filter is_major t)) = [35]
        \<and> length (filter is_major t) = 61" for ds
    unfolding S_def
    by code_simp
  have stopped: "case S h c of
      (env, t) \<Rightarrow>
        EImport ''h5py'' \<notin> set (filter is_major t)
        \<and> map fst (calls_to ?ph (filter is_major t)) = []
        \<and> map fst (calls_to ?gen (filter is_major t)) = [35]
        \<and> length (filter is_major t) = 36" for h c
    unfolding S_def
    by code_simp
  show ?thesis
  proof (cases ?ok)
    case True
    then have passed: "block ?asserts ?w (S h1 (d # ds)) = (Done, S h1 (d # ds))"
      using asserts by simp
    obtain out env t where fin: "block ?post ?w (S h1 (d # ds)) = (out, env, t)"
      by (cases "block ?post ?w (S h1 (d # ds))")
    have "run ?w full_workflow = block ?post ?w (S h1 (d # ds))"
      by (simp only: run_eq block_append [of ?pre] block_append [of ?asserts] pre passed
          prod.case outcome.case)
    then have r: "run ?w full_workflow = (out, env, t)"
      by (simp only: fin)
    from post [of ds] fin True
    have "out = Done" and "EImport ''h5py'' \<in> set (filter is_major t)"
      and "map fst (calls_to ?ph (filter is_major t)) = [39]"
      and "map fst (calls_to ?gen (filter is_major t)) = [35]"
      and "length (filter is_major t) = 61"
      by simp_all
    with True show ?thesis
      unfolding status_def events_def operations_def r by (simp del: set_filter)
  next
    case False
    obtain env t where st: "S h1 (d # ds) = (env, t)"
      by (cases "S h1 (d # ds)")
    from False have failed: "block ?asserts ?w (S h1 (d # ds)) =
        (Raised AssertionError, (env, t @ [ERaise AssertionError]))"
      using asserts st by simp
    have r: "run ?w full_workflow = (Raised AssertionError, env, t @ [ERaise AssertionError])"
      by (simp only: run_eq block_append [of ?pre] block_append [of ?asserts] pre failed
          prod.case outcome.case)
    have own: "filter is_major (t @ [ERaise AssertionError]) = filter is_major t"
      by (simp add: is_major_def)
    from stopped [of h1 "d # ds"] st
    have "EImport ''h5py'' \<notin> set (filter is_major t)"
      and "map fst (calls_to ?ph (filter is_major t)) = []"
      and "map fst (calls_to ?gen (filter is_major t)) = [35]"
      and "length (filter is_major t) = 36"
      by simp_all
    with False show ?thesis
      unfolding status_def events_def operations_def r snd_conv fst_conv own by (simp del: set_filter)
  qed
qed

section \<open>Exceptions propagate\<close>

lemma quiet_append: "quiet w (a @ b) = (quiet w a \<and> quiet w b)"
  by (simp add: quiet_def)

lemma quiet_butlast: "quiet w a \<Longrightarrow> quiet w (butlast a)"
  by (auto simp: quiet_def list_all_iff dest: in_set_butlastD)

lemma quiet_last: "quiet w a \<Longrightarrow> a \<noteq> [] \<Longrightarrow> \<not> raising w (last a)"
  by (auto simp: quiet_def list_all_iff)

lemma faithful_Nil: "faithful w [] r"
  by (simp add: faithful_def quiet_def split: option.splits)

lemma faithful_quiet_append:
  assumes "quiet w a" and "faithful w b r"
  shows "faithful w (a @ b) r"
proof (cases r)
  case None
  with assms show ?thesis
    by (simp add: faithful_def quiet_append)
next
  case (Some x)
  show ?thesis
  proof (cases "b = []")
    case True
    with assms Some quiet_last [of w a] quiet_butlast [of w a] show ?thesis
      by (auto simp: faithful_def)
  next
    case False
    with assms Some show ?thesis
      by (simp add: faithful_def butlast_append quiet_append)
  qed
qed

lemma faithful_raise:
  assumes "faithful w new r" and "ev \<in> set new" and "raised w ev = Some e"
    and "\<not> handled ev e"
  shows "r = Some e \<and> last new = ev"
proof -
  from assms(3,4) have rais: "raising w ev"
    by (simp add: raising_def)
  have "r \<noteq> None"
  proof
    assume "r = None"
    with assms(1) have "quiet w new"
      by (simp add: faithful_def)
    with assms(2) have "\<not> raising w ev"
      by (simp add: quiet_def list_all_iff)
    with rais show False
      by simp
  qed
  then obtain x where r: "r = Some x"
    by auto
  with assms(1) have q: "quiet w (butlast new)"
    and l: "new = [] \<or> \<not> raising w (last new) \<or> raised w (last new) = Some x"
    by (simp_all add: faithful_def)
  from q rais have nb: "ev \<notin> set (butlast new)"
    by (auto simp: quiet_def list_all_iff)
  from assms(2) have ne: "new \<noteq> []"
    by auto
  have "set (butlast new @ [last new]) = insert (last new) (set (butlast new))"
    by (simp del: append_butlast_last_id)
  with ne have "set new = insert (last new) (set (butlast new))"
    by simp
  with assms(2) nb have last: "last new = ev"
    by auto
  with l ne rais have "raised w ev = Some x"
    by simp
  with assms(3) r last show ?thesis
    by simp
qed

lemma raised_external:
  "external ev \<Longrightarrow> raised w ev = (case w ev of Some (Raises e) \<Rightarrow> Some e | _ \<Rightarrow> None)"
  by (cases ev) (simp_all add: raised_def external_def)

lemma faithful_raises: "external ev \<Longrightarrow> w ev = Some (Raises e) \<Longrightarrow> faithful w [ev] (Some e)"
  by (simp add: faithful_def quiet_def raised_external)

lemma quiet_returns: "external ev \<Longrightarrow> \<forall>e. w ev \<noteq> Some (Raises e) \<Longrightarrow> quiet w [ev]"
  by (auto simp: quiet_def raising_def raised_external split: option.splits reply.splits)

lemma faithful_own: "faithful w [ERaise e] (Some e)"
  by (simp add: faithful_def quiet_def raised_def)

lemma proper_Nil: "proper [] = []"
  by (simp add: proper_def)

lemma proper_append: "proper (a @ b) = proper a @ proper b"
  by (simp add: proper_def)

lemma proper_external: "external ev \<Longrightarrow> proper [ev] = [ev]"
  by (cases ev) (auto simp: proper_def external_def is_unwinding_def)

lemma proper_own: "proper [ERaise e] = [ERaise e]"
  by (simp add: proper_def is_unwinding_def)

lemma proper_unwinding: "proper [EExit v (Some x)] = []"
  by (simp add: proper_def is_unwinding_def)

lemma sound_compI:
  assumes "\<And>w env t. calm w \<Longrightarrow>
     \<exists>new. snd (m w env t) = t @ new \<and> faithful w (proper new) (raised_value (fst (m w env t)))"
  shows "sound_comp m"
  using assms unfolding sound_comp_def by blast

lemma sound_compD:
  assumes "sound_comp m" and "calm w"
  shows "\<exists>new. snd (m w env t) = t @ new \<and> faithful w (proper new) (raised_value (fst (m w env t)))"
  using assms unfolding sound_comp_def by blast

lemma sound_actionI:
  assumes "\<And>w env t. calm w \<Longrightarrow>
     \<exists>new. snd (snd (a w (env, t))) = t @ new
           \<and> faithful w (proper new) (raised_outcome (fst (a w (env, t))))"
  shows "sound_action a"
  using assms unfolding sound_action_def by blast

lemma sound_actionD:
  assumes "sound_action a" and "calm w"
  shows "\<exists>new. snd (snd (a w (env, t))) = t @ new
           \<and> faithful w (proper new) (raised_outcome (fst (a w (env, t))))"
  using assms unfolding sound_action_def by blast

subsection \<open>Expressions\<close>

lemma sound_return: "sound_comp (return v)"
  by (simp add: sound_comp_def return_def faithful_Nil proper_Nil)

lemma sound_fail: "sound_comp (fail e)"
  by (simp add: sound_comp_def fail_def faithful_own raised_value_def proper_own)

lemma sound_lift: "sound_comp (lift r)"
  by (cases r) (simp_all add: lift_def sound_return sound_fail)

lemma sound_consult:
  assumes "external ev"
  shows "sound_comp (consult ev d)"
proof (rule sound_compI)
  fix w :: world and env :: env and t :: "event list"
  assume calm: "calm w"
  show "\<exists>new. snd (consult ev d w env t) = t @ new
          \<and> faithful w (proper new) (raised_value (fst (consult ev d w env t)))"
  proof (cases "\<exists>e. w ev = Some (Raises e)")
    case True
    then obtain e where e: "w ev = Some (Raises e)"
      by blast
    then have "consult ev d w env t = (Inl e, t @ [ev])"
      by (simp add: consult_def)
    moreover from assms e have "faithful w [ev] (Some e)"
      by (rule faithful_raises [where w = w])
    ultimately show ?thesis
      by (simp add: raised_value_def proper_external [OF assms])
  next
    case False
    then have "raised_value (fst (consult ev d w env t)) = None"
      and "snd (consult ev d w env t) = t @ [ev]"
      by (auto simp: consult_def raised_value_def split: option.splits reply.splits)
    moreover from False have "quiet w [ev]"
      by (intro quiet_returns assms) simp
    ultimately show ?thesis
      by (simp add: faithful_def proper_external [OF assms])
  qed
qed

lemma sound_settle:
  assumes "\<And>ev d. r = Ask ev d \<Longrightarrow> external ev"
  shows "sound_comp (settle r)"
  using assms
  by (cases r) (simp_all add: settle_def sound_return sound_fail sound_consult)

lemma sound_state:
  assumes "\<And>env t. sound_comp (f env t)"
  shows "sound_comp (\<lambda>w env t. f env t w env t)"
  using assms
  unfolding sound_comp_def by blast

lemma sound_and_then:
  assumes "sound_comp m" and "\<And>v. sound_comp (f v)"
  shows "sound_comp (and_then m f)"
proof (rule sound_compI)
  fix w :: world and env :: env and t :: "event list"
  assume calm: "calm w"
  from sound_compD [OF assms(1) calm] obtain new1 where n1: "snd (m w env t) = t @ new1"
    and f1: "faithful w (proper new1) (raised_value (fst (m w env t)))"
    by blast
  show "\<exists>new. snd (and_then m f w env t) = t @ new
          \<and> faithful w (proper new) (raised_value (fst (and_then m f w env t)))"
  proof (cases "fst (m w env t)")
    case (Inl x)
    then have "fst (and_then m f w env t) = Inl x"
      and "snd (and_then m f w env t) = snd (m w env t)"
      by (cases "m w env t"; simp add: and_then_def)+
    with Inl n1 f1 show ?thesis
      by (simp add: raised_value_def)
  next
    case (Inr v)
    then have eq: "and_then m f w env t = f v w env (t @ new1)"
      using n1 by (cases "m w env t") (simp add: and_then_def)
    from Inr f1 have q: "quiet w (proper new1)"
      by (simp add: faithful_def raised_value_def)
    from sound_compD [OF assms(2) [of v] calm] obtain new2
      where n2: "snd (f v w env (t @ new1)) = (t @ new1) @ new2"
      and f2: "faithful w (proper new2) (raised_value (fst (f v w env (t @ new1))))"
      by blast
    from q f2 have "faithful w (proper (new1 @ new2)) (raised_value (fst (f v w env (t @ new1))))"
      unfolding proper_append by (rule faithful_quiet_append)
    with n2 eq show ?thesis
      by auto
  qed
qed

lemma sound_in_order:
  assumes "\<And>m. m \<in> set ms \<Longrightarrow> sound_comp m"
  shows "sound_comp (in_order ms)"
  using assms
  by (induction ms) (simp_all add: sound_return sound_and_then)

lemma sound_lookup: "sound_comp (lookup_name x)"
  unfolding lookup_name_def by (rule sound_state) (rule sound_lift)

lemma external_getattr: "getattr t v a = Ask ev d \<Longrightarrow> external ev"
  by (auto simp: getattr_def external_def split: val.splits option.splits)

lemma external_computed: "computed r \<noteq> Ask ev d"
  by (simp add: computed_def split: sum.splits)

lemma external_binop: "apply_binop op a b = Ask ev d \<Longrightarrow> external ev"
  by (auto simp: apply_binop_def external_def external_computed split: if_splits binop.splits)

lemma external_compare: "apply_compare op a b = Ask ev d \<Longrightarrow> external ev"
  by (auto simp: apply_compare_def external_def split: if_splits cmpop.splits)

lemma external_negate: "negate v = Ask ev d \<Longrightarrow> external ev"
  by (auto simp: negate_def external_def split: if_splits val.splits)

lemma external_index: "index_val vs v i = Ask ev d \<Longrightarrow> external ev"
  by (auto simp: index_val_def external_def external_computed split: if_splits val.splits)

lemma external_subscript: "subscript v i = Ask ev d \<Longrightarrow> external ev"
  by (auto simp: subscript_def external_def dest: external_index split: if_splits val.splits option.splits)

lemma sound_getattr: "sound_comp (read_attr v a)"
  unfolding read_attr_def by (rule sound_state) (rule sound_settle, erule external_getattr)

lemma sound_do_call: "sound_comp (do_call f args kws)"
proof (rule sound_compI)
  fix w :: world and env :: env and t :: "event list"
  assume calm: "calm w"
  let ?ev = "ECall f args kws"
  have ext: "external ?ev"
    by (simp add: external_def)
  show "\<exists>new. snd (do_call f args kws w env t) = t @ new
          \<and> faithful w (proper new) (raised_value (fst (do_call f args kws w env t)))"
  proof (cases "callable f")
    case False
    then show ?thesis
      by (simp add: do_call_def fail_def faithful_own raised_value_def proper_own)
  next
    case True
    show ?thesis
    proof (cases "\<exists>e. w ?ev = Some (Raises e)")
      case True
      then obtain e where e: "w ?ev = Some (Raises e)"
        by blast
      with \<open>callable f\<close> have "do_call f args kws w env t = (Inl e, t @ [?ev])"
        by (simp add: do_call_def call_def)
      moreover from ext e have "faithful w [?ev] (Some e)"
        by (rule faithful_raises [where w = w])
      ultimately show ?thesis
        by (simp add: raised_value_def proper_external [OF ext])
    next
      case False
      with \<open>callable f\<close> have "raised_value (fst (do_call f args kws w env t)) = None"
        and "snd (do_call f args kws w env t) = t @ [?ev]"
        by (auto simp: do_call_def call_def raised_value_def split: option.splits reply.splits)
      moreover from False have "quiet w [?ev]"
        by (intro quiet_returns ext) simp
      ultimately show ?thesis
        by (simp add: faithful_def proper_external [OF ext])
    qed
  qed
qed

lemma sound_truth: "sound_comp (truth_of v)"
  by (simp add: truth_of_def sound_return sound_and_then sound_consult external_def)

lemma sound_unaryop: "sound_comp (apply_unaryop op v)"
  by (cases op)
    (auto simp: apply_unaryop_def intro!: sound_and_then sound_truth sound_return sound_settle
      dest: external_negate)

lemma sound_eval:
  "sound_comp (eval_expr e)" "sound_comp (eval_keyword k)" "sound_comp (eval_fpart p)"
  "sound_comp (eval_item i)"
  by (induction e and k and p and i)
    (auto intro!: sound_and_then sound_in_order sound_return sound_lookup sound_getattr
      sound_do_call sound_unaryop sound_settle sound_consult
      simp: named_def paired_def external_def
      dest: external_binop external_compare external_subscript)

subsection \<open>Statements\<close>

lemma sound_skip: "sound_action skip"
  by (simp add: sound_action_def skip_def faithful_Nil proper_Nil)

lemma sound_raise: "sound_action (raise ex)"
  by (simp add: sound_action_def raise_def faithful_own raised_outcome_def proper_own)

lemma sound_assign: "sound_action (assign x v)"
  by (simp add: sound_action_def assign_def faithful_Nil proper_Nil)

lemma sound_unmodelled: "sound_action unmodelled"
  by (simp add: sound_action_def unmodelled_def faithful_Nil proper_Nil)

lemma sound_then:
  assumes "sound_action a" and "sound_action b"
  shows "sound_action (\<lambda>w st. case a w st of (Done, st1) \<Rightarrow> b w st1 | r \<Rightarrow> r)"
proof (rule sound_actionI)
  fix w :: world and env :: env and t :: "event list"
  assume calm: "calm w"
  let ?c = "\<lambda>w st. case a w st of (Done, st1) \<Rightarrow> b w st1 | r \<Rightarrow> r"
  obtain out env1 t1 where r: "a w (env, t) = (out, env1, t1)"
    by (cases "a w (env, t)")
  from sound_actionD [OF assms(1) calm, of env t] r obtain new1 where n1: "t1 = t @ new1"
    and f1: "faithful w (proper new1) (raised_outcome out)"
    by auto
  show "\<exists>new. snd (snd (?c w (env, t))) = t @ new
          \<and> faithful w (proper new) (raised_outcome (fst (?c w (env, t))))"
  proof (cases out)
    case Done
    with f1 have q: "quiet w (proper new1)"
      by (simp add: faithful_def raised_outcome_def)
    from sound_actionD [OF assms(2) calm] obtain new2
      where n2: "snd (snd (b w (env1, t1))) = t1 @ new2"
      and f2: "faithful w (proper new2) (raised_outcome (fst (b w (env1, t1))))"
      by blast
    from q f2 have "faithful w (proper (new1 @ new2)) (raised_outcome (fst (b w (env1, t1))))"
      unfolding proper_append by (rule faithful_quiet_append)
    with Done r n1 n2 show ?thesis
      by auto
  next
    case (Raised x)
    with r n1 f1 show ?thesis
      by auto
  next
    case Unmodelled
    with r n1 f1 show ?thesis
      by auto
  qed
qed

lemma sound_block:
  assumes "\<And>a. a \<in> set as \<Longrightarrow> sound_action a"
  shows "sound_action (block as)"
  using assms
proof (induction as)
  case Nil
  then show ?case
    using sound_skip by (simp add: skip_def)
next
  case (Cons a as)
  then have "sound_action a" and "sound_action (block as)"
    by simp_all
  then show ?case
    using sound_then [of a "block as"] by simp
qed

lemma sound_with_value:
  assumes "sound_comp m" and "\<And>v. sound_action (k v)"
  shows "sound_action (with_value m k)"
proof (rule sound_actionI)
  fix w :: world and env :: env and t :: "event list"
  assume calm: "calm w"
  from sound_compD [OF assms(1) calm] obtain new1 where n1: "snd (m w env t) = t @ new1"
    and f1: "faithful w (proper new1) (raised_value (fst (m w env t)))"
    by blast
  show "\<exists>new. snd (snd (with_value m k w (env, t))) = t @ new
          \<and> faithful w (proper new) (raised_outcome (fst (with_value m k w (env, t))))"
  proof (cases "fst (m w env t)")
    case (Inl x)
    then have "with_value m k w (env, t) = (Raised x, env, t @ new1)"
      using n1 by (cases "m w env t") (simp add: with_value_def)
    with Inl f1 show ?thesis
      by (simp add: raised_value_def raised_outcome_def)
  next
    case (Inr v)
    then have eq: "with_value m k w (env, t) = k v w (env, t @ new1)"
      using n1 by (cases "m w env t") (simp add: with_value_def)
    from Inr f1 have q: "quiet w (proper new1)"
      by (simp add: faithful_def raised_value_def)
    from sound_actionD [OF assms(2) [of v] calm] obtain new2
      where n2: "snd (snd (k v w (env, t @ new1))) = (t @ new1) @ new2"
      and f2: "faithful w (proper new2) (raised_outcome (fst (k v w (env, t @ new1))))"
      by blast
    from q f2
    have "faithful w (proper (new1 @ new2)) (raised_outcome (fst (k v w (env, t @ new1))))"
      unfolding proper_append by (rule faithful_quiet_append)
    with n2 eq show ?thesis
      by auto
  qed
qed

lemma sound_ask:
  assumes "sound_action k" and ext: "external ev"
  shows "sound_action (ask ev k)"
proof (rule sound_actionI)
  fix w :: world and env :: env and t :: "event list"
  assume calm: "calm w"
  show "\<exists>new. snd (snd (ask ev k w (env, t))) = t @ new
          \<and> faithful w (proper new) (raised_outcome (fst (ask ev k w (env, t))))"
  proof (cases "\<exists>e. w ev = Some (Raises e)")
    case True
    then obtain e where e: "w ev = Some (Raises e)"
      by blast
    then have "ask ev k w (env, t) = (Raised e, env, t @ [ev])"
      by (simp add: ask_def)
    moreover from ext e have "faithful w [ev] (Some e)"
      by (rule faithful_raises [where w = w])
    ultimately show ?thesis
      by (auto simp: raised_outcome_def proper_external [OF ext])
  next
    case False
    then have eq: "ask ev k w (env, t) = k w (env, t @ [ev])"
      by (auto simp: ask_def split: option.splits reply.splits)
    from False have q: "quiet w [ev]"
      by (intro quiet_returns ext) simp
    from sound_actionD [OF assms(1) calm] obtain new2
      where n2: "snd (snd (k w (env, t @ [ev]))) = (t @ [ev]) @ new2"
      and f2: "faithful w (proper new2) (raised_outcome (fst (k w (env, t @ [ev]))))"
      by blast
    from q f2 have "faithful w ([ev] @ proper new2) (raised_outcome (fst (k w (env, t @ [ev]))))"
      by (rule faithful_quiet_append)
    then have "faithful w (proper ([ev] @ new2)) (raised_outcome (fst (k w (env, t @ [ev]))))"
      by (simp only: proper_append proper_external [OF ext])
    with n2 eq show ?thesis
      by auto
  qed
qed

lemma sound_for_items:
  assumes "sound_action body"
  shows "sound_action (for_items body xs vs)"
proof (induction vs)
  case Nil
  then show ?case
    by (simp add: sound_skip)
next
  case (Cons v vs)
  show ?case
  proof (rule sound_actionI)
    fix w :: world and env :: env and t :: "event list"
    assume calm: "calm w"
    show "\<exists>new. snd (snd (for_items body xs (v # vs) w (env, t))) = t @ new
            \<and> faithful w (proper new) (raised_outcome (fst (for_items body xs (v # vs) w (env, t))))"
    proof (cases "bind_targets xs v env")
      case None
      then show ?thesis
        by (simp add: raise_def faithful_own raised_outcome_def proper_own)
    next
      case (Some env1)
      let ?c = "\<lambda>w st. case body w st of (Done, st1) \<Rightarrow> for_items body xs vs w st1 | r \<Rightarrow> r"
      from Some have "for_items body xs (v # vs) w (env, t) = ?c w (env1, t)"
        by simp
      moreover from sound_actionD [OF sound_then [OF assms Cons] calm]
      have "\<exists>new. snd (snd (?c w (env1, t))) = t @ new
              \<and> faithful w (proper new) (raised_outcome (fst (?c w (env1, t))))"
        by blast
      ultimately show ?thesis
        by simp
    qed
  qed
qed

lemma sound_over_items: "sound_action body \<Longrightarrow> sound_action (over_items xs v body)"
  by (cases v) (simp_all add: over_items_def sound_for_items sound_unmodelled)

lemma sound_for_loop: "sound_action body \<Longrightarrow> sound_action (for_loop xs v body)"
  by (cases v)
    (simp_all add: for_loop_def sound_for_items sound_with_value sound_consult sound_over_items
      external_def)

text \<open>
  Leaving a \<open>with\<close> block in a calm world: an exception of the body is passed on, and the
  exit made on it is no operation proper.
\<close>

lemma sound_leaving:
  assumes "sound_action body"
  shows "sound_action (leaving v body)"
proof (rule sound_actionI)
  fix w :: world and env :: env and t :: "event list"
  assume calm: "calm w"
  obtain out env1 t1 where r: "body w (env, t) = (out, env1, t1)"
    by (cases "body w (env, t)")
  from sound_actionD [OF assms calm, of env t] r obtain new1 where n1: "t1 = t @ new1"
    and f1: "faithful w (proper new1) (raised_outcome out)"
    by auto
  show "\<exists>new. snd (snd (leaving v body w (env, t))) = t @ new
          \<and> faithful w (proper new) (raised_outcome (fst (leaving v body w (env, t))))"
  proof (cases out)
    case Done
    have "sound_action (ask (EExit v None) skip)"
      by (intro sound_ask sound_skip) (simp add: external_def)
    from sound_actionD [OF this calm] obtain new2
      where n2: "snd (snd (ask (EExit v None) skip w (env1, t1))) = t1 @ new2"
      and f2: "faithful w (proper new2) (raised_outcome (fst (ask (EExit v None) skip w (env1, t1))))"
      by blast
    from Done f1 have q: "quiet w (proper new1)"
      by (simp add: faithful_def raised_outcome_def)
    from q f2
    have "faithful w (proper (new1 @ new2))
        (raised_outcome (fst (ask (EExit v None) skip w (env1, t1))))"
      unfolding proper_append by (rule faithful_quiet_append)
    moreover from Done r have "leaving v body w (env, t) = ask (EExit v None) skip w (env1, t1)"
      by (simp add: leaving_def)
    ultimately show ?thesis
      using n1 n2 by auto
  next
    case (Raised ex)
    from calm have "passes_on w (EExit v (Some ex))"
      by (simp add: calm_def)
    with Raised r have "leaving v body w (env, t) = (Raised ex, env1, t1 @ [EExit v (Some ex)])"
      by (auto simp: leaving_def unwind_def passes_on_def split: option.splits reply.splits)
    moreover from Raised f1 have "faithful w (proper (new1 @ [EExit v (Some ex)])) (Some ex)"
      by (simp add: proper_append proper_unwinding raised_outcome_def)
    ultimately show ?thesis
      using n1 by (auto simp: raised_outcome_def)
  next
    case Unmodelled
    with r have "leaving v body w (env, t) = (Unmodelled, env1, t1)"
      by (simp add: leaving_def)
    with Unmodelled f1 n1 show ?thesis
      by auto
  qed
qed

lemma sound_body:
  assumes "\<And>s. s \<in> set body \<Longrightarrow> no_try s \<Longrightarrow> sound_action (exec s)"
    and "list_all (\<lambda>b. b) (map no_try body)"
  shows "sound_action (block (map exec body))"
proof (rule sound_block)
  fix a
  assume "a \<in> set (map exec body)"
  then obtain s where "s \<in> set body" and "a = exec s"
    by auto
  with assms show "sound_action a"
    by (auto simp: list_all_iff)
qed

lemma sound_exec: "no_try s \<Longrightarrow> sound_action (exec s)"
proof (induction s)
  case (Import m asname)
  show ?case
    by (simp only: exec.simps) (intro sound_ask sound_assign, simp add: external_def)
next
  case (ImportFrom m names)
  have "sound_action (block (map (\<lambda>n. assign n (VGlobal (m @ ''.'' @ n))) names))"
    by (rule sound_block) (auto simp: sound_assign)
  then show ?case
    by (simp only: exec.simps) (rule sound_ask, simp_all add: external_def)
next
  case (Assign x e)
  show ?case
    by (simp only: exec.simps) (intro sound_with_value sound_eval sound_assign)
next
  case (AnnAssign x ann e)
  have "sound_action (block [assign x v, with_value (eval_expr ann) (\<lambda>_. skip)])" for v
  proof (rule sound_block)
    fix a
    assume "a \<in> set [assign x v, with_value (eval_expr ann) (\<lambda>_. skip)]"
    then consider "a = assign x v" | "a = with_value (eval_expr ann) (\<lambda>_. skip)"
      by auto
    then show "sound_action a"
      by cases (simp_all add: sound_assign sound_with_value sound_eval sound_skip)
  qed
  then show ?case
    by (simp only: exec.simps) (intro sound_with_value sound_eval)
next
  case (ExprStmt e)
  show ?case
    by (simp only: exec.simps) (intro sound_with_value sound_eval sound_skip)
next
  case (Assert e)
  have "sound_action (if b then skip else raise AssertionError)" for b
    by (simp add: sound_skip sound_raise)
  then show ?case
    by (simp only: exec.simps) (intro sound_with_value sound_and_then sound_eval sound_truth)
next
  case (Try body cls handler)
  then show ?case
    by simp
next
  case (IfStmt c body)
  then have "sound_action (block (map exec body))"
    by (intro sound_body) simp_all
  then have "sound_action (if b then block (map exec body) else skip)" for b
    by (simp add: sound_skip)
  then show ?case
    by (simp only: exec.simps) (intro sound_with_value sound_and_then sound_eval sound_truth)
next
  case (With e x body)
  then have body: "sound_action (block (map exec body))"
    by (intro sound_body) simp_all
  have "sound_action (block [assign x m, block (map exec body)])" for m
  proof (rule sound_block)
    fix a
    assume "a \<in> set [assign x m, block (map exec body)]"
    then consider "a = assign x m" | "a = block (map exec body)"
      by auto
    then show "sound_action a"
      by cases (simp_all add: sound_assign body)
  qed
  then have "sound_action (leaving v (block [assign x m, block (map exec body)]))" for v m
    by (rule sound_leaving)
  then have inner: "sound_action
      (with_value (consult (EEnter v) v)
         (\<lambda>m. leaving v (block [assign x m, block (map exec body)])))" for v
    by (intro sound_with_value sound_consult) (simp add: external_def)
  show ?case
    by (simp only: exec.simps) (rule sound_with_value, rule sound_eval, rule inner)
next
  case (For xs e body)
  then have "sound_action (block (map exec body))"
    by (intro sound_body) simp_all
  then have "sound_action (for_loop xs v (block (map exec body)))" for v
    by (rule sound_for_loop)
  then show ?case
    by (simp only: exec.simps) (intro sound_with_value sound_eval)
next
  case (FunctionDef f xs body)
  show ?case
    by (simp only: exec.simps) (rule sound_assign)
next
  case (Magic m)
  show ?case
    by (simp only: exec.simps) (intro sound_ask sound_skip, simp add: external_def)
next
  case (Comment c)
  show ?case
    by (simp only: exec.simps) (rule sound_skip)
qed

text \<open>
  The setup cell: an \<open>ImportError\<close> of the import of \<open>recirq\<close> is caught, and the handler
  installs the package; an exception of the handler propagates.
\<close>

lemma sound_setup:
  "sound_action (exec (Try [Import ''recirq'' None] ''ImportError'' [Magic m]))"
  by (auto simp: sound_action_def try_except_def ask_def assign_def skip_def faithful_def
      quiet_def raising_def raised_def handled_def raised_outcome_def proper_def is_unwinding_def
      split: option.splits reply.splits)

subsection \<open>The notebooks\<close>

lemma sound_cell:
  assumes "cell_statements c = [Try [Import ''recirq'' None] ''ImportError'' [Magic m]]
           \<or> list_all no_try (cell_statements c)"
  shows "sound_action (exec_cell c)"
  unfolding exec_cell_def
proof (rule sound_block)
  fix a
  assume "a \<in> set (map exec (cell_statements c))"
  then obtain s where s: "s \<in> set (cell_statements c)" and a: "a = exec s"
    by auto
  from assms show "sound_action a"
  proof
    assume "cell_statements c = [Try [Import ''recirq'' None] ''ImportError'' [Magic m]]"
    with s have "s = Try [Import ''recirq'' None] ''ImportError'' [Magic m]"
      by simp
    then show ?thesis
      by (simp only: a sound_setup)
  next
    assume "list_all no_try (cell_statements c)"
    with s have "no_try s"
      by (simp add: list_all_iff)
    then show ?thesis
      by (simp only: a sound_exec)
  qed
qed

lemma cells_guarded:
  "list_all (\<lambda>c. cell_statements c =
                   [Try [Import ''recirq'' None] ''ImportError''
                      [Magic ''%pip install git+https://github.com/quantumlib/ReCirq'']]
                 \<or> list_all no_try (cell_statements c)) high_level"
  "list_all (\<lambda>c. cell_statements c =
                   [Try [Import ''recirq'' None] ''ImportError''
                      [Magic ''%pip install git+https://github.com/quantumlib/ReCirq'']]
                 \<or> list_all no_try (cell_statements c)) full_workflow"
  by code_simp+

lemma sound_notebook:
  assumes "nb = high_level \<or> nb = full_workflow"
  shows "sound_action (block (map exec_cell nb))"
proof (rule sound_block)
  fix a
  assume "a \<in> set (map exec_cell nb)"
  then obtain c where "c \<in> set nb" and a: "a = exec_cell c"
    by auto
  with assms cells_guarded
  have "cell_statements c =
          [Try [Import ''recirq'' None] ''ImportError''
             [Magic ''%pip install git+https://github.com/quantumlib/ReCirq'']]
        \<or> list_all no_try (cell_statements c)"
    by (auto simp: list_all_iff)
  then show "sound_action a"
    unfolding a by (rule sound_cell)
qed

subsection \<open>The setup cell\<close>

text \<open>
  Both notebooks open with two markdown cells and the setup cell. What the setup cell
  does, in any world: the import of \<open>recirq\<close> is the first operation; when it raises an
  exception that \<open>except ImportError\<close> catches, the handler runs the \<open>%pip install\<close> magic
  (and an exception of that magic propagates); when it raises any other exception, the
  cell ends with it.
\<close>

lemma try_setup:
  "exec (Try [Import ''recirq'' None] ''ImportError'' [Magic m]) w ([], []) =
     (case w (EImport ''recirq'') of
        Some (Raises e) \<Rightarrow>
          if catches ''ImportError'' e
          then (case w (EMagic m) of
                  Some (Raises e') \<Rightarrow> (Raised e', [], [EImport ''recirq'', EMagic m])
                | _ \<Rightarrow> (Done, [], [EImport ''recirq'', EMagic m]))
          else (Raised e, [], [EImport ''recirq''])
      | _ \<Rightarrow> (Done, [(''recirq'', VGlobal ''recirq'')], [EImport ''recirq'']))"
  by (simp add: try_except_def ask_def assign_def skip_def import_binding_def bind_name_def
      split: option.splits reply.splits)

lemma setup_first:
  "take 3 high_level =
     [high_level_cell_0, high_level_cell_1,
      Code [Try [Import ''recirq'' None] ''ImportError''
              [Magic ''%pip install git+https://github.com/quantumlib/ReCirq'']]]"
  "take 3 full_workflow =
     [full_workflow_cell_0, full_workflow_cell_1,
      Code [Try [Import ''recirq'' None] ''ImportError''
              [Magic ''%pip install git+https://github.com/quantumlib/ReCirq'']]]"
  by (simp_all add: high_level_def high_level_cell_2_def full_workflow_def full_workflow_cell_2_def)

lemma setup_run:
  assumes "nb = high_level \<or> nb = full_workflow"
  shows "run w nb =
     (case exec (Try [Import ''recirq'' None] ''ImportError''
                   [Magic ''%pip install git+https://github.com/quantumlib/ReCirq'']) w ([], []) of
        (Done, st1) \<Rightarrow> block (map exec_cell (drop 3 nb)) w st1
      | r \<Rightarrow> r)"
proof -
  let ?first = "exec (Try [Import ''recirq'' None] ''ImportError''
                   [Magic ''%pip install git+https://github.com/quantumlib/ReCirq''])"
  have "nb = take 3 nb @ drop 3 nb"
    by simp
  then have "run w nb = block (map exec_cell (take 3 nb) @ map exec_cell (drop 3 nb)) w ([], [])"
    unfolding run_def by (metis map_append)
  also have "\<dots> = (case block (map exec_cell (take 3 nb)) w ([], []) of
                      (Done, st1) \<Rightarrow> block (map exec_cell (drop 3 nb)) w st1
                    | r \<Rightarrow> r)"
    by (rule block_append)
  also from assms have "block (map exec_cell (take 3 nb)) w ([], []) = ?first w ([], [])"
    by (auto simp only: setup_first list.map exec_cell_def cell_statements_def cell.case
        high_level_cell_0_def high_level_cell_1_def full_workflow_cell_0_def
        full_workflow_cell_1_def block.simps prod.case outcome.case
        split: prod.splits outcome.splits)
  finally show ?thesis .
qed

lemma setup_operations:
  assumes "nb = high_level \<or> nb = full_workflow"
  shows "take 1 (operations (run w nb)) = [EImport ''recirq'']"
    and "w (EImport ''recirq'') = Some (Raises e) \<Longrightarrow> catches ''ImportError'' e \<Longrightarrow>
         take 2 (operations (run w nb)) =
           [EImport ''recirq'', EMagic ''%pip install git+https://github.com/quantumlib/ReCirq'']"
    and "w (EImport ''recirq'') = Some (Raises e) \<Longrightarrow> \<not> catches ''ImportError'' e \<Longrightarrow>
         run w nb = (Raised e, [], [EImport ''recirq''])"
proof -
  let ?m = "''%pip install git+https://github.com/quantumlib/ReCirq''"
  have rest: "\<exists>new. snd (snd (block (map exec_cell (drop 3 nb)) w (env, t))) = t @ new" for env t
    using frame_notebook [of "drop 3 nb"] unfolding frame_action_def by blast
  show "take 1 (operations (run w nb)) = [EImport ''recirq'']"
    unfolding setup_run [OF assms] try_setup
    using rest [of "[(''recirq'', VGlobal ''recirq'')]" "[EImport ''recirq'']"]
      rest [of "[]" "[EImport ''recirq'', EMagic ?m]"]
    by (auto simp: operations_def split: option.splits reply.splits)
  show "take 2 (operations (run w nb)) = [EImport ''recirq'', EMagic ?m]"
    if "w (EImport ''recirq'') = Some (Raises e)" and "catches ''ImportError'' e"
    unfolding setup_run [OF assms] try_setup
    using that rest [of "[]" "[EImport ''recirq'', EMagic ?m]"]
    by (auto simp: operations_def split: option.splits reply.splits)
  show "run w nb = (Raised e, [], [EImport ''recirq''])"
    if "w (EImport ''recirq'') = Some (Raises e)" and "\<not> catches ''ImportError'' e"
    unfolding setup_run [OF assms] try_setup
    using that by simp
qed

subsection \<open>The bodies of the functions\<close>

lemma bodies_without_try:
  "list_all (list_all no_try) (function_bodies high_level @ function_bodies full_workflow)"
  by code_simp

lemma sound_function_body:
  assumes "body \<in> set (function_bodies high_level @ function_bodies full_workflow)"
  shows "sound_action (block (map exec body))"
proof (rule sound_block)
  fix a
  assume "a \<in> set (map exec body)"
  then obtain s where "s \<in> set body" and a: "a = exec s"
    by auto
  with assms bodies_without_try have "no_try s"
    unfolding list_all_iff by blast
  then show "sound_action a"
    unfolding a by (rule sound_exec)
qed

lemma calm_raising_world: "\<not> is_unwinding ev \<Longrightarrow> calm (raising_world ev e)"
  by (auto simp: calm_def passes_on_def raising_world_def is_unwinding_def)

lemma raised_proper:
  assumes "calm w" and "raised w ev = Some e"
  shows "\<not> is_unwinding ev"
proof
  assume "is_unwinding ev"
  then obtain v x where ev: "ev = EExit v (Some x)"
    by (cases ev) (auto simp: is_unwinding_def)
  with assms(1) have "passes_on w ev"
    by (simp add: calm_def)
  with ev have "raised w ev = None"
    by (auto simp: raised_def passes_on_def split: option.splits reply.splits)
  with assms(2) show False
    by simp
qed

lemma propagates:
  assumes "sound_action a" and "calm w" and "ev \<in> set (added t (a w (env, t)))"
    and "raised w ev = Some e" and "\<not> handled ev e"
  shows "status (a w (env, t)) = Raised e \<and> last (proper (added t (a w (env, t)))) = ev"
proof -
  from sound_actionD [OF assms(1,2)] obtain new
    where n: "snd (snd (a w (env, t))) = t @ new"
      and f: "faithful w (proper new) (raised_outcome (fst (a w (env, t))))"
    by blast
  from n have new: "added t (a w (env, t)) = new"
    by (simp add: added_def operations_def)
  with assms(3) raised_proper [OF assms(2,4)] have "ev \<in> set (proper new)"
    by (simp add: proper_def)
  from faithful_raise [OF f this assms(4,5)]
  have "raised_outcome (fst (a w (env, t))) = Some e" and "last (proper new) = ev"
    by simp_all
  then show ?thesis
    unfolding new by (simp add: status_def raised_outcome_def split: outcome.splits)
qed

text \<open>
  C3 (as stated): no exception is caught and recovered from, and there is no branching in
  the code cells. The first code cell of both notebooks is
  \<open>try: import recirq / except ImportError: %pip install ...\<close>: when the import raises
  \<open>ImportError\<close>, the exception is caught, the package is installed and the notebook runs
  to its end. The end-to-end notebook also branches, on \<open>if not ipie_path.is_dir()\<close>.
\<close>

theorem import_error_recovered_counterexample:
  "raising_world (EImport ''recirq'') ImportError (EImport ''recirq'') = Some (Raises ImportError)
   \<and> status (run (raising_world (EImport ''recirq'') ImportError) high_level) = Done
   \<and> take 3 (events (run (raising_world (EImport ''recirq'') ImportError) high_level)) =
       [EImport ''recirq'', EMagic ''%pip install git+https://github.com/quantumlib/ReCirq'', EImport ''attrs'']
   \<and> length (events (run (raising_world (EImport ''recirq'') ImportError) high_level)) = 30
   \<and> filter is_try (statements full_workflow) =
       [Try [Import ''recirq'' None] ''ImportError''
          [Magic ''%pip install git+https://github.com/quantumlib/ReCirq'']]
   \<and> filter is_if (statements full_workflow) =
       [IfStmt (UnaryOp UNot (Call (Attribute (Name ''ipie_path'') ''is_dir'') [] []))
          [ExprStmt (Call (Attribute (Name ''ipie_path'') ''mkdir'') [] [Keyword ''parents'' (BoolLit True)])]]"
proof -
  have "case run (raising_world (EImport ''recirq'') ImportError) high_level of
      (out, env, t) \<Rightarrow>
        out = Done
        \<and> take 3 (filter is_major t) =
            [EImport ''recirq'', EMagic ''%pip install git+https://github.com/quantumlib/ReCirq'',
             EImport ''attrs'']
        \<and> length (filter is_major t) = 30"
    by code_simp
  moreover have "raising_world (EImport ''recirq'') ImportError (EImport ''recirq'') = Some (Raises ImportError)"
    by (simp add: raising_world_def)
  moreover have "filter is_try (statements full_workflow) =
       [Try [Import ''recirq'' None] ''ImportError''
          [Magic ''%pip install git+https://github.com/quantumlib/ReCirq'']]
   \<and> filter is_if (statements full_workflow) =
       [IfStmt (UnaryOp UNot (Call (Attribute (Name ''ipie_path'') ''is_dir'') [] []))
          [ExprStmt (Call (Attribute (Name ''ipie_path'') ''mkdir'') [] [Keyword ''parents'' (BoolLit True)])]]"
    by code_simp
  ultimately show ?thesis
    by (simp add: status_def events_def operations_def split: prod.splits)
qed

text \<open>
  C3 (amended). The control flow of the code cells, in full: the only exception handler
  of the two notebooks is the \<open>try\<close> of their setup cell,
  \<open>try: import recirq / except ImportError: %pip install ...\<close>; the only conditional
  statement is \<open>if not ipie_path.is_dir(): ipie_path.mkdir(parents=True)\<close> of the
  end-to-end notebook; the only loop statement is the \<open>for\<close> of the helper \<open>print_fields\<close>
  of the code-layout notebook; besides, the end-to-end notebook has three \<open>assert\<close>
  statements and each notebook has one generator expression (the argument of a call of
  \<open>tuple\<close>). The syntax of the notebooks has no other conditional, loop or handler.

  The handler catches the instances of \<open>ImportError\<close> and of its subclasses (such as
  \<open>ModuleNotFoundError\<close>) that \<open>import recirq\<close> raises, and nothing else: then the
  \<open>%pip install\<close> magic is the next operation. Every other exception propagates, whatever
  raises it: a call, an import, a magic, the read of an attribute or of an item of an
  external object, an operator or a formatting applied to one, its truth test, its
  iteration, entering or leaving a \<open>with\<close> block, or an operation of the notebook itself
  (a failed assertion, an index out of range, an unbound name, ...). Such an exception
  ends the run: the run ends with it, and the operation that raised it is the last
  operation proper of the run, followed at most by the exit of the \<open>with\<close> block it was
  raised in; there is no retry. This is so in every calm world, that is, as long as
  leaving the \<open>with\<close> block (the HDF5 file) on an exception neither suppresses nor
  replaces that exception, which is up to the context manager and not to the notebook.
  The same holds inside the body of the function the notebooks define (\<open>print_fields\<close>,
  whose calls are single events of a run): in any state, an exception raised by one of
  its operations ends the body with that exception.
\<close>

theorem exceptions_propagate:
  "filter is_try (statements high_level) =
     [Try [Import ''recirq'' None] ''ImportError''
        [Magic ''%pip install git+https://github.com/quantumlib/ReCirq'']]
   \<and> filter is_try (statements full_workflow) = filter is_try (statements high_level)
   \<and> filter is_if (statements high_level) = []
   \<and> filter is_if (statements full_workflow) =
     [IfStmt (UnaryOp UNot (Call (Attribute (Name ''ipie_path'') ''is_dir'') [] []))
        [ExprStmt (Call (Attribute (Name ''ipie_path'') ''mkdir'') [] [Keyword ''parents'' (BoolLit True)])]]
   \<and> filter is_for (statements high_level) =
     [For [''k'', ''v''] (Call (Attribute (Call (Attribute (Name ''attrs'') ''asdict'') [Name ''x''] []) ''items'') [] [])
        [ExprStmt (Call (Name ''print'')
           [JoinedStr [FValue (Name ''k''), FText '': '', FValue (Call (Name ''type'') [Name ''v''] [])]] [])]]
   \<and> filter is_for (statements full_workflow) = []
   \<and> filter is_assert (statements high_level) = []
   \<and> filter is_assert (statements full_workflow) =
     [Assert (Compare (Attribute (Attribute (Name ''ham'') ''H1'') ''shape'') CmpEq
                (Tuple [IntLit 2, Attribute (Name ''pyscf_params'') ''n_orb'',
                        Attribute (Name ''pyscf_params'') ''n_orb''])),
      Assert (Compare (Subscript (Attribute (Attribute (Name ''ham'') ''chol'') ''shape'') (IntLit 0)) CmpEq
                (BinOp (Attribute (Name ''pyscf_params'') ''n_orb'') Mult
                       (Attribute (Name ''pyscf_params'') ''n_orb''))),
      Assert (Call (Attribute (Name ''np'') ''isclose'')
                [Attribute (Attribute (Name ''wfn'') ''energy'') ''real'',
                 Attribute (Name ''ipie_data'') ''variational_energy''] [])]
   \<and> generators high_level = [GeneratorExp (Tuple [Name ''q'']) ''q'' (Name ''qubits'')]
   \<and> generators full_workflow =
     [GeneratorExp (Name ''qubit'') ''qubit'' (Attribute (Name ''pp_params'') ''qubits_jordan_wigner_ordered'')]
   \<and> catches ''ImportError'' ImportError \<and> catches ''ImportError'' ModuleNotFoundError
   \<and> catches ''ImportError'' (OtherError name bases) = (name = ''ImportError'' \<or> ''ImportError'' \<in> set bases)
   \<and> filter (catches ''ImportError'')
        [AssertionError, AttributeError, IndexError, KeyError, NameError, TypeError, ZeroDivisionError] = []
   \<and> take 1 (operations (run w high_level)) = [EImport ''recirq'']
   \<and> take 1 (operations (run w full_workflow)) = [EImport ''recirq'']
   \<and> ((nb = high_level \<or> nb = full_workflow)
        \<and> w (EImport ''recirq'') = Some (Raises e) \<and> catches ''ImportError'' e
       \<longrightarrow> take 2 (operations (run w nb)) =
             [EImport ''recirq'', EMagic ''%pip install git+https://github.com/quantumlib/ReCirq''])
   \<and> ((nb = high_level \<or> nb = full_workflow) \<and> calm w \<and> ev \<in> set (operations (run w nb))
        \<and> raised w ev = Some e \<and> \<not> (ev = EImport ''recirq'' \<and> catches ''ImportError'' e)
       \<longrightarrow> status (run w nb) = Raised e \<and> last (proper (operations (run w nb))) = ev)
   \<and> (body \<in> set (function_bodies high_level @ function_bodies full_workflow) \<and> calm w
        \<and> ev \<in> set (added t (block (map exec body) w (env, t)))
        \<and> raised w ev = Some e \<and> \<not> (ev = EImport ''recirq'' \<and> catches ''ImportError'' e)
       \<longrightarrow> status (block (map exec body) w (env, t)) = Raised e
           \<and> last (proper (added t (block (map exec body) w (env, t)))) = ev)"
proof -
  have source: "filter is_try (statements high_level) =
     [Try [Import ''recirq'' None] ''ImportError''
        [Magic ''%pip install git+https://github.com/quantumlib/ReCirq'']]
   \<and> filter is_try (statements full_workflow) = filter is_try (statements high_level)
   \<and> filter is_if (statements high_level) = []
   \<and> filter is_if (statements full_workflow) =
     [IfStmt (UnaryOp UNot (Call (Attribute (Name ''ipie_path'') ''is_dir'') [] []))
        [ExprStmt (Call (Attribute (Name ''ipie_path'') ''mkdir'') [] [Keyword ''parents'' (BoolLit True)])]]
   \<and> filter is_for (statements high_level) =
     [For [''k'', ''v''] (Call (Attribute (Call (Attribute (Name ''attrs'') ''asdict'') [Name ''x''] []) ''items'') [] [])
        [ExprStmt (Call (Name ''print'')
           [JoinedStr [FValue (Name ''k''), FText '': '', FValue (Call (Name ''type'') [Name ''v''] [])]] [])]]
   \<and> filter is_for (statements full_workflow) = []
   \<and> filter is_assert (statements high_level) = []
   \<and> filter is_assert (statements full_workflow) =
     [Assert (Compare (Attribute (Attribute (Name ''ham'') ''H1'') ''shape'') CmpEq
                (Tuple [IntLit 2, Attribute (Name ''pyscf_params'') ''n_orb'',
                        Attribute (Name ''pyscf_params'') ''n_orb''])),
      Assert (Compare (Subscript (Attribute (Attribute (Name ''ham'') ''chol'') ''shape'') (IntLit 0)) CmpEq
                (BinOp (Attribute (Name ''pyscf_params'') ''n_orb'') Mult
                       (Attribute (Name ''pyscf_params'') ''n_orb''))),
      Assert (Call (Attribute (Name ''np'') ''isclose'')
                [Attribute (Attribute (Name ''wfn'') ''energy'') ''real'',
                 Attribute (Name ''ipie_data'') ''variational_energy''] [])]
   \<and> generators high_level = [GeneratorExp (Tuple [Name ''q'']) ''q'' (Name ''qubits'')]
   \<and> generators full_workflow =
     [GeneratorExp (Name ''qubit'') ''qubit'' (Attribute (Name ''pp_params'') ''qubits_jordan_wigner_ordered'')]"
    by code_simp
  have handler: "catches ''ImportError'' ImportError \<and> catches ''ImportError'' ModuleNotFoundError
   \<and> catches ''ImportError'' (OtherError name bases) = (name = ''ImportError'' \<or> ''ImportError'' \<in> set bases)
   \<and> filter (catches ''ImportError'')
        [AssertionError, AttributeError, IndexError, KeyError, NameError, TypeError, ZeroDivisionError] = []"
    by (auto simp: catches_def exn_name_def base_classes_def)
  have first: "take 1 (operations (run w high_level)) = [EImport ''recirq'']
   \<and> take 1 (operations (run w full_workflow)) = [EImport ''recirq'']"
    using setup_operations(1) [of high_level w] setup_operations(1) [of full_workflow w]
    by simp
  have install: "take 2 (operations (run w nb)) =
        [EImport ''recirq'', EMagic ''%pip install git+https://github.com/quantumlib/ReCirq'']"
    if "nb = high_level \<or> nb = full_workflow" and "w (EImport ''recirq'') = Some (Raises e)"
      and "catches ''ImportError'' e"
    using that by (rule setup_operations(2))
  have runs: "status (run w nb) = Raised e \<and> last (proper (operations (run w nb))) = ev"
    if nb: "nb = high_level \<or> nb = full_workflow" and calm: "calm w"
      and ev: "ev \<in> set (operations (run w nb))"
      and e: "raised w ev = Some e" and g: "\<not> (ev = EImport ''recirq'' \<and> catches ''ImportError'' e)"
  proof -
    have all: "added [] (run w nb) = operations (run w nb)"
      by (simp add: added_def)
    from ev have "ev \<in> set (added [] (block (map exec_cell nb) w ([], [])))"
      by (simp add: added_def run_def)
    moreover from g have "\<not> handled ev e"
      by (simp add: handled_def)
    ultimately have "status (block (map exec_cell nb) w ([], [])) = Raised e
        \<and> last (proper (added [] (block (map exec_cell nb) w ([], [])))) = ev"
      using e by (intro propagates sound_notebook nb calm)
    then show ?thesis
      using all by (simp add: run_def)
  qed
  have bodies: "status (block (map exec body) w (env, t)) = Raised e
      \<and> last (proper (added t (block (map exec body) w (env, t)))) = ev"
    if "body \<in> set (function_bodies high_level @ function_bodies full_workflow)" and "calm w"
      and "ev \<in> set (added t (block (map exec body) w (env, t)))"
      and "raised w ev = Some e" and g: "\<not> (ev = EImport ''recirq'' \<and> catches ''ImportError'' e)"
  proof -
    from g have "\<not> handled ev e"
      by (simp add: handled_def)
    with propagates [OF sound_function_body [OF that(1)] that(2,3,4)] show ?thesis
      by simp
  qed
  from source handler first install runs bodies show ?thesis
    by blast
qed

text \<open>
  Instances: a missing checkpoint file (\<open>generate_hamiltonian_from_chk\<close> raises
  \<open>FileNotFoundError\<close>) ends the end-to-end notebook at that call; a missing dataset of
  the HDF5 file, a \<open>KeyError\<close> of the item read \<open>fh5["coeffs_rotated"]\<close>, ends it as well,
  the last operation being the exit of the \<open>with\<close> block on that \<open>KeyError\<close>. A
  \<open>ModuleNotFoundError\<close> of \<open>import recirq\<close> is followed by the \<open>%pip install\<close>. In the
  body of \<open>print_fields\<close>, called on an integer, a \<open>TypeError\<close> of \<open>attrs.asdict\<close> ends the
  body.
\<close>

theorem exceptions_propagate_witness:
  "ECall (VGlobal ''ipie.utils.from_pyscf.generate_hamiltonian_from_chk'') [VRef 34] []
     \<in> set (operations (run (raising_world
         (ECall (VGlobal ''ipie.utils.from_pyscf.generate_hamiltonian_from_chk'') [VRef 34] [])
         (OtherError ''FileNotFoundError'' [''OSError'', ''Exception'', ''BaseException''])) full_workflow))
   \<and> status (run (raising_world
         (ECall (VGlobal ''ipie.utils.from_pyscf.generate_hamiltonian_from_chk'') [VRef 34] [])
         (OtherError ''FileNotFoundError'' [''OSError'', ''Exception'', ''BaseException''])) full_workflow) =
       Raised (OtherError ''FileNotFoundError'' [''OSError'', ''Exception'', ''BaseException''])
   \<and> last (proper (operations (run (raising_world
         (ECall (VGlobal ''ipie.utils.from_pyscf.generate_hamiltonian_from_chk'') [VRef 34] [])
         (OtherError ''FileNotFoundError'' [''OSError'', ''Exception'', ''BaseException''])) full_workflow))) =
       ECall (VGlobal ''ipie.utils.from_pyscf.generate_hamiltonian_from_chk'') [VRef 34] []
   \<and> EItem (VRef 38) (VStr ''coeffs_rotated'')
     \<in> set (operations (run (raising_world (EItem (VRef 38) (VStr ''coeffs_rotated'')) KeyError) full_workflow))
   \<and> status (run (raising_world (EItem (VRef 38) (VStr ''coeffs_rotated'')) KeyError) full_workflow) =
       Raised KeyError
   \<and> last (proper (operations
         (run (raising_world (EItem (VRef 38) (VStr ''coeffs_rotated'')) KeyError) full_workflow))) =
       EItem (VRef 38) (VStr ''coeffs_rotated'')
   \<and> last (operations (run (raising_world (EItem (VRef 38) (VStr ''coeffs_rotated'')) KeyError) full_workflow)) =
       EExit (VRef 38) (Some KeyError)
   \<and> calm (raising_world (EItem (VRef 38) (VStr ''coeffs_rotated'')) KeyError)
   \<and> catches ''ImportError'' ModuleNotFoundError
   \<and> take 2 (operations (run (raising_world (EImport ''recirq'') ModuleNotFoundError) high_level)) =
       [EImport ''recirq'', EMagic ''%pip install git+https://github.com/quantumlib/ReCirq'']
   \<and> ECall (VGlobal ''attrs.asdict'') [VInt 1] []
     \<in> set (added []
         (block (map exec (last (function_bodies high_level)))
            (raising_world (ECall (VGlobal ''attrs.asdict'') [VInt 1] []) TypeError)
            ([(''x'', VInt 1), (''attrs'', VGlobal ''attrs'')], [])))
   \<and> status
         (block (map exec (last (function_bodies high_level)))
            (raising_world (ECall (VGlobal ''attrs.asdict'') [VInt 1] []) TypeError)
            ([(''x'', VInt 1), (''attrs'', VGlobal ''attrs'')], [])) = Raised TypeError"
proof -
  let ?chk = "ECall (VGlobal ''ipie.utils.from_pyscf.generate_hamiltonian_from_chk'') [VRef 34] []"
  let ?missing = "OtherError ''FileNotFoundError'' [''OSError'', ''Exception'', ''BaseException'']"
  let ?w1 = "raising_world ?chk ?missing"
  let ?item = "EItem (VRef 38) (VStr ''coeffs_rotated'')"
  let ?w2 = "raising_world ?item KeyError"
  let ?w3 = "raising_world (EImport ''recirq'') ModuleNotFoundError"
  let ?asdict = "ECall (VGlobal ''attrs.asdict'') [VInt 1] []"
  let ?w4 = "raising_world ?asdict TypeError"
  let ?body = "last (function_bodies high_level)"
  let ?st = "([(''x'', VInt 1), (''attrs'', VGlobal ''attrs'')], []) :: state"
  have k1: "calm ?w1" and k2: "calm ?w2" and k4: "calm ?w4"
    by (simp_all add: calm_raising_world is_unwinding_def)
  have "case run ?w1 full_workflow of (out, env, t) \<Rightarrow> ?chk \<in> set t"
    by code_simp
  then have m1: "?chk \<in> set (operations (run ?w1 full_workflow))"
    by (simp add: operations_def split: prod.splits)
  have r1: "raised ?w1 ?chk = Some ?missing"
    by (simp add: raised_def raising_world_def)
  have "case run ?w2 full_workflow of
      (out, env, t) \<Rightarrow> ?item \<in> set t \<and> last t = EExit (VRef 38) (Some KeyError)"
    by code_simp
  then have m2: "?item \<in> set (operations (run ?w2 full_workflow))"
    and l2: "last (operations (run ?w2 full_workflow)) = EExit (VRef 38) (Some KeyError)"
    by (simp_all add: operations_def split: prod.splits)
  have r2: "raised ?w2 ?item = Some KeyError"
    by (simp add: raised_def raising_world_def)
  have r3: "?w3 (EImport ''recirq'') = Some (Raises ModuleNotFoundError)"
    by (simp add: raising_world_def)
  have c3: "catches ''ImportError'' ModuleNotFoundError"
    by (simp add: catches_def exn_name_def base_classes_def)
  have b4: "?body \<in> set (function_bodies high_level @ function_bodies full_workflow)"
    by code_simp
  have "case block (map exec ?body) ?w4 ?st of (out, env, t) \<Rightarrow> ?asdict \<in> set t"
    by code_simp
  then have m4: "?asdict \<in> set (added [] (block (map exec ?body) ?w4 ?st))"
    by (simp add: added_def operations_def split: prod.splits)
  have r4: "raised ?w4 ?asdict = Some TypeError"
    by (simp add: raised_def raising_world_def)
  have g4: "\<not> (?asdict = EImport ''recirq'' \<and> catches ''ImportError'' TypeError)"
    by simp
  from exceptions_propagate [where name = "''ImportError''" and bases = "[]" and w = ?w1 and nb = full_workflow
      and e = ?missing and ev = ?chk and body = ?body and t = "[]" and env = "[]"] m1 r1 k1
  have "status (run ?w1 full_workflow) = Raised ?missing"
    and "last (proper (operations (run ?w1 full_workflow))) = ?chk"
    by simp_all
  moreover from exceptions_propagate [where name = "''ImportError''" and bases = "[]" and w = ?w2 and nb = full_workflow
      and e = KeyError and ev = ?item and body = ?body and t = "[]" and env = "[]"] m2 r2 k2
  have "status (run ?w2 full_workflow) = Raised KeyError"
    and "last (proper (operations (run ?w2 full_workflow))) = ?item"
    by simp_all
  moreover from exceptions_propagate [where name = "''ImportError''" and bases = "[]" and w = ?w3 and nb = high_level
      and e = ModuleNotFoundError and ev = "EImport ''attrs''" and body = ?body and t = "[]" and env = "[]"]
    r3 c3
  have "take 2 (operations (run ?w3 high_level)) =
      [EImport ''recirq'', EMagic ''%pip install git+https://github.com/quantumlib/ReCirq'']"
    by simp
  moreover from exceptions_propagate [where name = "''ImportError''" and bases = "[]" and w = ?w4 and nb = high_level
      and e = TypeError and ev = ?asdict and body = ?body and t = "[]" and env = "[(''x'', VInt 1), (''attrs'', VGlobal ''attrs'')]"] b4 m4 r4 g4 k4
  have "status (block (map exec ?body) ?w4 ?st) = Raised TypeError"
    by blast
  ultimately show ?thesis
    using m1 m2 l2 k2 c3 m4 by simp
qed

end
